theory Spec2Isabelle
  imports Complex_Main "HOL-Library.AList"
begin

section \<open>Data model of i4CastleApp\<close>

text \<open>
  The application keeps a ring of \<open>gNumFrameResources\<close> frame resources. Each update
  selects the next slot, waits for the GPU fence recorded in it, and copies the constants of
  every dirty render item and material, and the pass constants of the frame, into the
  buffers of that slot. Each draw submits the frame and records a fresh fence value in the
  slot.

  Floating-point matrices are kept as the expressions the source builds them from: a literal
  such as \<open>4.3f\<close> is the fraction written in the source, and no rounding is modelled. The
  recording of GPU commands is outside the model.
\<close>

definition gNumFrameResources :: nat where
  "gNumFrameResources = 3"

datatype angle = XMConvertToRadians rat

datatype XMMATRIX =
    Identity4x4
  | XMMatrixScaling rat rat rat
  | XMMatrixTranslation rat rat rat
  | XMMatrixRotationX angle
  | XMMatrixRotationY angle
  | XMMatrixMultiply XMMATRIX XMMATRIX
  | XMMatrixTranspose XMMATRIX
  | XMMatrixInverse XMMATRIX

type_synonym XMFLOAT2 = "rat \<times> rat"
type_synonym XMFLOAT3 = "rat \<times> rat \<times> rat"
type_synonym XMFLOAT4 = "rat \<times> rat \<times> rat \<times> rat"

datatype topology = D3D11_PRIMITIVE_TOPOLOGY_TRIANGLELIST

text \<open>
  \<open>struct RenderItem\<close>. The pointers \<open>Mat\<close> and \<open>Geo\<close> point into the maps
  \<open>mMaterials\<close> and \<open>mGeometries\<close>, whose entries are never replaced after start-up, so a
  pointer is the key of the entry it points to, and \<open>None\<close> is \<open>nullptr\<close>.
\<close>

record RenderItem =
  World :: XMMATRIX
  TexTransform :: XMMATRIX
  NumFramesDirty :: int
  ObjCBIndex :: nat
  Mat :: "string option"
  Geo :: "string option"
  PrimitiveType :: topology
  IndexCount :: nat
  StartIndexLocation :: nat
  BaseVertexLocation :: int

text \<open>The member initialisers of \<open>RenderItem\<close>; \<open>UINT ObjCBIndex = -1\<close> is \<open>2^32 - 1\<close>.\<close>

definition new_RenderItem :: RenderItem where
  "new_RenderItem =
     \<lparr>World = Identity4x4, TexTransform = Identity4x4,
      NumFramesDirty = int gNumFrameResources, ObjCBIndex = 4294967295,
      Mat = None, Geo = None, PrimitiveType = D3D11_PRIMITIVE_TOPOLOGY_TRIANGLELIST,
      IndexCount = 0, StartIndexLocation = 0, BaseVertexLocation = 0\<rparr>"

text \<open>
  Modelled from the spec: \<open>struct Material\<close> is declared in Common/d3dUtil.h, which is not
  part of the sources at hand. The spec gives it mutable shading parameters (albedo,
  roughness, Fresnel term, texture index, UV transform) and a dirty count that starts at
  the number of frame resources, as that of a render item does.
\<close>

record Material =
  Name :: string
  MatCBIndex :: nat
  DiffuseSrvHeapIndex :: nat
  mat_NumFramesDirty :: int
  DiffuseAlbedo :: "rat \<times> rat \<times> rat \<times> rat"
  FresnelR0 :: "rat \<times> rat \<times> rat"
  Roughness :: rat
  MatTransform :: XMMATRIX

text \<open>
  Modelled from the spec: \<open>ObjectConstants\<close> and \<open>MaterialData\<close> are declared in
  FrameResource.h, which is not part of the sources at hand; their fields are the ones
  \<open>UpdateObjectCBs\<close> and \<open>UpdateMaterialBuffer\<close> assign.
\<close>

record ObjectConstants =
  oc_World :: XMMATRIX
  oc_TexTransform :: XMMATRIX
  MaterialIndex :: nat

record MaterialData =
  md_DiffuseAlbedo :: "rat \<times> rat \<times> rat \<times> rat"
  md_FresnelR0 :: "rat \<times> rat \<times> rat"
  md_Roughness :: rat
  md_MatTransform :: XMMATRIX
  DiffuseMapIndex :: nat

text \<open>
  Modelled from the spec: \<open>struct Light\<close> (Common/d3dUtil.h) and
  \<open>struct PassConstants\<close> (FrameResource.h) are not part of the sources at hand. Per the
  spec the pass constants are the camera, lighting and timing globals of a whole frame;
  their fields are the ones \<open>UpdateMainPassCB\<close> assigns. \<open>Lights\<close> is the array of
  lights, indexed by position. A component of \<open>InvRenderTargetSize\<close> is \<open>None\<close> when
  the float division that computes it divides by zero.
\<close>

record Light =
  Strength :: XMFLOAT3
  Direction :: XMFLOAT3
  light_Position :: XMFLOAT3

record PassConstants =
  View :: XMMATRIX
  InvView :: XMMATRIX
  Proj :: XMMATRIX
  InvProj :: XMMATRIX
  ViewProj :: XMMATRIX
  InvViewProj :: XMMATRIX
  EyePosW :: XMFLOAT3
  RenderTargetSize :: XMFLOAT2
  InvRenderTargetSize :: "rat option \<times> rat option"
  NearZ :: rat
  FarZ :: rat
  TotalTime :: rat
  DeltaTime :: rat
  AmbientLight :: XMFLOAT4
  Lights :: "nat \<Rightarrow> Light"

text \<open>
  Modelled from the spec: \<open>struct FrameResource\<close> (FrameResource.h) and
  \<open>UploadBuffer\<close> (Common/UploadBuffer.h) are not part of the sources at hand. Per the
  spec a frame resource owns a single pass constant buffer, a per-object constant buffer
  with one slot per drawable instance, a per-material buffer with one slot per material,
  and the fence value that marks the GPU as done with it. An upload buffer is the list of
  its slots, \<open>None\<close> being a slot never written; its capacity is the length of the list.
\<close>

record FrameResource =
  PassCB :: "PassConstants option list"
  ObjectCB :: "ObjectConstants option list"
  MaterialBuffer :: "MaterialData option list"
  Fence :: nat

definition new_FrameResource :: "nat \<Rightarrow> nat \<Rightarrow> nat \<Rightarrow> FrameResource" where
  "new_FrameResource passCount objectCount materialCount =
     \<lparr>PassCB = replicate passCount None,
      ObjectCB = replicate objectCount None,
      MaterialBuffer = replicate materialCount None,
      Fence = 0\<rparr>"

text \<open>
  What the C++ leaves undefined, or throws, is a value of the model: a failed \<open>HRESULT\<close>
  thrown by \<open>ThrowIfFailed\<close>, the dereference of a null pointer, and an access past the
  end of a vector or of an upload buffer (per the spec an object-buffer index exceeding the
  capacity of its frame resource is undefined behaviour in the sample).
\<close>

datatype fault = DxException int | NullPointer | OutOfBounds

text \<open>
  Modelled from the spec: \<open>UploadBuffer::CopyData\<close> copies one element into the slot with
  the given index.
\<close>

definition CopyData :: "nat \<Rightarrow> 'a \<Rightarrow> 'a option list \<Rightarrow> fault + 'a option list" where
  "CopyData elementIndex data buf =
     (if elementIndex < length buf then Inr (buf[elementIndex := Some data])
      else Inl OutOfBounds)"

text \<open>
  The members of \<open>i4CastleApp\<close> that the frame loop reads and writes.
  \<open>mCurrFrameResource\<close> points into \<open>mFrameResources\<close>: it is the index of the element
  it points to. \<open>mMaterials\<close> is an unordered map; the association list fixes the order in
  which a loop over it visits the entries. \<open>mCurrentFence\<close> is a member of the base class
  \<open>D3DApp\<close>, a counter of submissions that never wraps in the life of the process.
  \<open>mCurrFrameResourceIndex\<close> is an \<open>int\<close> that is never negative, so \<open>%\<close> on it is
  \<open>mod\<close>.
\<close>

record App =
  mFrameResources :: "FrameResource list"
  mCurrFrameResource :: "nat option"
  mCurrFrameResourceIndex :: nat
  mCurrentFence :: nat
  mAllRitems :: "RenderItem list"
  mMaterials :: "(string \<times> Material) list"
  mMainPassCB :: PassConstants

text \<open>
  What an update reads from outside these members. The camera (Common/Camera.h), the timer
  (Common/GameTimer.h) and the size of the window (members of \<open>D3DApp\<close>) are not part of
  the sources at hand; \<open>OnKeyboardInput\<close> only moves the camera, and the values of the
  camera are those after it.
\<close>

record FrameInput =
  GetView :: XMMATRIX
  GetProj :: XMMATRIX
  GetPosition3f :: XMFLOAT3
  mClientWidth :: int
  mClientHeight :: int
  gt_TotalTime :: rat
  gt_DeltaTime :: rat

section \<open>The frame resource ring\<close>

text \<open>
  \<open>(mCurrFrameResourceIndex + 1) % gNumFrameResources\<close>, with the number of slots as a
  parameter.
\<close>

definition advance_ring :: "nat \<Rightarrow> nat \<Rightarrow> nat" where
  "advance_ring N i = (i + 1) mod N"

text \<open>
  The fence of the GPU is read through \<open>gpu\<close>: the value \<open>GetCompletedValue\<close> returns at
  each instant of a discrete clock. \<open>SetEventOnCompletion\<close> followed by
  \<open>WaitForSingleObject(eventHandle, INFINITE)\<close> returns at the first instant at which the
  fence has reached the value, and never if there is none.
\<close>

partial_function (option) WaitForFence :: "(nat \<Rightarrow> nat) \<Rightarrow> nat \<Rightarrow> nat \<Rightarrow> nat option" where
  "WaitForFence gpu fenceValue t =
     (if fenceValue \<le> gpu t then Some t else WaitForFence gpu fenceValue (Suc t))"

definition FAILED :: "int \<Rightarrow> bool" where
  "FAILED hr = (hr < 0)"

text \<open>
  Modelled from the spec: the macro \<open>ThrowIfFailed\<close> (Common/d3dUtil.h) is not part of the
  sources at hand; a failed call of the device is surfaced as a thrown \<open>DxException\<close>.
\<close>

definition ThrowIfFailed :: "int \<Rightarrow> fault + unit" where
  "ThrowIfFailed hr = (if FAILED hr then Inl (DxException hr) else Inr ())"

subsection \<open>UpdateObjectCBs\<close>

definition objConstants :: "(string \<times> Material) list \<Rightarrow> RenderItem \<Rightarrow> fault + ObjectConstants" where
  "objConstants mats e =
     (case Mat e of
        None \<Rightarrow> Inl NullPointer
      | Some n \<Rightarrow>
          (case map_of mats n of
             None \<Rightarrow> Inl NullPointer
           | Some m \<Rightarrow>
               Inr \<lparr>oc_World = XMMatrixTranspose (World e),
                    oc_TexTransform = XMMatrixTranspose (TexTransform e),
                    MaterialIndex = MatCBIndex m\<rparr>))"

fun UpdateObjectCBs_loop ::
  "(string \<times> Material) list \<Rightarrow> RenderItem list \<Rightarrow> ObjectConstants option list
     \<Rightarrow> fault + (RenderItem list \<times> ObjectConstants option list)" where
  "UpdateObjectCBs_loop mats [] cb = Inr ([], cb)"
| "UpdateObjectCBs_loop mats (e # es) cb =
     (if NumFramesDirty e > 0 then
        (case objConstants mats e of
           Inl f \<Rightarrow> Inl f
         | Inr oc \<Rightarrow>
             (case CopyData (ObjCBIndex e) oc cb of
                Inl f \<Rightarrow> Inl f
              | Inr cb1 \<Rightarrow>
                  (case UpdateObjectCBs_loop mats es cb1 of
                     Inl f \<Rightarrow> Inl f
                   | Inr (es', cb2) \<Rightarrow>
                       Inr (e\<lparr>NumFramesDirty := NumFramesDirty e - 1\<rparr> # es', cb2))))
      else
        (case UpdateObjectCBs_loop mats es cb of
           Inl f \<Rightarrow> Inl f
         | Inr (es', cb2) \<Rightarrow> Inr (e # es', cb2)))"

definition UpdateObjectCBs :: "App \<Rightarrow> fault + App" where
  "UpdateObjectCBs s =
     (case mCurrFrameResource s of
        None \<Rightarrow> Inl NullPointer
      | Some i \<Rightarrow>
          if i < length (mFrameResources s) then
            (case UpdateObjectCBs_loop (mMaterials s) (mAllRitems s)
                    (ObjectCB (mFrameResources s ! i)) of
               Inl f \<Rightarrow> Inl f
             | Inr (es', cb') \<Rightarrow>
                 Inr (s\<lparr>mAllRitems := es',
                        mFrameResources :=
                          (mFrameResources s)[i := (mFrameResources s ! i)\<lparr>ObjectCB := cb'\<rparr>]\<rparr>))
          else Inl OutOfBounds)"

subsection \<open>UpdateMaterialBuffer\<close>

definition matData :: "Material \<Rightarrow> MaterialData" where
  "matData mat =
     \<lparr>md_DiffuseAlbedo = DiffuseAlbedo mat,
      md_FresnelR0 = FresnelR0 mat,
      md_Roughness = Roughness mat,
      md_MatTransform = XMMatrixTranspose (MatTransform mat),
      DiffuseMapIndex = DiffuseSrvHeapIndex mat\<rparr>"

fun UpdateMaterialBuffer_loop ::
  "(string \<times> Material) list \<Rightarrow> MaterialData option list
     \<Rightarrow> fault + ((string \<times> Material) list \<times> MaterialData option list)" where
  "UpdateMaterialBuffer_loop [] mb = Inr ([], mb)"
| "UpdateMaterialBuffer_loop ((k, mat) # ms) mb =
     (if mat_NumFramesDirty mat > 0 then
        (case CopyData (MatCBIndex mat) (matData mat) mb of
           Inl f \<Rightarrow> Inl f
         | Inr mb1 \<Rightarrow>
             (case UpdateMaterialBuffer_loop ms mb1 of
                Inl f \<Rightarrow> Inl f
              | Inr (ms', mb2) \<Rightarrow>
                  Inr ((k, mat\<lparr>mat_NumFramesDirty := mat_NumFramesDirty mat - 1\<rparr>) # ms', mb2)))
      else
        (case UpdateMaterialBuffer_loop ms mb of
           Inl f \<Rightarrow> Inl f
         | Inr (ms', mb2) \<Rightarrow> Inr ((k, mat) # ms', mb2)))"

definition UpdateMaterialBuffer :: "App \<Rightarrow> fault + App" where
  "UpdateMaterialBuffer s =
     (case mCurrFrameResource s of
        None \<Rightarrow> Inl NullPointer
      | Some i \<Rightarrow>
          if i < length (mFrameResources s) then
            (case UpdateMaterialBuffer_loop (mMaterials s)
                    (MaterialBuffer (mFrameResources s ! i)) of
               Inl f \<Rightarrow> Inl f
             | Inr (ms', mb') \<Rightarrow>
                 Inr (s\<lparr>mMaterials := ms',
                        mFrameResources :=
                          (mFrameResources s)[i := (mFrameResources s ! i)\<lparr>MaterialBuffer := mb'\<rparr>]\<rparr>))
          else Inl OutOfBounds)"

subsection \<open>UpdateMainPassCB\<close>

text \<open>\<open>1.0f / n\<close> for an \<open>int n\<close>.\<close>

definition reciprocal :: "int \<Rightarrow> rat option" where
  "reciprocal n = (if n = 0 then None else Some (1 / of_int n))"

text \<open>The assignments to the elements of \<open>mMainPassCB.Lights\<close>, in the order of the source.\<close>

definition MainPassCB_Lights :: "(nat \<Rightarrow> Light) \<Rightarrow> (nat \<Rightarrow> Light)" where
  "MainPassCB_Lights L =
     (let L0 = L(0 := (L 0)\<lparr>Direction := (0.57735, - 0.57735, 0.57735), Strength := (0.2, 0.2, 0.2)\<rparr>);
          L1 = L0(1 := (L0 1)\<lparr>Strength := (1.0, 1.0, 1.0), light_Position := (0.0, 3.0, - 7.8)\<rparr>);
          L2 = L1(2 := (L1 2)\<lparr>Strength := (1.0, 0.0, 0.0), light_Position := (4.0, 6.0, 0.0)\<rparr>);
          L3 = L2(3 := (L2 3)\<lparr>Strength := (0.0, 1.0, 0.0), light_Position := (- 4.0, 6.0, 0.0)\<rparr>);
          L4 = L3(4 := (L3 4)\<lparr>Strength := (0.0, 0.0, 1.0), light_Position := (4.0, 6.0, 8.0)\<rparr>);
          L5 = L4(5 := (L4 5)\<lparr>Strength := (1.0, 1.0, 0.0), light_Position := (- 4.0, 6.0, 8.0)\<rparr>);
          L6 = L5(6 := (L5 6)\<lparr>Strength := (1.0, 1.0, 1.0), light_Position := (0.0, 10.0, 6.0)\<rparr>)
      in L6)"

text \<open>The value of \<open>mMainPassCB\<close> after the assignments of \<open>UpdateMainPassCB\<close>.\<close>

definition MainPassCB :: "FrameInput \<Rightarrow> PassConstants \<Rightarrow> PassConstants" where
  "MainPassCB inp pc =
     (let view = GetView inp;
          proj = GetProj inp;
          viewProj = XMMatrixMultiply view proj;
          invView = XMMatrixInverse view;
          invProj = XMMatrixInverse proj;
          invViewProj = XMMatrixInverse viewProj
      in pc\<lparr>View := XMMatrixTranspose view,
             InvView := XMMatrixTranspose invView,
             Proj := XMMatrixTranspose proj,
             InvProj := XMMatrixTranspose invProj,
             ViewProj := XMMatrixTranspose viewProj,
             InvViewProj := XMMatrixTranspose invViewProj,
             EyePosW := GetPosition3f inp,
             RenderTargetSize := (of_int (mClientWidth inp), of_int (mClientHeight inp)),
             InvRenderTargetSize := (reciprocal (mClientWidth inp), reciprocal (mClientHeight inp)),
             NearZ := 1.0,
             FarZ := 1000.0,
             TotalTime := gt_TotalTime inp,
             DeltaTime := gt_DeltaTime inp,
             AmbientLight := (0.25, 0.25, 0.35, 1.0),
             Lights := MainPassCB_Lights (Lights pc)\<rparr>)"

text \<open>
  \<open>i4CastleApp::UpdateMainPassCB\<close>: the pass constants are computed into the member
  \<open>mMainPassCB\<close> and copied into slot 0 of the pass buffer of the current frame resource.
\<close>

definition UpdateMainPassCB :: "FrameInput \<Rightarrow> App \<Rightarrow> fault + App" where
  "UpdateMainPassCB inp s =
     (let s1 = s\<lparr>mMainPassCB := MainPassCB inp (mMainPassCB s)\<rparr> in
      case mCurrFrameResource s1 of
        None \<Rightarrow> Inl NullPointer
      | Some i \<Rightarrow>
          if i < length (mFrameResources s1) then
            (case CopyData 0 (mMainPassCB s1) (PassCB (mFrameResources s1 ! i)) of
               Inl f \<Rightarrow> Inl f
             | Inr cb' \<Rightarrow>
                 Inr (s1\<lparr>mFrameResources :=
                          (mFrameResources s1)[i := (mFrameResources s1 ! i)\<lparr>PassCB := cb'\<rparr>]\<rparr>))
          else Inl OutOfBounds)"

subsection \<open>Update and Draw\<close>

definition AnimateMaterials :: "App \<Rightarrow> App" where
  "AnimateMaterials s = s"

text \<open>
  The constant-buffer part of \<open>Update\<close>, after the slot has been acquired:
  \<open>AnimateMaterials\<close>, \<open>UpdateObjectCBs\<close>, \<open>UpdateMaterialBuffer\<close> and
  \<open>UpdateMainPassCB\<close>.
\<close>

definition UpdateCBs :: "FrameInput \<Rightarrow> App \<Rightarrow> fault + App" where
  "UpdateCBs inp s =
     (case UpdateObjectCBs (AnimateMaterials s) of
        Inl f \<Rightarrow> Inl f
      | Inr s1 \<Rightarrow>
          (case UpdateMaterialBuffer s1 of
             Inl f \<Rightarrow> Inl f
           | Inr s2 \<Rightarrow> UpdateMainPassCB inp s2))"

text \<open>The first two statements of \<open>Update\<close>: cycle through the circular array.\<close>

definition select_slot :: "App \<Rightarrow> fault + App" where
  "select_slot s =
     (let i = advance_ring gNumFrameResources (mCurrFrameResourceIndex s) in
      if i < length (mFrameResources s)
      then Inr (s\<lparr>mCurrFrameResourceIndex := i, mCurrFrameResource := Some i\<rparr>)
      else Inl OutOfBounds)"

text \<open>
  \<open>i4CastleApp::Update\<close>, started at instant \<open>t\<close>. \<open>hr\<close> is the result of
  \<open>SetEventOnCompletion\<close>, should it be called, and \<open>inp\<close> is what the update reads
  of the camera, the window and the timer. The value is the instant at which \<open>Update\<close>
  returns together with its outcome, and \<open>None\<close> when it never returns.
\<close>

definition Update ::
  "(nat \<Rightarrow> nat) \<Rightarrow> int \<Rightarrow> FrameInput \<Rightarrow> nat \<Rightarrow> App \<Rightarrow> (nat \<times> (fault + App)) option" where
  "Update gpu hr inp t s =
     (case select_slot s of
        Inl f \<Rightarrow> Some (t, Inl f)
      | Inr s1 \<Rightarrow>
          (let fenceValue = Fence (mFrameResources s1 ! mCurrFrameResourceIndex s1) in
           if fenceValue \<noteq> 0 \<and> gpu t < fenceValue then
             (case ThrowIfFailed hr of
                Inl f \<Rightarrow> Some (t, Inl f)
              | Inr _ \<Rightarrow>
                  (case WaitForFence gpu fenceValue t of
                     None \<Rightarrow> None
                   | Some t' \<Rightarrow> Some (t', UpdateCBs inp s1)))
           else Some (t, UpdateCBs inp s1)))"

text \<open>
  The update cycle without the clock: what \<open>Update\<close> does to the application once the
  slot is free.
\<close>

definition update_cycle :: "FrameInput \<Rightarrow> App \<Rightarrow> fault + App" where
  "update_cycle inp s = (case select_slot s of Inl f \<Rightarrow> Inl f | Inr s1 \<Rightarrow> UpdateCBs inp s1)"

fun first_failure :: "int list \<Rightarrow> fault + unit" where
  "first_failure [] = Inr ()"
| "first_failure (hr # hrs) =
     (case ThrowIfFailed hr of Inl f \<Rightarrow> Inl f | Inr _ \<Rightarrow> first_failure hrs)"

text \<open>
  The results of the device calls of \<open>Draw\<close> that return an \<open>HRESULT\<close>, in the order
  of the calls: the reset of the allocator, the reset and the close of the command list,
  \<open>Present\<close>, and \<open>Signal\<close>.
\<close>

record DrawCalls =
  hr_cmdListAlloc_Reset :: int
  hr_mCommandList_Reset :: int
  hr_mCommandList_Close :: int
  hr_Present :: int
  hr_Signal :: int

text \<open>The four results that \<open>Draw\<close> passes to \<open>ThrowIfFailed\<close>.\<close>

definition checked_calls :: "DrawCalls \<Rightarrow> int list" where
  "checked_calls dc =
     [hr_cmdListAlloc_Reset dc, hr_mCommandList_Reset dc, hr_mCommandList_Close dc, hr_Present dc]"

definition S_OK :: int where
  "S_OK = 0"

definition all_S_OK :: DrawCalls where
  "all_S_OK =
     \<lparr>hr_cmdListAlloc_Reset = S_OK, hr_mCommandList_Reset = S_OK, hr_mCommandList_Close = S_OK,
      hr_Present = S_OK, hr_Signal = S_OK\<rparr>"

text \<open>
  \<open>i4CastleApp::Draw\<close>. The first four calls are checked with \<open>ThrowIfFailed\<close>. After
  them the fence counter is advanced and stored in the current frame resource, and
  \<open>Signal\<close> is called; its result is not looked at.
\<close>

definition Draw :: "DrawCalls \<Rightarrow> App \<Rightarrow> fault + App" where
  "Draw dc s =
     (case mCurrFrameResource s of
        None \<Rightarrow> Inl NullPointer
      | Some i \<Rightarrow>
          if i < length (mFrameResources s) then
            (case first_failure (checked_calls dc) of
               Inl f \<Rightarrow> Inl f
             | Inr _ \<Rightarrow>
                 (let newFence = mCurrentFence s + 1 in
                  Inr (s\<lparr>mCurrentFence := newFence,
                         mFrameResources :=
                           (mFrameResources s)[i := (mFrameResources s ! i)\<lparr>Fence := newFence\<rparr>]\<rparr>)))
          else Inl OutOfBounds)"

section \<open>Geometry packing\<close>

text \<open>
  \<open>GeometryGenerator::MeshData\<close> and its vertex type are declared in
  Common/GeometryGenerator.h, which is not part of the sources at hand. A mesh is taken as
  it is used: its vertices, its 32-bit indices, and \<open>GetIndices16\<close>, the list that the
  accessor of that name returns.
\<close>

record GeneratorVertex =
  Position :: XMFLOAT3
  gv_Normal :: XMFLOAT3
  TangentU :: XMFLOAT3
  gv_TexC :: XMFLOAT2

record MeshData =
  Vertices :: "GeneratorVertex list"
  Indices32 :: "nat list"
  GetIndices16 :: "nat list"

record Vertex =
  Pos :: XMFLOAT3
  Normal :: XMFLOAT3
  TexC :: XMFLOAT2

record SubmeshGeometry =
  sm_IndexCount :: nat
  sm_StartIndexLocation :: nat
  sm_BaseVertexLocation :: int

record MeshGeometry =
  VertexBufferCPU :: "Vertex list"
  IndexBufferCPU :: "nat list"
  DrawArgs :: "(string \<times> SubmeshGeometry) list"

text \<open>The fourteen meshes that \<open>BuildShapeGeometry\<close> asks the generator for.\<close>

record GeneratedMeshes =
  box :: MeshData
  grid :: MeshData
  sphere :: MeshData
  cylinder :: MeshData
  diamond :: MeshData
  wedge :: MeshData
  octahedron :: MeshData
  triangularPrism :: MeshData
  hexagon :: MeshData
  octagon :: MeshData
  cone :: MeshData
  pyramid :: MeshData
  container :: MeshData
  star :: MeshData

text \<open>
  One of the fourteen copy loops: \<open>for (i = 0; i < m.Vertices.size(); ++i, ++k)\<close>
  assigns the three fields of \<open>vertices[k]\<close>. The vector has been given its final size
  before the first loop.
\<close>

fun copy_vertices :: "GeneratorVertex list \<Rightarrow> Vertex list \<times> nat \<Rightarrow> Vertex list \<times> nat" where
  "copy_vertices [] (vertices, k) = (vertices, k)"
| "copy_vertices (v # vs) (vertices, k) =
     copy_vertices vs
       (vertices[k := (vertices ! k)\<lparr>Pos := Position v, Normal := gv_Normal v, TexC := gv_TexC v\<rparr>],
        k + 1)"

definition zero_Vertex :: Vertex where
  "zero_Vertex = \<lparr>Pos = (0, 0, 0), Normal = (0, 0, 0), TexC = (0, 0)\<rparr>"

definition submesh :: "nat \<Rightarrow> nat \<Rightarrow> nat \<Rightarrow> SubmeshGeometry" where
  "submesh indexCount startIndex baseVertex =
     \<lparr>sm_IndexCount = indexCount, sm_StartIndexLocation = startIndex,
      sm_BaseVertexLocation = int baseVertex\<rparr>"

text \<open>
  \<open>i4CastleApp::BuildShapeGeometry\<close>, up to the CPU copies of the two buffers and the
  table of draw arguments. \<open>DrawArgs[name] = submesh\<close> on the unordered map is
  \<open>AList.update\<close>.
\<close>

definition BuildShapeGeometry :: "GeneratedMeshes \<Rightarrow> MeshGeometry" where
  "BuildShapeGeometry g =
    (let boxVertexOffset = 0;
         gridVertexOffset = length (Vertices (box g));
         sphereVertexOffset = gridVertexOffset + length (Vertices (grid g));
         cylinderVertexOffset = sphereVertexOffset + length (Vertices (sphere g));
         diamondVertexOffset = cylinderVertexOffset + length (Vertices (cylinder g));
         wedgeVertexOffset = diamondVertexOffset + length (Vertices (diamond g));
         octahedronVertexOffset = wedgeVertexOffset + length (Vertices (wedge g));
         triPrismVertexOffset = octahedronVertexOffset + length (Vertices (octahedron g));
         hexagonVertexOffset = triPrismVertexOffset + length (Vertices (triangularPrism g));
         octagonVertexOffset = hexagonVertexOffset + length (Vertices (hexagon g));
         coneVertexOffset = octagonVertexOffset + length (Vertices (octagon g));
         pyramidVertexOffset = coneVertexOffset + length (Vertices (cone g));
         containerVertexOffset = pyramidVertexOffset + length (Vertices (pyramid g));
         starVertexOffset = containerVertexOffset + length (Vertices (container g));

         boxIndexOffset = 0;
         gridIndexOffset = length (Indices32 (box g));
         sphereIndexOffset = gridIndexOffset + length (Indices32 (grid g));
         cylinderIndexOffset = sphereIndexOffset + length (Indices32 (sphere g));
         diamondIndexOffset = cylinderIndexOffset + length (Indices32 (cylinder g));
         wedgeIndexOffset = diamondIndexOffset + length (Indices32 (diamond g));
         octahedronIndexOffset = wedgeIndexOffset + length (Indices32 (wedge g));
         triPrismIndexOffset = octahedronIndexOffset + length (Indices32 (octahedron g));
         hexagonIndexOffset = triPrismIndexOffset + length (Indices32 (triangularPrism g));
         octagonIndexOffset = hexagonIndexOffset + length (Indices32 (hexagon g));
         coneIndexOffset = octagonIndexOffset + length (Indices32 (octagon g));
         pyramidIndexOffset = coneIndexOffset + length (Indices32 (cone g));
         containerIndexOffset = pyramidIndexOffset + length (Indices32 (pyramid g));
         starIndexOffset = containerIndexOffset + length (Indices32 (container g));

         boxSubmesh = submesh (length (Indices32 (box g))) boxIndexOffset boxVertexOffset;
         gridSubmesh = submesh (length (Indices32 (grid g))) gridIndexOffset gridVertexOffset;
         sphereSubmesh =
           submesh (length (Indices32 (sphere g))) sphereIndexOffset sphereVertexOffset;
         cylinderSubmesh =
           submesh (length (Indices32 (cylinder g))) cylinderIndexOffset cylinderVertexOffset;
         diamondSubmesh =
           submesh (length (Indices32 (diamond g))) diamondIndexOffset diamondVertexOffset;
         wedgeSubmesh = submesh (length (Indices32 (wedge g))) wedgeIndexOffset wedgeVertexOffset;
         octahedronSubmesh =
           submesh (length (Indices32 (octahedron g))) octahedronIndexOffset octahedronVertexOffset;
         triPrismSubmesh =
           submesh (length (Indices32 (triangularPrism g))) triPrismIndexOffset triPrismVertexOffset;
         hexagonSubmesh =
           submesh (length (Indices32 (hexagon g))) hexagonIndexOffset hexagonVertexOffset;
         octagonSubmesh =
           submesh (length (Indices32 (octagon g))) octagonIndexOffset octagonVertexOffset;
         coneSubmesh = submesh (length (Indices32 (cone g))) coneIndexOffset coneVertexOffset;
         pyramidSubmesh =
           submesh (length (Indices32 (pyramid g))) pyramidIndexOffset pyramidVertexOffset;
         containerSubmesh =
           submesh (length (Indices32 (container g))) containerIndexOffset containerVertexOffset;
         starSubmesh = submesh (length (Indices32 (star g))) starIndexOffset starVertexOffset;

         totalVertexCount =
           length (Vertices (box g)) + length (Vertices (grid g)) +
           length (Vertices (sphere g)) + length (Vertices (cylinder g)) +
           length (Vertices (diamond g)) + length (Vertices (wedge g)) +
           length (Vertices (octahedron g)) + length (Vertices (triangularPrism g)) +
           length (Vertices (hexagon g)) + length (Vertices (octagon g)) +
           length (Vertices (cone g)) + length (Vertices (pyramid g)) +
           length (Vertices (container g)) + length (Vertices (star g));

         (vertices, k) =
           copy_vertices (Vertices (star g))
          (copy_vertices (Vertices (container g))
          (copy_vertices (Vertices (pyramid g))
          (copy_vertices (Vertices (cone g))
          (copy_vertices (Vertices (octagon g))
          (copy_vertices (Vertices (hexagon g))
          (copy_vertices (Vertices (triangularPrism g))
          (copy_vertices (Vertices (octahedron g))
          (copy_vertices (Vertices (wedge g))
          (copy_vertices (Vertices (diamond g))
          (copy_vertices (Vertices (cylinder g))
          (copy_vertices (Vertices (sphere g))
          (copy_vertices (Vertices (grid g))
          (copy_vertices (Vertices (box g))
             (replicate totalVertexCount zero_Vertex, 0))))))))))))));

         indices =
           GetIndices16 (box g) @ GetIndices16 (grid g) @ GetIndices16 (sphere g) @
           GetIndices16 (cylinder g) @ GetIndices16 (diamond g) @ GetIndices16 (wedge g) @
           GetIndices16 (octahedron g) @ GetIndices16 (triangularPrism g) @
           GetIndices16 (hexagon g) @ GetIndices16 (octagon g) @ GetIndices16 (cone g) @
           GetIndices16 (pyramid g) @ GetIndices16 (container g) @ GetIndices16 (star g)
     in \<lparr>VertexBufferCPU = vertices,
         IndexBufferCPU = indices,
         DrawArgs =
           AList.update ''star'' starSubmesh
          (AList.update ''container'' containerSubmesh
          (AList.update ''pyramid'' pyramidSubmesh
          (AList.update ''cone'' coneSubmesh
          (AList.update ''octagon'' octagonSubmesh
          (AList.update ''hexagon'' hexagonSubmesh
          (AList.update ''triangularPrism'' triPrismSubmesh
          (AList.update ''octahedron'' octahedronSubmesh
          (AList.update ''wedge'' wedgeSubmesh
          (AList.update ''diamond'' diamondSubmesh
          (AList.update ''cylinder'' cylinderSubmesh
          (AList.update ''sphere'' sphereSubmesh
          (AList.update ''grid'' gridSubmesh
          (AList.update ''box'' boxSubmesh [])))))))))))))\<rparr>)"

text \<open>The meshes and their names in the order in which they are packed.\<close>

definition packing_order :: "GeneratedMeshes \<Rightarrow> (string \<times> MeshData) list" where
  "packing_order g =
     [(''box'', box g), (''grid'', grid g), (''sphere'', sphere g), (''cylinder'', cylinder g),
      (''diamond'', diamond g), (''wedge'', wedge g), (''octahedron'', octahedron g),
      (''triangularPrism'', triangularPrism g), (''hexagon'', hexagon g),
      (''octagon'', octagon g), (''cone'', cone g), (''pyramid'', pyramid g),
      (''container'', container g), (''star'', star g)]"

definition convert_vertex :: "GeneratorVertex \<Rightarrow> Vertex" where
  "convert_vertex v = \<lparr>Pos = Position v, Normal = gv_Normal v, TexC = gv_TexC v\<rparr>"

text \<open>
  The packing as the specification words it: the meshes are concatenated, and each one
  records its index count, the number of indices before it and the number of vertices
  before it.
\<close>

fun spec_draw_args :: "nat \<Rightarrow> nat \<Rightarrow> (string \<times> MeshData) list \<Rightarrow> (string \<times> SubmeshGeometry) list" where
  "spec_draw_args startIndex baseVertex [] = []"
| "spec_draw_args startIndex baseVertex ((name, m) # ms) =
     (name, submesh (length (Indices32 m)) startIndex baseVertex)
       # spec_draw_args (startIndex + length (Indices32 m)) (baseVertex + length (Vertices m)) ms"

text \<open>A mesh is well formed when each of its 16-bit indices names one of its own vertices.\<close>

definition mesh_ok :: "MeshData \<Rightarrow> bool" where
  "mesh_ok m \<longleftrightarrow>
     length (GetIndices16 m) = length (Indices32 m)
     \<and> list_all (\<lambda>i. i < length (Vertices m)) (GetIndices16 m)"

text \<open>Two small meshes and a set of generated meshes made of them, to run the packing on.\<close>

definition demo_vertex :: "rat \<Rightarrow> GeneratorVertex" where
  "demo_vertex x =
     \<lparr>Position = (x, 0, 0), gv_Normal = (0, 1, 0), TangentU = (1, 0, 0), gv_TexC = (0, 0)\<rparr>"

definition demo_triangle :: MeshData where
  "demo_triangle =
     \<lparr>Vertices = [demo_vertex 0, demo_vertex 1, demo_vertex 2],
      Indices32 = [0, 1, 2], GetIndices16 = [0, 1, 2]\<rparr>"

definition demo_quad :: MeshData where
  "demo_quad =
     \<lparr>Vertices = [demo_vertex 10, demo_vertex 11, demo_vertex 12, demo_vertex 13],
      Indices32 = [0, 1, 2, 0, 2, 3], GetIndices16 = [0, 1, 2, 0, 2, 3]\<rparr>"

definition demo_meshes :: GeneratedMeshes where
  "demo_meshes =
     \<lparr>box = demo_triangle, grid = demo_quad, sphere = demo_triangle, cylinder = demo_triangle,
      diamond = demo_triangle, wedge = demo_triangle, octahedron = demo_triangle,
      triangularPrism = demo_triangle, hexagon = demo_triangle, octagon = demo_triangle,
      cone = demo_triangle, pyramid = demo_triangle, container = demo_triangle,
      star = demo_triangle\<rparr>"

section \<open>Scene construction\<close>

text \<open>
  Modelled from the spec: the member initialisers of \<open>Material\<close> (Common/d3dUtil.h) are
  not part of the sources at hand. The dirty count starts at the number of frame resources;
  the fields that \<open>BuildMaterials\<close> assigns are overwritten there.
\<close>

definition new_Material :: Material where
  "new_Material =
     \<lparr>Name = [], MatCBIndex = 4294967295, DiffuseSrvHeapIndex = 4294967295,
      mat_NumFramesDirty = int gNumFrameResources,
      DiffuseAlbedo = (1, 1, 1, 1), FresnelR0 = (0.01, 0.01, 0.01), Roughness = 0.25,
      MatTransform = Identity4x4\<rparr>"

definition bricks0 :: Material where
  "bricks0 = new_Material\<lparr>Name := ''bricks0'', MatCBIndex := 0, DiffuseSrvHeapIndex := 0,
     DiffuseAlbedo := (1, 1, 1, 1), FresnelR0 := (0.02, 0.02, 0.02), Roughness := 0.1\<rparr>"

definition stone0 :: Material where
  "stone0 = new_Material\<lparr>Name := ''stone0'', MatCBIndex := 1, DiffuseSrvHeapIndex := 1,
     DiffuseAlbedo := (1, 1, 1, 1), FresnelR0 := (0.05, 0.05, 0.05), Roughness := 0.3\<rparr>"

definition tile0 :: Material where
  "tile0 = new_Material\<lparr>Name := ''tile0'', MatCBIndex := 2, DiffuseSrvHeapIndex := 2,
     DiffuseAlbedo := (1, 1, 1, 1), FresnelR0 := (0.02, 0.02, 0.02), Roughness := 0.3\<rparr>"

definition crate0 :: Material where
  "crate0 = new_Material\<lparr>Name := ''crate0'', MatCBIndex := 3, DiffuseSrvHeapIndex := 3,
     DiffuseAlbedo := (1, 1, 1, 1), FresnelR0 := (0.05, 0.05, 0.05), Roughness := 0.2\<rparr>"

definition diamondMat :: Material where
  "diamondMat = new_Material\<lparr>Name := ''diaMat'', MatCBIndex := 4, DiffuseSrvHeapIndex := 4,
     DiffuseAlbedo := (0, 0, 1, 1), FresnelR0 := (0.05, 0.05, 0.05), Roughness := 0.3\<rparr>"

text \<open>
  \<open>i4CastleApp::BuildMaterials\<close>: five materials are made and four are stored; the line
  that would store under \<open>"diaMat"\<close> is commented out in the source.
\<close>

definition BuildMaterials :: "App \<Rightarrow> App" where
  "BuildMaterials s =
     s\<lparr>mMaterials :=
         AList.update ''crate0'' crate0
        (AList.update ''tile0'' tile0
        (AList.update ''stone0'' stone0
        (AList.update ''bricks0'' bricks0 (mMaterials s))))\<rparr>"

text \<open>
  \<open>DrawArgs["name"]\<close>; \<open>operator[]\<close> of the unordered map yields a zero submesh for a
  name that is not there.
\<close>

definition DrawArgs_at :: "(string \<times> SubmeshGeometry) list \<Rightarrow> string \<Rightarrow> SubmeshGeometry" where
  "DrawArgs_at da name =
     (case map_of da name of Some sm \<Rightarrow> sm | None \<Rightarrow> submesh 0 0 0)"

text \<open>
  The statements that fill one render item after \<open>std::make_unique<RenderItem>()\<close>. The
  material pointer is \<open>mMaterials[mat].get()\<close> and is kept as the key; every key used
  below is stored by \<open>BuildMaterials\<close>.
\<close>

definition fill_ritem ::
  "(string \<times> SubmeshGeometry) list \<Rightarrow> RenderItem \<Rightarrow> nat \<Rightarrow> string \<Rightarrow> string \<Rightarrow> RenderItem" where
  "fill_ritem da r objCBIndex mat shape =
     r\<lparr>ObjCBIndex := objCBIndex,
       Mat := Some mat,
       Geo := Some ''shapeGeo'',
       PrimitiveType := D3D11_PRIMITIVE_TOPOLOGY_TRIANGLELIST,
       IndexCount := sm_IndexCount (DrawArgs_at da shape),
       StartIndexLocation := sm_StartIndexLocation (DrawArgs_at da shape),
       BaseVertexLocation := sm_BaseVertexLocation (DrawArgs_at da shape)\<rparr>"

definition brickTexTransform :: XMMATRIX where
  "brickTexTransform = XMMatrixScaling 1.0 3.0 1.0"

definition sphereTransform :: XMMATRIX where
  "sphereTransform = XMMatrixScaling 1.4 1.4 1.4"

definition hexTransform :: XMMATRIX where
  "hexTransform = XMMatrixScaling 0.5 1.2 0.5"

definition coneTransform :: XMMATRIX where
  "coneTransform = XMMatrixScaling 0.7 0.7 0.7"

text \<open>
  The body of the first paired loop (cylinders and spheres) at counter \<open>i\<close>, on the list
  of render items and the running \<open>objCBIndex\<close>. The four items are made first and
  pushed at the end, in the order left cylinder, right cylinder, left sphere, right sphere.
\<close>

definition cyl_sphere_body ::
  "(string \<times> SubmeshGeometry) list \<Rightarrow> nat \<Rightarrow> RenderItem list \<times> nat \<Rightarrow> RenderItem list \<times> nat" where
  "cyl_sphere_body da i st =
     (let (ritems, objCBIndex) = st;
          leftCylWorld = XMMatrixTranslation (- 3.0) 2 (1.5 + of_nat i * 8.9);
          rightCylWorld = XMMatrixTranslation 3.0 2 (1.5 + of_nat i * 8.9);
          leftSphereWorld = XMMatrixTranslation (- 3.0) 5 (1.5 + of_nat i * 8.9);
          rightSphereWorld = XMMatrixTranslation 3.0 5 (1.5 + of_nat i * 8.9);
          leftCylRitem =
            fill_ritem da
              (new_RenderItem\<lparr>World := XMMatrixMultiply brickTexTransform rightCylWorld,
                               TexTransform := brickTexTransform\<rparr>)
              objCBIndex ''stone0'' ''octagon'';
          rightCylRitem =
            fill_ritem da
              (new_RenderItem\<lparr>World := XMMatrixMultiply brickTexTransform leftCylWorld,
                               TexTransform := brickTexTransform\<rparr>)
              (objCBIndex + 1) ''stone0'' ''octagon'';
          leftSphereRitem =
            fill_ritem da
              (new_RenderItem\<lparr>World := XMMatrixMultiply sphereTransform leftSphereWorld\<rparr>)
              (objCBIndex + 2) ''stone0'' ''sphere'';
          rightSphereRitem =
            fill_ritem da
              (new_RenderItem\<lparr>World := XMMatrixMultiply sphereTransform rightSphereWorld,
                               TexTransform := Identity4x4\<rparr>)
              (objCBIndex + 3) ''stone0'' ''sphere''
      in (ritems @ [leftCylRitem, rightCylRitem, leftSphereRitem, rightSphereRitem],
          objCBIndex + 4))"

definition hex_cone_body ::
  "(string \<times> SubmeshGeometry) list \<Rightarrow> nat \<Rightarrow> RenderItem list \<times> nat \<Rightarrow> RenderItem list \<times> nat" where
  "hex_cone_body da i st =
     (let (ritems, objCBIndex) = st;
          leftHexWorld = XMMatrixTranslation (- 7.0) 0.6 (0.5 + of_nat i * 12);
          rightHexWorld = XMMatrixTranslation 7.0 0.6 (0.5 + of_nat i * 12);
          leftSphereWorld = XMMatrixTranslation (- 7.0) 1.6 (0.5 + of_nat i * 12);
          rightSphereWorld = XMMatrixTranslation 7.0 1.6 (0.5 + of_nat i * 12);
          leftHexRitem =
            fill_ritem da
              (new_RenderItem\<lparr>World := XMMatrixMultiply hexTransform leftHexWorld,
                               TexTransform := brickTexTransform\<rparr>)
              objCBIndex ''crate0'' ''hexagon'';
          righHexRitem =
            fill_ritem da
              (new_RenderItem\<lparr>World := XMMatrixMultiply hexTransform rightHexWorld,
                               TexTransform := brickTexTransform\<rparr>)
              (objCBIndex + 1) ''crate0'' ''hexagon'';
          leftSphereRitem =
            fill_ritem da
              (new_RenderItem\<lparr>World := XMMatrixMultiply coneTransform leftSphereWorld\<rparr>)
              (objCBIndex + 2) ''crate0'' ''cone'';
          rightSphereRitem =
            fill_ritem da
              (new_RenderItem\<lparr>World := XMMatrixMultiply coneTransform rightSphereWorld,
                               TexTransform := Identity4x4\<rparr>)
              (objCBIndex + 3) ''crate0'' ''cone''
      in (ritems @ [leftHexRitem, righHexRitem, leftSphereRitem, rightSphereRitem],
          objCBIndex + 4))"

text \<open>
  The body of each of the five wall loops: one box of material \<open>crate0\<close> whose world
  matrix depends on the counter, pushed with \<open>objCBIndex++\<close>.
\<close>

definition wall_body ::
  "(string \<times> SubmeshGeometry) list \<Rightarrow> (nat \<Rightarrow> XMMATRIX) \<Rightarrow> nat
     \<Rightarrow> RenderItem list \<times> nat \<Rightarrow> RenderItem list \<times> nat" where
  "wall_body da world i st =
     (let (ritems, objCBIndex) = st
      in (ritems @
            [fill_ritem da
               (new_RenderItem\<lparr>World := world i, TexTransform := XMMatrixScaling 1.0 1.0 1.0\<rparr>)
               objCBIndex ''crate0'' ''box''],
          objCBIndex + 1))"

text \<open>An item built outside the loops: world and texture transform, index, material, shape.\<close>

definition ritem ::
  "(string \<times> SubmeshGeometry) list \<Rightarrow> XMMATRIX \<Rightarrow> XMMATRIX \<Rightarrow> nat \<Rightarrow> string \<Rightarrow> string \<Rightarrow> RenderItem" where
  "ritem da world tex objCBIndex mat shape =
     fill_ritem da (new_RenderItem\<lparr>World := world, TexTransform := tex\<rparr>) objCBIndex mat shape"

definition Mul3 :: "XMMATRIX \<Rightarrow> XMMATRIX \<Rightarrow> XMMATRIX \<Rightarrow> XMMATRIX" where
  "Mul3 a b c = XMMatrixMultiply (XMMatrixMultiply a b) c"

definition unitScaling :: XMMATRIX where
  "unitScaling = XMMatrixScaling 1.0 1.0 1.0"

text \<open>The sixteen items built before the first loop, in the order they are pushed.\<close>

definition ritems_0_15 :: "(string \<times> SubmeshGeometry) list \<Rightarrow> RenderItem list" where
  "ritems_0_15 da =
     [ritem da (XMMatrixMultiply (XMMatrixScaling 4.3 0.3 4.3) (XMMatrixTranslation 0 0.3 (- 8)))
        unitScaling 0 ''bricks0'' ''cylinder'',
      ritem da (XMMatrixMultiply (XMMatrixScaling 1.3 1 1.3) (XMMatrixTranslation 0 1.3 (- 8)))
        unitScaling 1 ''bricks0'' ''container'',
      ritem da (XMMatrixMultiply (XMMatrixScaling 1 1.5 1) (XMMatrixTranslation (- 3.5) 0.5 (- 8)))
        unitScaling 2 ''stone0'' ''pyramid'',
      ritem da (XMMatrixMultiply (XMMatrixScaling 1 1.5 1) (XMMatrixTranslation 3.5 0.5 (- 8)))
        unitScaling 3 ''stone0'' ''pyramid'',
      ritem da (XMMatrixMultiply (XMMatrixScaling 3 2 3) (XMMatrixTranslation 0.0 7.5 6.0))
        unitScaling 4 ''stone0'' ''cone'',
      ritem da (XMMatrixMultiply (XMMatrixScaling 5 1 5) (XMMatrixTranslation 0.0 5 6.0))
        unitScaling 5 ''stone0'' ''cylinder'',
      ritem da (XMMatrixMultiply (XMMatrixScaling 4.5 2.0 4.5) (XMMatrixTranslation 0.0 2.0 6.0))
        unitScaling 6 ''stone0'' ''hexagon'',
      ritem da (XMMatrixMultiply (XMMatrixScaling 1.5 1.5 2.5) (XMMatrixTranslation 0.0 0.5 (- 2.5)))
        unitScaling 7 ''tile0'' ''triangularPrism'',
      ritem da
        (XMMatrixMultiply
           (Mul3 (XMMatrixScaling 0.5 2.0 0.7) (XMMatrixRotationX (XMConvertToRadians (- 90)))
              (XMMatrixRotationY (XMConvertToRadians (- 30))))
           (XMMatrixTranslation (- 1.7) 0.25 (- 12.0)))
        unitScaling 8 ''tile0'' ''triangularPrism'',
      ritem da
        (XMMatrixMultiply
           (Mul3 (XMMatrixScaling 0.5 2.0 0.7) (XMMatrixRotationX (XMConvertToRadians (- 90)))
              (XMMatrixRotationY (XMConvertToRadians 60)))
           (XMMatrixTranslation 1.5 0.25 (- 12.0)))
        unitScaling 9 ''tile0'' ''triangularPrism'',
      ritem da (XMMatrixMultiply (XMMatrixScaling 0.7 0.5 0.7) (XMMatrixTranslation 0.0 2 (- 8.0)))
        unitScaling 10 ''stone0'' ''diamond'',
      ritem da (XMMatrixMultiply (XMMatrixScaling 4.5 2.0 4.5) (XMMatrixTranslation 0.0 0.5 6.0))
        unitScaling 11 ''crate0'' ''box'',
      ritem da Identity4x4 (XMMatrixScaling 8.0 8.0 1.0) 12 ''stone0'' ''grid'',
      ritem da
        (Mul3 (XMMatrixScaling 0.3 0.4 2.5) (XMMatrixRotationY (XMConvertToRadians (- 90)))
           (XMMatrixTranslation 0.0 0.35 2.5))
        unitScaling 13 ''stone0'' ''wedge'',
      ritem da (XMMatrixMultiply (XMMatrixScaling 1 1 1) (XMMatrixTranslation 3.5 2 (- 8)))
        Identity4x4 14 ''tile0'' ''octahedron'',
      ritem da (XMMatrixMultiply (XMMatrixScaling 1 1 1) (XMMatrixTranslation (- 3.5) 2 (- 8)))
        Identity4x4 15 ''tile0'' ''octahedron'']"

text \<open>The eight items built between the paired loops and the wall loops.\<close>

definition ritems_32_39 :: "(string \<times> SubmeshGeometry) list \<Rightarrow> RenderItem list" where
  "ritems_32_39 da =
     [ritem da (XMMatrixMultiply (XMMatrixScaling 0.3 0.4 4) (XMMatrixTranslation (- 3.65) 0.35 6))
        unitScaling 32 ''crate0'' ''wedge'',
      ritem da
        (Mul3 (XMMatrixScaling 0.3 0.4 4) (XMMatrixRotationY (XMConvertToRadians 180))
           (XMMatrixTranslation 3.65 0.35 6))
        unitScaling 33 ''crate0'' ''wedge'',
      ritem da
        (Mul3 (XMMatrixScaling 0.3 0.4 2.5) (XMMatrixRotationY (XMConvertToRadians 90))
           (XMMatrixTranslation 0.0 0.35 9.6))
        unitScaling 34 ''crate0'' ''wedge'',
      ritem da (XMMatrixMultiply (XMMatrixScaling 0.2 1 0.2) (XMMatrixTranslation 0 8.3 6))
        unitScaling 35 ''crate0'' ''cylinder'',
      ritem da (XMMatrixMultiply (XMMatrixScaling 0.6 1 0.6) (XMMatrixTranslation 0 9.5 6))
        unitScaling 36 ''crate0'' ''star'',
      ritem da (XMMatrixMultiply (XMMatrixScaling 0.2 2.6 8) (XMMatrixTranslation (- 7.0) 0.5 6.5))
        unitScaling 37 ''crate0'' ''box'',
      ritem da
        (Mul3 (XMMatrixScaling 0.2 2.6 9) (XMMatrixRotationY (XMConvertToRadians 90))
           (XMMatrixTranslation 0.0 0.5 12.5))
        unitScaling 38 ''crate0'' ''box'',
      ritem da (XMMatrixMultiply (XMMatrixScaling 0.2 2.6 8) (XMMatrixTranslation 7.0 0.5 6.5))
        unitScaling 39 ''crate0'' ''box'']"

text \<open>
  The render items of \<open>i4CastleApp::BuildRenderItems\<close>, pushed onto \<open>ritems\<close>. Each
  loop is \<open>for (int i = 0; i < 2; ++i)\<close> and starts from the value that the source
  assigns to \<open>objCBIndex\<close> before it.
\<close>

definition build_ritems :: "(string \<times> SubmeshGeometry) list \<Rightarrow> RenderItem list \<Rightarrow> RenderItem list" where
  "build_ritems da ritems =
     (let r0 = ritems @ ritems_0_15 da;
          (r1, _) = fold (cyl_sphere_body da) [0..<2] (r0, 16);
          (r2, _) = fold (hex_cone_body da) [0..<2] (r1, 24);
          r3 = r2 @ ritems_32_39 da;
          (r4, _) =
            fold (wall_body da (\<lambda>i.
                    Mul3 (XMMatrixScaling 0.2 2.6 3) (XMMatrixRotationY (XMConvertToRadians 90))
                      (XMMatrixTranslation (- 5 + 10 * of_nat i) 0.5 0.5)))
              [0..<2] (r3, 40);
          (r5, _) =
            fold (wall_body da (\<lambda>i.
                    Mul3 (XMMatrixScaling 0.2 2.6 2) (XMMatrixRotationY (XMConvertToRadians 90))
                      (XMMatrixTranslation (- 4 + 8 * of_nat i) 0.5 (- 5.5))))
              [0..<2] (r4, 42);
          (r6, _) =
            fold (wall_body da (\<lambda>i.
                    XMMatrixMultiply (XMMatrixScaling 0.2 2.6 4)
                      (XMMatrixTranslation (- 5.35 + 10.7 * of_nat i) 0.5 (- 8.5))))
              [0..<2] (r5, 44);
          (r7, _) =
            fold (wall_body da (\<lambda>i.
                    Mul3 (XMMatrixScaling 0.2 2.6 2) (XMMatrixRotationY (XMConvertToRadians 90))
                      (XMMatrixTranslation (- 4 + 8 * of_nat i) 0.5 (- 11.5))))
              [0..<2] (r6, 46);
          (r8, _) =
            fold (wall_body da (\<lambda>i.
                    XMMatrixMultiply (XMMatrixScaling 0.2 2.6 4.2)
                      (XMMatrixTranslation (- 2.7 + 5.4 * of_nat i) 0.5 (- 2.5))))
              [0..<2] (r7, 48)
      in r8)"

text \<open>
  \<open>i4CastleApp::BuildRenderItems\<close>. Every item reads its draw arguments through the
  pointer \<open>mGeometries["shapeGeo"].get()\<close>; the argument is the geometry stored under
  that name, \<open>None\<close> when there is none and the pointer is null.
\<close>

definition BuildRenderItems :: "MeshGeometry option \<Rightarrow> App \<Rightarrow> fault + App" where
  "BuildRenderItems shapeGeo s =
     (case shapeGeo of
        None \<Rightarrow> Inl NullPointer
      | Some geo \<Rightarrow> Inr (s\<lparr>mAllRitems := build_ritems (DrawArgs geo) (mAllRitems s)\<rparr>))"

text \<open>
  \<open>i4CastleApp::BuildFrameResources\<close>: one frame resource per pass of the loop, each with
  one pass, as many object slots as there are render items and as many material slots as
  there are materials.
\<close>

definition BuildFrameResources :: "App \<Rightarrow> App" where
  "BuildFrameResources s =
     fold (\<lambda>i s'. s'\<lparr>mFrameResources :=
                      mFrameResources s' @
                        [new_FrameResource 1 (length (mAllRitems s')) (length (mMaterials s'))]\<rparr>)
       [0..<gNumFrameResources] s"

text \<open>
  Modelled from the spec: \<open>mCurrentFence\<close> is declared in Common/d3dApp.h, which is not
  part of the sources at hand; per the spec the fence counter starts at 0.
\<close>

definition initial_mCurrentFence :: nat where
  "initial_mCurrentFence = 0"

text \<open>
  The members as the class initialises them. The initialisers of \<open>PassConstants\<close> are
  declared with the structure, outside the sources at hand: \<open>pc0\<close> is the value they give
  \<open>mMainPassCB\<close>.
\<close>

definition new_App :: "PassConstants \<Rightarrow> App" where
  "new_App pc0 =
     \<lparr>mFrameResources = [], mCurrFrameResource = None, mCurrFrameResourceIndex = 0,
      mCurrentFence = initial_mCurrentFence, mAllRitems = [], mMaterials = [],
      mMainPassCB = pc0\<rparr>"

text \<open>
  The part of \<open>i4CastleApp::Initialize\<close> that builds the scene, in the order of the
  source: geometry, materials, render items, frame resources.
\<close>

definition build_scene :: "GeneratedMeshes \<Rightarrow> PassConstants \<Rightarrow> fault + App" where
  "build_scene g pc0 =
     (case BuildRenderItems (Some (BuildShapeGeometry g)) (BuildMaterials (new_App pc0)) of
        Inl f \<Rightarrow> Inl f
      | Inr s \<Rightarrow> Inr (BuildFrameResources s))"

text \<open>
  \<open>i4CastleApp::DrawRenderItems\<close>: for each item the offset of its constants from the
  start of the object buffer and the arguments of \<open>DrawIndexedInstanced\<close>.
  \<open>objCBByteSize\<close> is the size of one slot.
\<close>

definition DrawRenderItems :: "nat \<Rightarrow> RenderItem list \<Rightarrow> (nat \<times> nat \<times> nat \<times> int) list" where
  "DrawRenderItems objCBByteSize ritems =
     map (\<lambda>ri. (ObjCBIndex ri * objCBByteSize,
                IndexCount ri, StartIndexLocation ri, BaseVertexLocation ri)) ritems"

text \<open>
  A scene of two render items and two materials with three frame resources, small enough
  to run the frame loop on. The first item and the first material are dirty, the second
  ones are not.
\<close>

definition demo_ritems :: "RenderItem list" where
  "demo_ritems =
     [ritem [] Identity4x4 unitScaling 0 ''bricks0'' ''box'',
      (ritem [] Identity4x4 unitScaling 1 ''stone0'' ''box'')\<lparr>NumFramesDirty := 0\<rparr>]"

definition demo_materials :: "(string \<times> Material) list" where
  "demo_materials = [(''bricks0'', bricks0), (''stone0'', stone0\<lparr>mat_NumFramesDirty := 0\<rparr>)]"

definition demo_Light :: Light where
  "demo_Light = \<lparr>Strength = (0, 0, 0), Direction = (0, 0, 0), light_Position = (0, 0, 0)\<rparr>"

definition demo_PassConstants :: PassConstants where
  "demo_PassConstants =
     \<lparr>View = Identity4x4, InvView = Identity4x4, Proj = Identity4x4, InvProj = Identity4x4,
      ViewProj = Identity4x4, InvViewProj = Identity4x4, EyePosW = (0, 0, 0),
      RenderTargetSize = (0, 0), InvRenderTargetSize = (None, None), NearZ = 0, FarZ = 0,
      TotalTime = 0, DeltaTime = 0, AmbientLight = (0, 0, 0, 0), Lights = (\<lambda>k. demo_Light)\<rparr>"

definition demo_input :: FrameInput where
  "demo_input =
     \<lparr>GetView = XMMatrixTranslation 0 (- 2) 15, GetProj = Identity4x4,
      GetPosition3f = (0, 2, - 15), mClientWidth = 800, mClientHeight = 600,
      gt_TotalTime = 0, gt_DeltaTime = 0\<rparr>"

definition demo_app :: App where
  "demo_app =
     BuildFrameResources
       ((new_App demo_PassConstants)\<lparr>mAllRitems := demo_ritems, mMaterials := demo_materials\<rparr>)"

text \<open>The same scene when no render item and no material is dirty.\<close>

definition demo_idle :: App where
  "demo_idle =
     demo_app\<lparr>mAllRitems := map (\<lambda>e. e\<lparr>NumFramesDirty := 0\<rparr>) demo_ritems,
              mMaterials := map (\<lambda>(n, m). (n, m\<lparr>mat_NumFramesDirty := 0\<rparr>)) demo_materials\<rparr>"

text \<open>
  The condition under which the frame loop stays inside its buffers: there are
  \<open>gNumFrameResources\<close> frame resources, and in each of them the pass buffer has a
  slot, the object buffer has a slot for the index of every render item and the material
  buffer a slot for the index of every material; the material pointer of every render item
  points to a stored material.
\<close>

definition scene_ok :: "App \<Rightarrow> bool" where
  "scene_ok s \<longleftrightarrow>
     length (mFrameResources s) = gNumFrameResources
     \<and> list_all (\<lambda>fr.
           0 < length (PassCB fr)
           \<and> list_all (\<lambda>e. ObjCBIndex e < length (ObjectCB fr)) (mAllRitems s)
           \<and> list_all (\<lambda>(n, m). MatCBIndex m < length (MaterialBuffer fr)) (mMaterials s))
         (mFrameResources s)
     \<and> list_all (\<lambda>e. case Mat e of None \<Rightarrow> False | Some n \<Rightarrow> map_of (mMaterials s) n \<noteq> None)
         (mAllRitems s)"

text \<open>
  The passes of the frame loop, \<open>Update\<close> then \<open>Draw\<close>, one for each element of
  the list of inputs, in which every wait ends and no device call fails.
\<close>

fun run_frames :: "FrameInput list \<Rightarrow> App \<Rightarrow> fault + App" where
  "run_frames [] s = Inr s"
| "run_frames (inp # inps) s =
     (case update_cycle inp s of
        Inl f \<Rightarrow> Inl f
      | Inr u \<Rightarrow> (case Draw all_S_OK u of Inl f \<Rightarrow> Inl f | Inr s' \<Rightarrow> run_frames inps s'))"

section \<open>WinMain\<close>











section \<open>Properties of the ring index\<close>

lemma advance_ring_funpow:
  "0 < k \<or> i < N \<Longrightarrow> (advance_ring N ^^ k) i = (i + k) mod N"
proof (induction k)
  case 0
  then show ?case by simp
next
  case (Suc k)
  show ?case
  proof (cases "k = 0")
    case True
    then show ?thesis by (simp add: advance_ring_def)
  next
    case False
    with Suc.IH have "(advance_ring N ^^ k) i = (i + k) mod N" by simp
    then have "(advance_ring N ^^ Suc k) i = advance_ring N ((i + k) mod N)" by simp
    also have "\<dots> = (i + Suc k) mod N" by (simp add: advance_ring_def mod_Suc_eq)
    finally show ?thesis .
  qed
qed

lemma select_slot_index:
  "select_slot s = Inr s1 \<Longrightarrow>
     mCurrFrameResourceIndex s1 = advance_ring gNumFrameResources (mCurrFrameResourceIndex s)
     \<and> mCurrFrameResource s1 = Some (mCurrFrameResourceIndex s1)
     \<and> mCurrFrameResourceIndex s1 < length (mFrameResources s1)
     \<and> mFrameResources s1 = mFrameResources s
     \<and> mAllRitems s1 = mAllRitems s \<and> mMaterials s1 = mMaterials s
     \<and> mCurrentFence s1 = mCurrentFence s"
  by (auto simp: select_slot_def Let_def split: if_splits)

lemma WaitForFence_Some:
  assumes "WaitForFence gpu f t = Some t'"
  shows "t \<le> t' \<and> f \<le> gpu t' \<and> (\<forall>u. t \<le> u \<and> u < t' \<longrightarrow> gpu u < f)"
  using assms
proof (induction gpu f t t' rule: WaitForFence.raw_induct[rotated 1, consumes 1])
  case (1 W gpu f t t')
  show ?case
  proof (cases "f \<le> gpu t")
    case True
    with 1 show ?thesis by auto
  next
    case False
    with 1(2) have w: "W gpu f (Suc t) = Some t'" by simp
    from 1(1)[OF w] have ih: "Suc t \<le> t'" "f \<le> gpu t'" "\<forall>u. Suc t \<le> u \<and> u < t' \<longrightarrow> gpu u < f"
      by auto
    have "gpu u < f" if "t \<le> u" "u < t'" for u
    proof (cases "u = t")
      case True
      with False show ?thesis by simp
    next
      case False
      with that ih(3) show ?thesis by auto
    qed
    with ih show ?thesis by auto
  qed
qed

lemma WaitForFence_terminates:
  "f \<le> gpu (t + n) \<Longrightarrow> \<exists>t'. WaitForFence gpu f t = Some t'"
proof (induction n arbitrary: t)
  case 0
  then show ?case by (subst WaitForFence.simps) simp
next
  case (Suc n)
  then have "\<exists>t'. WaitForFence gpu f (Suc t) = Some t'" by simp
  then show ?case by (subst WaitForFence.simps) simp
qed

lemma WaitForFence_None:
  assumes "\<forall>u\<ge>t. gpu u < f"
  shows "WaitForFence gpu f t = None"
proof (cases "WaitForFence gpu f t")
  case None
  then show ?thesis .
next
  case (Some t')
  from WaitForFence_Some[OF Some] assms show ?thesis by (auto simp: not_le[symmetric])
qed

subsection \<open>The loop of UpdateObjectCBs\<close>

lemma obj_loop_length:
  "UpdateObjectCBs_loop mats es cb = Inr (es', cb') \<Longrightarrow>
     length cb' = length cb \<and> length es' = length es"
proof (induction es arbitrary: cb es' cb')
  case Nil
  then show ?case by simp
next
  case (Cons e es)
  then show ?case
    by (fastforce simp: CopyData_def split: if_splits sum.splits prod.splits)
qed

lemma obj_loop_items:
  "UpdateObjectCBs_loop mats es cb = Inr (es', cb') \<Longrightarrow>
     es' = map (\<lambda>e. if 0 < NumFramesDirty e
                     then e\<lparr>NumFramesDirty := NumFramesDirty e - 1\<rparr> else e) es"
proof (induction es arbitrary: cb es' cb')
  case Nil
  then show ?case by simp
next
  case (Cons e es)
  then show ?case
    by (fastforce split: if_splits sum.splits prod.splits)
qed

lemma obj_loop_untouched:
  "UpdateObjectCBs_loop mats es cb = Inr (es', cb') \<Longrightarrow>
     \<forall>e \<in> set es. 0 < NumFramesDirty e \<longrightarrow> ObjCBIndex e \<noteq> j \<Longrightarrow>
     cb' ! j = cb ! j"
proof (induction es arbitrary: cb es' cb')
  case Nil
  then show ?case by simp
next
  case (Cons e es)
  show ?case
  proof (cases "0 < NumFramesDirty e")
    case True
    with Cons.prems(1) obtain oc cb1 es1 where
      c: "CopyData (ObjCBIndex e) oc cb = Inr cb1"
      and l: "UpdateObjectCBs_loop mats es cb1 = Inr (es1, cb')"
      by (auto split: sum.splits prod.splits)
    from Cons.prems(2) True have ne: "ObjCBIndex e \<noteq> j" by simp
    from c ne have "cb1 ! j = cb ! j"
      by (auto simp: CopyData_def split: if_splits)
    moreover from Cons.IH[OF l] Cons.prems(2) have "cb' ! j = cb1 ! j" by simp
    ultimately show ?thesis by simp
  next
    case False
    with Cons.prems(1) obtain es1 where
      l: "UpdateObjectCBs_loop mats es cb = Inr (es1, cb')"
      by (auto split: sum.splits prod.splits)
    from Cons.IH[OF l] Cons.prems(2) show ?thesis by simp
  qed
qed

lemma obj_loop_written:
  "UpdateObjectCBs_loop mats es cb = Inr (es', cb') \<Longrightarrow>
     distinct (map ObjCBIndex es) \<Longrightarrow> e \<in> set es \<Longrightarrow> 0 < NumFramesDirty e \<Longrightarrow>
     ObjCBIndex e < length cb \<and>
     (\<exists>oc. objConstants mats e = Inr oc \<and> cb' ! ObjCBIndex e = Some oc)"
proof (induction es arbitrary: cb es' cb')
  case Nil
  then show ?case by simp
next
  case (Cons x es)
  show ?case
  proof (cases "e = x")
    case True
    with Cons.prems obtain oc cb1 es1 where
      o: "objConstants mats e = Inr oc"
      and c: "CopyData (ObjCBIndex e) oc cb = Inr cb1"
      and l: "UpdateObjectCBs_loop mats es cb1 = Inr (es1, cb')"
      by (auto split: sum.splits prod.splits)
    from c have lt: "ObjCBIndex e < length cb" and w: "cb1 ! ObjCBIndex e = Some oc"
      by (auto simp: CopyData_def split: if_splits)
    from Cons.prems(2) True have "\<forall>y \<in> set es. 0 < NumFramesDirty y \<longrightarrow> ObjCBIndex y \<noteq> ObjCBIndex e"
      by (auto simp: image_iff)
    from obj_loop_untouched[OF l this] w o lt show ?thesis by simp
  next
    case False
    with Cons.prems(3) have mem: "e \<in> set es" by simp
    from Cons.prems(2) have d: "distinct (map ObjCBIndex es)" by simp
    show ?thesis
    proof (cases "0 < NumFramesDirty x")
      case True
      with Cons.prems(1) obtain oc cb1 es1 where
        c: "CopyData (ObjCBIndex x) oc cb = Inr cb1"
        and l: "UpdateObjectCBs_loop mats es cb1 = Inr (es1, cb')"
        by (auto split: sum.splits prod.splits)
      from c have "length cb1 = length cb" by (auto simp: CopyData_def split: if_splits)
      with Cons.IH[OF l d mem Cons.prems(4)] show ?thesis by simp
    next
      case False
      with Cons.prems(1) obtain es1 where
        l: "UpdateObjectCBs_loop mats es cb = Inr (es1, cb')"
        by (auto split: sum.splits prod.splits)
      from Cons.IH[OF l d mem Cons.prems(4)] show ?thesis .
    qed
  qed
qed

subsection \<open>The loop of UpdateMaterialBuffer\<close>

lemma mat_loop_length:
  "UpdateMaterialBuffer_loop ms mb = Inr (ms', mb') \<Longrightarrow>
     length mb' = length mb \<and> length ms' = length ms"
proof (induction ms arbitrary: mb ms' mb')
  case Nil
  then show ?case by simp
next
  case (Cons p ms)
  then show ?case
    by (cases p) (fastforce simp: CopyData_def split: if_splits sum.splits prod.splits)
qed

lemma mat_loop_materials:
  "UpdateMaterialBuffer_loop ms mb = Inr (ms', mb') \<Longrightarrow>
     ms' = map (\<lambda>(k, mat). (k, if 0 < mat_NumFramesDirty mat
                     then mat\<lparr>mat_NumFramesDirty := mat_NumFramesDirty mat - 1\<rparr> else mat)) ms"
proof (induction ms arbitrary: mb ms' mb')
  case Nil
  then show ?case by simp
next
  case (Cons p ms)
  then show ?case
    by (cases p) (fastforce split: if_splits sum.splits prod.splits)
qed

lemma mat_loop_untouched:
  "UpdateMaterialBuffer_loop ms mb = Inr (ms', mb') \<Longrightarrow>
     \<forall>(k, mat) \<in> set ms. 0 < mat_NumFramesDirty mat \<longrightarrow> MatCBIndex mat \<noteq> j \<Longrightarrow>
     mb' ! j = mb ! j"
proof (induction ms arbitrary: mb ms' mb')
  case Nil
  then show ?case by simp
next
  case (Cons p ms)
  obtain k mat where p: "p = (k, mat)" by (cases p)
  show ?case
  proof (cases "0 < mat_NumFramesDirty mat")
    case True
    with Cons.prems(1) p obtain mb1 ms1 where
      c: "CopyData (MatCBIndex mat) (matData mat) mb = Inr mb1"
      and l: "UpdateMaterialBuffer_loop ms mb1 = Inr (ms1, mb')"
      by (auto split: sum.splits prod.splits)
    from Cons.prems(2) True p have ne: "MatCBIndex mat \<noteq> j" by simp
    from c ne have "mb1 ! j = mb ! j"
      by (auto simp: CopyData_def split: if_splits)
    moreover from Cons.IH[OF l] Cons.prems(2) have "mb' ! j = mb1 ! j" by simp
    ultimately show ?thesis by simp
  next
    case False
    with Cons.prems(1) p obtain ms1 where
      l: "UpdateMaterialBuffer_loop ms mb = Inr (ms1, mb')"
      by (auto split: sum.splits prod.splits)
    from Cons.IH[OF l] Cons.prems(2) show ?thesis by simp
  qed
qed

subsection \<open>What one update does to the application\<close>

lemma UpdateObjectCBs_Inr:
  assumes "UpdateObjectCBs s = Inr s'"
  obtains i es' cb' where
    "mCurrFrameResource s = Some i" "i < length (mFrameResources s)"
    "UpdateObjectCBs_loop (mMaterials s) (mAllRitems s) (ObjectCB (mFrameResources s ! i))
       = Inr (es', cb')"
    "s' = s\<lparr>mAllRitems := es',
             mFrameResources :=
               (mFrameResources s)[i := (mFrameResources s ! i)\<lparr>ObjectCB := cb'\<rparr>]\<rparr>"
  using assms
  by (auto simp: UpdateObjectCBs_def split: option.splits if_splits sum.splits prod.splits)

lemma UpdateMaterialBuffer_Inr:
  assumes "UpdateMaterialBuffer s = Inr s'"
  obtains i ms' mb' where
    "mCurrFrameResource s = Some i" "i < length (mFrameResources s)"
    "UpdateMaterialBuffer_loop (mMaterials s) (MaterialBuffer (mFrameResources s ! i))
       = Inr (ms', mb')"
    "s' = s\<lparr>mMaterials := ms',
             mFrameResources :=
               (mFrameResources s)[i := (mFrameResources s ! i)\<lparr>MaterialBuffer := mb'\<rparr>]\<rparr>"
  using assms
  by (auto simp: UpdateMaterialBuffer_def UpdateMainPassCB_def split: option.splits if_splits sum.splits prod.splits)

lemma UpdateMainPassCB_Inr:
  assumes "UpdateMainPassCB inp s = Inr s'"
  obtains i where
    "mCurrFrameResource s = Some i" "i < length (mFrameResources s)"
    "0 < length (PassCB (mFrameResources s ! i))"
    "s' = s\<lparr>mMainPassCB := MainPassCB inp (mMainPassCB s),
             mFrameResources :=
               (mFrameResources s)
                 [i := (mFrameResources s ! i)
                    \<lparr>PassCB := (PassCB (mFrameResources s ! i))
                                 [0 := Some (MainPassCB inp (mMainPassCB s))]\<rparr>]\<rparr>"
  using assms
  by (auto simp: UpdateMainPassCB_def CopyData_def Let_def
           split: option.splits if_splits sum.splits)

lemma UpdateCBs_Inr:
  assumes "UpdateCBs inp s = Inr s'"
  obtains i es' cb' ms' mb' where
    "mCurrFrameResource s = Some i" "i < length (mFrameResources s)"
    "UpdateObjectCBs_loop (mMaterials s) (mAllRitems s) (ObjectCB (mFrameResources s ! i))
       = Inr (es', cb')"
    "UpdateMaterialBuffer_loop (mMaterials s) (MaterialBuffer (mFrameResources s ! i))
       = Inr (ms', mb')"
    "0 < length (PassCB (mFrameResources s ! i))"
    "s' = s\<lparr>mAllRitems := es', mMaterials := ms',
             mMainPassCB := MainPassCB inp (mMainPassCB s),
             mFrameResources :=
               (mFrameResources s)
                 [i := (mFrameResources s ! i)
                    \<lparr>ObjectCB := cb', MaterialBuffer := mb',
                     PassCB := (PassCB (mFrameResources s ! i))
                                 [0 := Some (MainPassCB inp (mMainPassCB s))]\<rparr>]\<rparr>"
proof -
  from assms obtain s1 s2 where o: "UpdateObjectCBs s = Inr s1"
    and m: "UpdateMaterialBuffer s1 = Inr s2" and pp: "UpdateMainPassCB inp s2 = Inr s'"
    by (auto simp: UpdateCBs_def AnimateMaterials_def split: sum.splits)
  from o obtain i es' cb' where
    i: "mCurrFrameResource s = Some i" "i < length (mFrameResources s)"
    and ol: "UpdateObjectCBs_loop (mMaterials s) (mAllRitems s) (ObjectCB (mFrameResources s ! i))
       = Inr (es', cb')"
    and s1: "s1 = s\<lparr>mAllRitems := es',
             mFrameResources :=
               (mFrameResources s)[i := (mFrameResources s ! i)\<lparr>ObjectCB := cb'\<rparr>]\<rparr>"
    by (rule UpdateObjectCBs_Inr)
  from m obtain i' ms' mb' where
    i': "mCurrFrameResource s1 = Some i'"
    and ml: "UpdateMaterialBuffer_loop (mMaterials s1) (MaterialBuffer (mFrameResources s1 ! i'))
       = Inr (ms', mb')"
    and s2: "s2 = s1\<lparr>mMaterials := ms',
             mFrameResources :=
               (mFrameResources s1)[i' := (mFrameResources s1 ! i')\<lparr>MaterialBuffer := mb'\<rparr>]\<rparr>"
    by (rule UpdateMaterialBuffer_Inr)
  from i' s1 i have [simp]: "i' = i" by simp
  from ml s1 i have ml': "UpdateMaterialBuffer_loop (mMaterials s) (MaterialBuffer (mFrameResources s ! i))
       = Inr (ms', mb')" by simp
  from pp obtain i'' where
    i'': "mCurrFrameResource s2 = Some i''"
    and pl: "0 < length (PassCB (mFrameResources s2 ! i''))"
    and s': "s' = s2\<lparr>mMainPassCB := MainPassCB inp (mMainPassCB s2),
             mFrameResources :=
               (mFrameResources s2)
                 [i'' := (mFrameResources s2 ! i'')
                    \<lparr>PassCB := (PassCB (mFrameResources s2 ! i''))
                                 [0 := Some (MainPassCB inp (mMainPassCB s2))]\<rparr>]\<rparr>"
    by (rule UpdateMainPassCB_Inr)
  from i'' s2 s1 i have [simp]: "i'' = i" by simp
  from pl s2 s1 i have pl': "0 < length (PassCB (mFrameResources s ! i))" by simp
  from s' s2 s1 i have "s' = s\<lparr>mAllRitems := es', mMaterials := ms',
             mMainPassCB := MainPassCB inp (mMainPassCB s),
             mFrameResources :=
               (mFrameResources s)
                 [i := (mFrameResources s ! i)
                    \<lparr>ObjectCB := cb', MaterialBuffer := mb',
                     PassCB := (PassCB (mFrameResources s ! i))
                                 [0 := Some (MainPassCB inp (mMainPassCB s))]\<rparr>]\<rparr>"
    by simp
  with i ol ml' pl' show thesis by (rule that)
qed

lemma Update_Inr:
  assumes "Update gpu hr inp t s = Some (t', Inr s')"
  obtains s1 where
    "select_slot s = Inr s1" "UpdateCBs inp s1 = Inr s'"
    "Fence (mFrameResources s1 ! mCurrFrameResourceIndex s1) = 0
       \<or> Fence (mFrameResources s1 ! mCurrFrameResourceIndex s1) \<le> gpu t'"
    "t \<le> t'"
    "\<forall>u. t \<le> u \<and> u < t' \<longrightarrow> gpu u < Fence (mFrameResources s1 ! mCurrFrameResourceIndex s1)"
proof -
  from assms obtain s1 where sel: "select_slot s = Inr s1"
    by (auto simp: Update_def split: sum.splits)
  let ?f = "Fence (mFrameResources s1 ! mCurrFrameResourceIndex s1)"
  show thesis
  proof (cases "?f \<noteq> 0 \<and> gpu t < ?f")
    case True
    with assms sel obtain w where w: "WaitForFence gpu ?f t = Some w"
      and r: "t' = w" "UpdateCBs inp s1 = Inr s'"
      by (auto simp: Update_def Let_def split: sum.splits option.splits)
    from WaitForFence_Some[OF w] r sel show thesis by (auto intro: that)
  next
    case False
    with assms sel have "t' = t" "UpdateCBs inp s1 = Inr s'"
      by (auto simp: Update_def Let_def split: sum.splits option.splits)
    with False sel show thesis by (auto intro!: that[of s1])
  qed
qed

lemma Update_update_cycle:
  "Update gpu hr inp t s = Some (t', Inr s') \<Longrightarrow> update_cycle inp s = Inr s'"
  by (erule Update_Inr) (simp add: update_cycle_def)

lemma update_cycle_Inr:
  assumes "update_cycle inp s = Inr s'"
  obtains es' cb' ms' mb' where
    "advance_ring gNumFrameResources (mCurrFrameResourceIndex s) < length (mFrameResources s)"
    "UpdateObjectCBs_loop (mMaterials s) (mAllRitems s)
       (ObjectCB (mFrameResources s ! advance_ring gNumFrameResources (mCurrFrameResourceIndex s)))
       = Inr (es', cb')"
    "UpdateMaterialBuffer_loop (mMaterials s)
       (MaterialBuffer (mFrameResources s ! advance_ring gNumFrameResources (mCurrFrameResourceIndex s)))
       = Inr (ms', mb')"
    "0 < length (PassCB (mFrameResources s
                   ! advance_ring gNumFrameResources (mCurrFrameResourceIndex s)))"
    "s' = s\<lparr>mCurrFrameResourceIndex := advance_ring gNumFrameResources (mCurrFrameResourceIndex s),
             mCurrFrameResource := Some (advance_ring gNumFrameResources (mCurrFrameResourceIndex s)),
             mAllRitems := es', mMaterials := ms',
             mMainPassCB := MainPassCB inp (mMainPassCB s),
             mFrameResources :=
               (mFrameResources s)
                 [advance_ring gNumFrameResources (mCurrFrameResourceIndex s) :=
                    (mFrameResources s ! advance_ring gNumFrameResources (mCurrFrameResourceIndex s))
                      \<lparr>ObjectCB := cb', MaterialBuffer := mb',
                       PassCB :=
                         (PassCB (mFrameResources s
                            ! advance_ring gNumFrameResources (mCurrFrameResourceIndex s)))
                           [0 := Some (MainPassCB inp (mMainPassCB s))]\<rparr>]\<rparr>"
proof -
  let ?i = "advance_ring gNumFrameResources (mCurrFrameResourceIndex s)"
  from assms obtain s1 where sel: "select_slot s = Inr s1" and u: "UpdateCBs inp s1 = Inr s'"
    by (auto simp: update_cycle_def split: sum.splits)
  from sel have s1: "s1 = s\<lparr>mCurrFrameResourceIndex := ?i, mCurrFrameResource := Some ?i\<rparr>"
    and lt: "?i < length (mFrameResources s)"
    by (auto simp: select_slot_def Let_def split: if_splits)
  from u s1 show thesis
    by (elim UpdateCBs_Inr) (rule that[OF lt], auto)
qed

lemma Draw_Inr:
  assumes "Draw dc s = Inr s'"
  obtains i where
    "mCurrFrameResource s = Some i" "i < length (mFrameResources s)"
    "s' = s\<lparr>mCurrentFence := mCurrentFence s + 1,
             mFrameResources :=
               (mFrameResources s)[i := (mFrameResources s ! i)\<lparr>Fence := mCurrentFence s + 1\<rparr>]\<rparr>"
  using assms
  by (auto simp: Draw_def Let_def split: option.splits if_splits sum.splits)

lemma demo_app_eq:
  "demo_app =
     \<lparr>mFrameResources =
        [\<lparr>PassCB = [None], ObjectCB = [None, None], MaterialBuffer = [None, None], Fence = 0\<rparr>,
         \<lparr>PassCB = [None], ObjectCB = [None, None], MaterialBuffer = [None, None], Fence = 0\<rparr>,
         \<lparr>PassCB = [None], ObjectCB = [None, None], MaterialBuffer = [None, None], Fence = 0\<rparr>],
      mCurrFrameResource = None, mCurrFrameResourceIndex = 0, mCurrentFence = 0,
      mAllRitems = demo_ritems, mMaterials = demo_materials,
      mMainPassCB = demo_PassConstants\<rparr>"
  by (simp add: demo_app_def BuildFrameResources_def new_App_def initial_mCurrentFence_def
        new_FrameResource_def
        gNumFrameResources_def upt_rec demo_ritems_def demo_materials_def)

lemma advance_ring_min_period:
  assumes "i < (N::nat)" "0 < k" "k < N"
  shows "(i + k) mod N \<noteq> i"
proof (cases "i + k < N")
  case True
  with assms show ?thesis by simp
next
  case False
  then have "(i + k) mod N = (i + k - N) mod N" by (simp add: le_mod_geq)
  also from assms False have "\<dots> = i + k - N" by simp
  finally show ?thesis using assms False by simp
qed

text \<open>
  C4. Every update moves the ring index from \<open>i\<close> to \<open>(i + 1) mod N\<close> and makes that slot
  the current frame resource; for every number of slots \<open>N \<ge> 1\<close> the index sequence has
  period \<open>N\<close>: it returns to its start after exactly \<open>N\<close> advances and not before. In
  the code \<open>N\<close> is \<open>gNumFrameResources = 3\<close>.
\<close>

theorem ring_index_periodic:
  assumes "1 \<le> N" and "i < N"
  shows "(advance_ring N ^^ N) i = i
       \<and> (\<forall>k. (advance_ring N ^^ (k + N)) i = (advance_ring N ^^ k) i)
       \<and> (\<forall>k. 0 < k \<and> k < N \<longrightarrow> (advance_ring N ^^ k) i \<noteq> i)
       \<and> gNumFrameResources = 3
       \<and> (\<forall>gpu hr inp t s t' s'. Update gpu hr inp t s = Some (t', Inr s') \<longrightarrow>
            mCurrFrameResourceIndex s'
              = advance_ring gNumFrameResources (mCurrFrameResourceIndex s)
            \<and> mCurrFrameResource s' = Some (mCurrFrameResourceIndex s'))"
proof -
  have f: "(advance_ring N ^^ k) i = (i + k) mod N" for k
    using assms(2) by (simp add: advance_ring_funpow)
  have "(advance_ring N ^^ N) i = i" using assms by (simp add: f)
  moreover have "(advance_ring N ^^ (k + N)) i = (advance_ring N ^^ k) i" for k
    by (simp add: f add.assoc[symmetric])
  moreover have "(advance_ring N ^^ k) i \<noteq> i" if "0 < k" "k < N" for k
    using advance_ring_min_period[OF assms(2) that] by (simp add: f)
  moreover have "mCurrFrameResourceIndex s'
              = advance_ring gNumFrameResources (mCurrFrameResourceIndex s)
            \<and> mCurrFrameResource s' = Some (mCurrFrameResourceIndex s')"
    if "Update gpu hr inp t s = Some (t', Inr s')" for gpu hr inp t s t' s'
  proof -
    from that have "update_cycle inp s = Inr s'" by (rule Update_update_cycle)
    then show ?thesis by (elim update_cycle_Inr) simp
  qed
  ultimately show ?thesis by (simp add: gNumFrameResources_def)
qed

theorem ring_index_periodic_witness:
  "(1::nat) \<le> 3 \<and> (0::nat) < 3
   \<and> (advance_ring 3 ^^ 3) 0 = 0
   \<and> (advance_ring 3 ^^ 1) 0 \<noteq> 0 \<and> (advance_ring 3 ^^ 2) 0 \<noteq> 0
   \<and> (\<exists>s'. Update (\<lambda>t. 0) 0 demo_input 0 demo_app = Some (0, Inr s')
           \<and> mCurrFrameResourceIndex s' = 1 \<and> mCurrFrameResource s' = Some 1)"
proof -
  have u: "\<exists>s'. Update (\<lambda>t. 0) 0 demo_input 0 demo_app = Some (0, Inr s')"
    by (simp add: demo_app_eq Update_def select_slot_def advance_ring_def gNumFrameResources_def
          UpdateCBs_def AnimateMaterials_def UpdateObjectCBs_def UpdateMaterialBuffer_def UpdateMainPassCB_def
          objConstants_def CopyData_def ritem_def fill_ritem_def new_RenderItem_def
          bricks0_def stone0_def new_Material_def Let_def demo_ritems_def demo_materials_def)
  then obtain s' where s': "Update (\<lambda>t. 0) 0 demo_input 0 demo_app = Some (0, Inr s')" ..
  have i0: "mCurrFrameResourceIndex demo_app = 0" by (simp add: demo_app_eq)
  have p: "1 \<le> (3::nat)" "(0::nat) < 3" by simp_all
  note r = ring_index_periodic[OF p]
  from r have a: "(advance_ring 3 ^^ 3) 0 = 0" by blast
  from r have b: "\<forall>k. 0 < k \<and> k < 3 \<longrightarrow> (advance_ring 3 ^^ k) 0 \<noteq> 0" by blast
  from r s' have c: "mCurrFrameResourceIndex s'
        = advance_ring gNumFrameResources (mCurrFrameResourceIndex demo_app)
      \<and> mCurrFrameResource s' = Some (mCurrFrameResourceIndex s')" by blast
  have b1: "(advance_ring 3 ^^ 1) 0 \<noteq> 0" by (rule b[rule_format]) simp
  have b2: "(advance_ring 3 ^^ 2) 0 \<noteq> 0" by (rule b[rule_format]) simp
  have "advance_ring gNumFrameResources 0 = 1"
    by (simp add: advance_ring_def gNumFrameResources_def)
  with c i0 have d: "mCurrFrameResourceIndex s' = 1" "mCurrFrameResource s' = Some 1" by simp_all
  from p a b1 b2 s' d show ?thesis by blast
qed

lemma Update_None_iff:
  "Update gpu hr inp t s = None \<longleftrightarrow>
     advance_ring gNumFrameResources (mCurrFrameResourceIndex s) < length (mFrameResources s)
     \<and> Fence (mFrameResources s ! advance_ring gNumFrameResources (mCurrFrameResourceIndex s)) \<noteq> 0
     \<and> \<not> FAILED hr
     \<and> (\<forall>u\<ge>t. gpu u
            < Fence (mFrameResources s ! advance_ring gNumFrameResources (mCurrFrameResourceIndex s)))"
  (is "?L \<longleftrightarrow> ?lt \<and> ?nz \<and> ?ok \<and> ?never")
proof
  let ?i = "advance_ring gNumFrameResources (mCurrFrameResourceIndex s)"
  let ?f = "Fence (mFrameResources s ! ?i)"
  assume L: ?L
  then have lt: ?lt
    by (auto simp: Update_def select_slot_def Let_def split: if_splits)
  with L have w: "?f \<noteq> 0 \<and> gpu t < ?f \<and> \<not> FAILED hr \<and> WaitForFence gpu ?f t = None"
    by (auto simp: Update_def select_slot_def Let_def ThrowIfFailed_def
          split: if_splits option.splits)
  have "gpu u < ?f" if "t \<le> u" for u
  proof (rule ccontr)
    assume "\<not> gpu u < ?f"
    then have "?f \<le> gpu (t + (u - t))" using that by simp
    from WaitForFence_terminates[of ?f gpu t "u - t", OF this] w show False by simp
  qed
  with lt w show "?lt \<and> ?nz \<and> ?ok \<and> ?never" by simp
next
  let ?i = "advance_ring gNumFrameResources (mCurrFrameResourceIndex s)"
  let ?f = "Fence (mFrameResources s ! ?i)"
  assume R: "?lt \<and> ?nz \<and> ?ok \<and> ?never"
  then have "WaitForFence gpu ?f t = None" by (simp add: WaitForFence_None)
  moreover from R have "gpu t < ?f" by simp
  ultimately show ?L using R
    by (simp add: Update_def select_slot_def Let_def ThrowIfFailed_def)
qed










text \<open>
  C6. One update writes only into the frame resource it has selected: every other frame
  resource is left as it was, and so is the fence of the selected one. In the selected
  frame resource it writes into three buffers. Slot 0 of the pass buffer receives the pass
  constants of the frame, on every update. In the object buffer only slots of render items
  with a positive dirty count change, and in the material buffer only slots of materials
  with a positive dirty count; where the indices are pairwise distinct, the slot of every
  item and of every material that is not dirty is unchanged.
\<close>

theorem Update_writes_only_current_dirty_slots:
  assumes "Update gpu hr inp t s = Some (t', Inr s')"
    and "i = advance_ring gNumFrameResources (mCurrFrameResourceIndex s)"
  shows "mCurrFrameResource s' = Some i
       \<and> length (mFrameResources s') = length (mFrameResources s)
       \<and> (\<forall>j. j \<noteq> i \<longrightarrow> mFrameResources s' ! j = mFrameResources s ! j)
       \<and> Fence (mFrameResources s' ! i) = Fence (mFrameResources s ! i)
       \<and> length (ObjectCB (mFrameResources s' ! i)) = length (ObjectCB (mFrameResources s ! i))
       \<and> length (MaterialBuffer (mFrameResources s' ! i))
           = length (MaterialBuffer (mFrameResources s ! i))
       \<and> (\<forall>k. (\<forall>e \<in> set (mAllRitems s). 0 < NumFramesDirty e \<longrightarrow> ObjCBIndex e \<noteq> k) \<longrightarrow>
              ObjectCB (mFrameResources s' ! i) ! k = ObjectCB (mFrameResources s ! i) ! k)
       \<and> (\<forall>k. (\<forall>(n, m) \<in> set (mMaterials s). 0 < mat_NumFramesDirty m \<longrightarrow> MatCBIndex m \<noteq> k) \<longrightarrow>
              MaterialBuffer (mFrameResources s' ! i) ! k = MaterialBuffer (mFrameResources s ! i) ! k)
       \<and> (distinct (map ObjCBIndex (mAllRitems s)) \<longrightarrow>
            (\<forall>e \<in> set (mAllRitems s). \<not> 0 < NumFramesDirty e \<longrightarrow>
               ObjectCB (mFrameResources s' ! i) ! ObjCBIndex e
                 = ObjectCB (mFrameResources s ! i) ! ObjCBIndex e))
       \<and> (distinct (map (MatCBIndex \<circ> snd) (mMaterials s)) \<longrightarrow>
            (\<forall>(n, m) \<in> set (mMaterials s). \<not> 0 < mat_NumFramesDirty m \<longrightarrow>
               MaterialBuffer (mFrameResources s' ! i) ! MatCBIndex m
                 = MaterialBuffer (mFrameResources s ! i) ! MatCBIndex m))
       \<and> 0 < length (PassCB (mFrameResources s ! i))
       \<and> PassCB (mFrameResources s' ! i)
           = (PassCB (mFrameResources s ! i))[0 := Some (MainPassCB inp (mMainPassCB s))]
       \<and> mMainPassCB s' = MainPassCB inp (mMainPassCB s)"
proof -
  from assms(1) have "update_cycle inp s = Inr s'" by (rule Update_update_cycle)
  then obtain es' cb' ms' mb' where
    lt: "i < length (mFrameResources s)"
    and pl: "0 < length (PassCB (mFrameResources s ! i))"
    and ol: "UpdateObjectCBs_loop (mMaterials s) (mAllRitems s) (ObjectCB (mFrameResources s ! i))
       = Inr (es', cb')"
    and ml: "UpdateMaterialBuffer_loop (mMaterials s) (MaterialBuffer (mFrameResources s ! i))
       = Inr (ms', mb')"
    and s': "s' = s\<lparr>mCurrFrameResourceIndex := i, mCurrFrameResource := Some i,
             mAllRitems := es', mMaterials := ms',
             mMainPassCB := MainPassCB inp (mMainPassCB s),
             mFrameResources :=
               (mFrameResources s)
                 [i := (mFrameResources s ! i)
                    \<lparr>ObjectCB := cb', MaterialBuffer := mb',
                     PassCB := (PassCB (mFrameResources s ! i))
                                 [0 := Some (MainPassCB inp (mMainPassCB s))]\<rparr>]\<rparr>"
    unfolding assms(2) by (rule update_cycle_Inr)
  from s' lt have cur: "ObjectCB (mFrameResources s' ! i) = cb'"
    "MaterialBuffer (mFrameResources s' ! i) = mb'"
    "Fence (mFrameResources s' ! i) = Fence (mFrameResources s ! i)"
    "mCurrFrameResource s' = Some i"
    "length (mFrameResources s') = length (mFrameResources s)"
    "PassCB (mFrameResources s' ! i)
       = (PassCB (mFrameResources s ! i))[0 := Some (MainPassCB inp (mMainPassCB s))]"
    "mMainPassCB s' = MainPassCB inp (mMainPassCB s)"
    by simp_all
  from s' have other: "mFrameResources s' ! j = mFrameResources s ! j" if "j \<noteq> i" for j
    using that by simp
  note ou = obj_loop_untouched[OF ol]
  note mu = mat_loop_untouched[OF ml]
  have o1: "cb' ! k = ObjectCB (mFrameResources s ! i) ! k"
    if "\<forall>e \<in> set (mAllRitems s). 0 < NumFramesDirty e \<longrightarrow> ObjCBIndex e \<noteq> k" for k
    using ou that by blast
  have m1: "mb' ! k = MaterialBuffer (mFrameResources s ! i) ! k"
    if "\<forall>(n, m) \<in> set (mMaterials s). 0 < mat_NumFramesDirty m \<longrightarrow> MatCBIndex m \<noteq> k" for k
    using mu that by blast
  have o2: "cb' ! ObjCBIndex e = ObjectCB (mFrameResources s ! i) ! ObjCBIndex e"
    if d: "distinct (map ObjCBIndex (mAllRitems s))" and e: "e \<in> set (mAllRitems s)"
      and n: "\<not> 0 < NumFramesDirty e" for e
  proof (rule o1, intro ballI impI)
    fix x assume x: "x \<in> set (mAllRitems s)" "0 < NumFramesDirty x"
    with n have ne: "x \<noteq> e" by auto
    from d have "inj_on ObjCBIndex (set (mAllRitems s))" by (simp add: distinct_map)
    from inj_onD[OF this _ x(1) e] ne show "ObjCBIndex x \<noteq> ObjCBIndex e" by blast
  qed
  have m2: "mb' ! MatCBIndex m = MaterialBuffer (mFrameResources s ! i) ! MatCBIndex m"
    if d: "distinct (map (MatCBIndex \<circ> snd) (mMaterials s))" and e: "(n, m) \<in> set (mMaterials s)"
      and nd: "\<not> 0 < mat_NumFramesDirty m" for n m
  proof (rule m1, clarify)
    fix a b assume x: "(a, b) \<in> set (mMaterials s)" "0 < mat_NumFramesDirty b"
      and eq: "MatCBIndex b = MatCBIndex m"
    from nd x(2) have ne: "(a, b) \<noteq> (n, m)" by auto
    from d have "inj_on (MatCBIndex \<circ> snd) (set (mMaterials s))" by (simp add: distinct_map)
    from inj_onD[OF this _ x(1) e] eq ne show False by simp
  qed
  have c1: "\<forall>j. j \<noteq> i \<longrightarrow> mFrameResources s' ! j = mFrameResources s ! j"
    using other by blast
  have c2: "\<forall>k. (\<forall>e \<in> set (mAllRitems s). 0 < NumFramesDirty e \<longrightarrow> ObjCBIndex e \<noteq> k) \<longrightarrow>
              ObjectCB (mFrameResources s' ! i) ! k = ObjectCB (mFrameResources s ! i) ! k"
    using o1 cur(1) by simp
  have c3: "\<forall>k. (\<forall>(n, m) \<in> set (mMaterials s). 0 < mat_NumFramesDirty m \<longrightarrow> MatCBIndex m \<noteq> k) \<longrightarrow>
              MaterialBuffer (mFrameResources s' ! i) ! k = MaterialBuffer (mFrameResources s ! i) ! k"
    using m1 cur(2) by simp
  have c4: "distinct (map ObjCBIndex (mAllRitems s)) \<longrightarrow>
            (\<forall>e \<in> set (mAllRitems s). \<not> 0 < NumFramesDirty e \<longrightarrow>
               ObjectCB (mFrameResources s' ! i) ! ObjCBIndex e
                 = ObjectCB (mFrameResources s ! i) ! ObjCBIndex e)"
    using o2 cur(1) by simp
  have c5: "distinct (map (MatCBIndex \<circ> snd) (mMaterials s)) \<longrightarrow>
            (\<forall>(n, m) \<in> set (mMaterials s). \<not> 0 < mat_NumFramesDirty m \<longrightarrow>
               MaterialBuffer (mFrameResources s' ! i) ! MatCBIndex m
                 = MaterialBuffer (mFrameResources s ! i) ! MatCBIndex m)"
  proof (intro impI ballI)
    fix x assume d: "distinct (map (MatCBIndex \<circ> snd) (mMaterials s))"
      and x: "x \<in> set (mMaterials s)"
    obtain n m where nm: "x = (n, m)" by (cases x)
    from m2[OF d] x nm cur(2)
    show "case x of (n, m) \<Rightarrow> \<not> 0 < mat_NumFramesDirty m \<longrightarrow>
               MaterialBuffer (mFrameResources s' ! i) ! MatCBIndex m
                 = MaterialBuffer (mFrameResources s ! i) ! MatCBIndex m"
      by simp
  qed
  from obj_loop_length[OF ol] cur(1)
  have l1: "length (ObjectCB (mFrameResources s' ! i)) = length (ObjectCB (mFrameResources s ! i))"
    by simp
  from mat_loop_length[OF ml] cur(2)
  have l2: "length (MaterialBuffer (mFrameResources s' ! i))
           = length (MaterialBuffer (mFrameResources s ! i))"
    by simp
  from cur(4) cur(5) c1 cur(3) l1 l2 c2 c3 c4 c5 pl cur(6) cur(7) show ?thesis
    by (intro conjI)
qed

lemma objConstants_after_loop:
  assumes "UpdateMaterialBuffer_loop ms mb = Inr (ms', mb')"
    and "Mat e' = Mat e" "World e' = World e" "TexTransform e' = TexTransform e"
  shows "objConstants ms' e' = objConstants ms e"
proof -
  let ?dec = "\<lambda>mat. if 0 < mat_NumFramesDirty mat
                     then mat\<lparr>mat_NumFramesDirty := mat_NumFramesDirty mat - 1\<rparr> else mat"
  from mat_loop_materials[OF assms(1)]
  have "ms' = map (\<lambda>(k, mat). (k, ?dec mat)) ms" by simp
  then have "map_of ms' = map_option ?dec \<circ> map_of ms" by (simp add: map_of_map)
  then have "map_of ms' n = map_option ?dec (map_of ms n)" for n by simp
  with assms(2-4) show ?thesis
    by (auto simp: objConstants_def split: option.splits)
qed

lemma item_step:
  assumes uc: "update_cycle inp s = Inr u"
    and d: "distinct (map ObjCBIndex (mAllRitems s))"
    and k: "k < length (mAllRitems s)"
    and dirty: "0 < NumFramesDirty (mAllRitems s ! k)"
    and i: "i = advance_ring gNumFrameResources (mCurrFrameResourceIndex s)"
  shows "\<exists>oc. objConstants (mMaterials s) (mAllRitems s ! k) = Inr oc
            \<and> ObjectCB (mFrameResources u ! i) ! ObjCBIndex (mAllRitems s ! k) = Some oc"
    and "mAllRitems u ! k
           = (mAllRitems s ! k)\<lparr>NumFramesDirty := NumFramesDirty (mAllRitems s ! k) - 1\<rparr>"
    and "\<forall>j. j \<noteq> i \<longrightarrow> mFrameResources u ! j = mFrameResources s ! j"
    and "mCurrFrameResourceIndex u = i" and "mCurrFrameResource u = Some i"
    and "length (mFrameResources u) = length (mFrameResources s)"
    and "map ObjCBIndex (mAllRitems u) = map ObjCBIndex (mAllRitems s)"
    and "length (mAllRitems u) = length (mAllRitems s)"
    and "objConstants (mMaterials u) (mAllRitems u ! k)
           = objConstants (mMaterials s) (mAllRitems s ! k)"
proof -
  let ?e = "mAllRitems s ! k"
  from uc obtain es' cb' ms' mb' where
    lt: "i < length (mFrameResources s)"
    and ol: "UpdateObjectCBs_loop (mMaterials s) (mAllRitems s) (ObjectCB (mFrameResources s ! i))
       = Inr (es', cb')"
    and ml: "UpdateMaterialBuffer_loop (mMaterials s) (MaterialBuffer (mFrameResources s ! i))
       = Inr (ms', mb')"
    and u: "u = s\<lparr>mCurrFrameResourceIndex := i, mCurrFrameResource := Some i,
             mAllRitems := es', mMaterials := ms',
             mMainPassCB := MainPassCB inp (mMainPassCB s),
             mFrameResources :=
               (mFrameResources s)
                 [i := (mFrameResources s ! i)
                    \<lparr>ObjectCB := cb', MaterialBuffer := mb',
                     PassCB := (PassCB (mFrameResources s ! i))
                                 [0 := Some (MainPassCB inp (mMainPassCB s))]\<rparr>]\<rparr>"
    unfolding i by (rule update_cycle_Inr)
  from k have mem: "?e \<in> set (mAllRitems s)" by simp
  from obj_loop_written[OF ol d mem dirty] u lt
  show "\<exists>oc. objConstants (mMaterials s) ?e = Inr oc
            \<and> ObjectCB (mFrameResources u ! i) ! ObjCBIndex ?e = Some oc"
    by simp
  note es = obj_loop_items[OF ol]
  from es k dirty u
  show ek: "mAllRitems u ! k = ?e\<lparr>NumFramesDirty := NumFramesDirty ?e - 1\<rparr>"
    by simp
  from u show "\<forall>j. j \<noteq> i \<longrightarrow> mFrameResources u ! j = mFrameResources s ! j" by simp
  from u show "mCurrFrameResourceIndex u = i" "mCurrFrameResource u = Some i"
    "length (mFrameResources u) = length (mFrameResources s)"
    by simp_all
  from es u show "map ObjCBIndex (mAllRitems u) = map ObjCBIndex (mAllRitems s)"
    by (simp add: comp_def)
  from es u show "length (mAllRitems u) = length (mAllRitems s)" by simp
  from u have "mMaterials u = ms'" by simp
  with objConstants_after_loop[OF ml, of "mAllRitems u ! k" ?e] ek
  show "objConstants (mMaterials u) (mAllRitems u ! k) = objConstants (mMaterials s) ?e"
    by simp
qed

lemma Draw_step:
  assumes "Draw dc u = Inr s"
  shows "mAllRitems s = mAllRitems u" and "mMaterials s = mMaterials u"
    and "mCurrFrameResourceIndex s = mCurrFrameResourceIndex u"
    and "mCurrFrameResource s = mCurrFrameResource u"
    and "length (mFrameResources s) = length (mFrameResources u)"
    and "ObjectCB (mFrameResources s ! j) = ObjectCB (mFrameResources u ! j)"
    and "MaterialBuffer (mFrameResources s ! j) = MaterialBuffer (mFrameResources u ! j)"
proof -
  from assms obtain i where
    i: "mCurrFrameResource u = Some i" "i < length (mFrameResources u)"
    and s: "s = u\<lparr>mCurrentFence := mCurrentFence u + 1,
             mFrameResources :=
               (mFrameResources u)[i := (mFrameResources u ! i)\<lparr>Fence := mCurrentFence u + 1\<rparr>]\<rparr>"
    by (rule Draw_Inr)
  from s show "mAllRitems s = mAllRitems u" "mMaterials s = mMaterials u"
    "mCurrFrameResourceIndex s = mCurrFrameResourceIndex u"
    "mCurrFrameResource s = mCurrFrameResource u"
    "length (mFrameResources s) = length (mFrameResources u)"
    by simp_all
  from s i show "ObjectCB (mFrameResources s ! j) = ObjectCB (mFrameResources u ! j)"
    by (cases "j = i") simp_all
  from s i show "MaterialBuffer (mFrameResources s ! j) = MaterialBuffer (mFrameResources u ! j)"
    by (cases "j = i") simp_all
qed

lemma ring_three_distinct:
  assumes "i1 = advance_ring gNumFrameResources i0"
    and "i2 = advance_ring gNumFrameResources i1"
    and "i3 = advance_ring gNumFrameResources i2"
  shows "i1 \<noteq> i2 \<and> i2 \<noteq> i3 \<and> i1 \<noteq> i3 \<and> i1 < 3 \<and> i2 < 3 \<and> i3 < 3"
proof -
  have "i1 < 3" using assms(1) by (simp add: advance_ring_def gNumFrameResources_def)
  then consider "i1 = 0" | "i1 = 1" | "i1 = 2" by linarith
  then show ?thesis using assms(2,3)
    by cases (simp_all add: advance_ring_def gNumFrameResources_def)
qed

subsection \<open>The frame loop stays inside its buffers\<close>

lemma obj_loop_ok:
  assumes "list_all (\<lambda>e. ObjCBIndex e < length cb) es"
    and "list_all (\<lambda>e. case Mat e of None \<Rightarrow> False | Some n \<Rightarrow> map_of mats n \<noteq> None) es"
  shows "\<exists>es' cb'. UpdateObjectCBs_loop mats es cb = Inr (es', cb')"
  using assms
proof (induction es arbitrary: cb)
  case Nil
  then show ?case by simp
next
  case (Cons e es)
  from Cons.prems(2) obtain oc where oc: "objConstants mats e = Inr oc"
    by (auto simp: objConstants_def split: option.splits)
  from Cons.prems(1) have lt: "ObjCBIndex e < length cb" by simp
  have "\<exists>es' cb'. UpdateObjectCBs_loop mats es c = Inr (es', cb')" if "length c = length cb" for c
    using Cons.IH[of c] Cons.prems that by simp
  from this[of cb] this[of "cb[ObjCBIndex e := Some oc]"] oc lt show ?case
    by (auto simp: CopyData_def)
qed

lemma mat_loop_ok:
  assumes "list_all (\<lambda>(n, m). MatCBIndex m < length mb) ms"
  shows "\<exists>ms' mb'. UpdateMaterialBuffer_loop ms mb = Inr (ms', mb')"
  using assms
proof (induction ms arbitrary: mb)
  case Nil
  then show ?case by simp
next
  case (Cons p ms)
  obtain k mat where p: "p = (k, mat)" by (cases p)
  from Cons.prems p have lt: "MatCBIndex mat < length mb" by simp
  have "\<exists>ms' mb'. UpdateMaterialBuffer_loop ms c = Inr (ms', mb')" if "length c = length mb" for c
    using Cons.IH[of c] Cons.prems that by simp
  from this[of mb] this[of "mb[MatCBIndex mat := Some (matData mat)]"] p lt show ?case
    by (auto simp: CopyData_def)
qed

lemma scene_ok_D:
  assumes "scene_ok s" "i < length (mFrameResources s)"
  shows "list_all (\<lambda>e. ObjCBIndex e < length (ObjectCB (mFrameResources s ! i))) (mAllRitems s)"
    and "list_all (\<lambda>(n, m). MatCBIndex m < length (MaterialBuffer (mFrameResources s ! i)))
           (mMaterials s)"
    and "0 < length (PassCB (mFrameResources s ! i))"
  using assms by (auto simp: scene_ok_def list_all_length)

lemma update_cycle_ok:
  assumes ok: "scene_ok s"
  shows "\<exists>u. update_cycle inp s = Inr u \<and> scene_ok u"
proof -
  let ?i = "advance_ring gNumFrameResources (mCurrFrameResourceIndex s)"
  let ?dec = "\<lambda>mat. if 0 < mat_NumFramesDirty mat
                     then mat\<lparr>mat_NumFramesDirty := mat_NumFramesDirty mat - 1\<rparr> else mat"
  let ?pc = "MainPassCB inp (mMainPassCB s)"
  from ok have len: "length (mFrameResources s) = gNumFrameResources" by (simp add: scene_ok_def)
  then have lt: "?i < length (mFrameResources s)"
    by (simp add: advance_ring_def gNumFrameResources_def)
  from ok have mats: "list_all (\<lambda>e. case Mat e of None \<Rightarrow> False
          | Some n \<Rightarrow> map_of (mMaterials s) n \<noteq> None) (mAllRitems s)"
    by (simp add: scene_ok_def)
  from obj_loop_ok[OF scene_ok_D(1)[OF ok lt] mats] obtain es' cb' where
    ol: "UpdateObjectCBs_loop (mMaterials s) (mAllRitems s) (ObjectCB (mFrameResources s ! ?i))
       = Inr (es', cb')" by blast
  from mat_loop_ok[OF scene_ok_D(2)[OF ok lt]] obtain ms' mb' where
    ml: "UpdateMaterialBuffer_loop (mMaterials s) (MaterialBuffer (mFrameResources s ! ?i))
       = Inr (ms', mb')" by blast
  note pl = scene_ok_D(3)[OF ok lt]
  let ?fr' = "(mFrameResources s ! ?i)
                \<lparr>ObjectCB := cb', MaterialBuffer := mb',
                 PassCB := (PassCB (mFrameResources s ! ?i))[0 := Some ?pc]\<rparr>"
  let ?u = "s\<lparr>mCurrFrameResourceIndex := ?i, mCurrFrameResource := Some ?i,
             mAllRitems := es', mMaterials := ms', mMainPassCB := ?pc,
             mFrameResources := (mFrameResources s)[?i := ?fr']\<rparr>"
  from lt ol ml pl have uc: "update_cycle inp s = Inr ?u"
    by (simp add: update_cycle_def select_slot_def Let_def UpdateCBs_def AnimateMaterials_def
          UpdateObjectCBs_def UpdateMaterialBuffer_def UpdateMainPassCB_def CopyData_def)
  note es = obj_loop_items[OF ol]
  note ms = mat_loop_materials[OF ml]
  from ms have mo: "map_of ms' = map_option ?dec \<circ> map_of (mMaterials s)"
    by (simp add: map_of_map)
  have lens: "length cb' = length (ObjectCB (mFrameResources s ! ?i))"
    "length mb' = length (MaterialBuffer (mFrameResources s ! ?i))"
    using obj_loop_length[OF ol] mat_loop_length[OF ml] by simp_all
  have a: "list_all (\<lambda>e. case Mat e of None \<Rightarrow> False | Some n \<Rightarrow> map_of ms' n \<noteq> None) es'"
    using mats unfolding es mo by (auto simp: list_all_iff split: option.splits)
  have b: "0 < length (PassCB fr)
           \<and> list_all (\<lambda>e. ObjCBIndex e < length (ObjectCB fr)) es'
           \<and> list_all (\<lambda>(n, m). MatCBIndex m < length (MaterialBuffer fr)) ms'"
    if fr: "fr \<in> set ((mFrameResources s)[?i := ?fr'])" for fr
  proof -
    from fr obtain fr0 where fr0: "fr0 \<in> set (mFrameResources s)"
      and l: "length (ObjectCB fr) = length (ObjectCB fr0)"
        "length (MaterialBuffer fr) = length (MaterialBuffer fr0)"
        "length (PassCB fr) = length (PassCB fr0)"
    proof (cases "fr \<in> set (mFrameResources s)")
      case True
      then show ?thesis by (rule that) simp_all
    next
      case False
      with fr have "fr = ?fr'"
        using set_update_subset_insert by fastforce
      with lens lt show ?thesis by (intro that[of "mFrameResources s ! ?i"]) simp_all
    qed
    from ok fr0 have "list_all (\<lambda>e. ObjCBIndex e < length (ObjectCB fr0)) (mAllRitems s)"
      "list_all (\<lambda>(n, m). MatCBIndex m < length (MaterialBuffer fr0)) (mMaterials s)"
      "0 < length (PassCB fr0)"
      by (auto simp: scene_ok_def list_all_iff)
    with l show ?thesis unfolding es ms by (auto simp: list_all_iff)
  qed
  have sel: "mFrameResources ?u = (mFrameResources s)[?i := ?fr']"
    "mAllRitems ?u = es'" "mMaterials ?u = ms'"
    by simp_all
  from len a b have "scene_ok ?u"
    unfolding scene_ok_def sel list_all_iff by simp
  with uc show ?thesis by blast
qed

lemma first_failure_all_S_OK: "first_failure (checked_calls all_S_OK) = Inr ()"
  by (simp add: checked_calls_def all_S_OK_def S_OK_def ThrowIfFailed_def FAILED_def)

lemma Draw_ok:
  assumes ok: "scene_ok u" and cur: "mCurrFrameResource u = Some i" "i < gNumFrameResources"
    and dc: "first_failure (checked_calls dc) = Inr ()"
  shows "\<exists>s. Draw dc u = Inr s \<and> scene_ok s"
proof -
  let ?frs = "(mFrameResources u)[i := (mFrameResources u ! i)\<lparr>Fence := mCurrentFence u + 1\<rparr>]"
  let ?s = "u\<lparr>mCurrentFence := mCurrentFence u + 1, mFrameResources := ?frs\<rparr>"
  from ok cur have lt: "i < length (mFrameResources u)" by (simp add: scene_ok_def)
  with cur dc have d: "Draw dc u = Inr ?s" by (simp add: Draw_def Let_def)
  have b: "0 < length (PassCB fr)
           \<and> list_all (\<lambda>e. ObjCBIndex e < length (ObjectCB fr)) (mAllRitems u)
           \<and> list_all (\<lambda>(n, m). MatCBIndex m < length (MaterialBuffer fr)) (mMaterials u)"
    if fr: "fr \<in> set ?frs" for fr
  proof -
    from fr obtain fr0 where fr0: "fr0 \<in> set (mFrameResources u)"
      and l: "length (ObjectCB fr) = length (ObjectCB fr0)"
        "length (MaterialBuffer fr) = length (MaterialBuffer fr0)"
        "length (PassCB fr) = length (PassCB fr0)"
    proof (cases "fr \<in> set (mFrameResources u)")
      case True
      then show ?thesis by (rule that) simp_all
    next
      case False
      with fr have "fr = (mFrameResources u ! i)\<lparr>Fence := mCurrentFence u + 1\<rparr>"
        using set_update_subset_insert by fastforce
      with lt show ?thesis by (intro that[of "mFrameResources u ! i"]) simp_all
    qed
    from ok fr0 have "list_all (\<lambda>e. ObjCBIndex e < length (ObjectCB fr0)) (mAllRitems u)"
      "list_all (\<lambda>(n, m). MatCBIndex m < length (MaterialBuffer fr0)) (mMaterials u)"
      "0 < length (PassCB fr0)"
      by (auto simp: scene_ok_def list_all_iff)
    with l show ?thesis by (auto simp: list_all_iff)
  qed
  from ok have "length (mFrameResources u) = gNumFrameResources"
    "list_all (\<lambda>e. case Mat e of None \<Rightarrow> False | Some n \<Rightarrow> map_of (mMaterials u) n \<noteq> None)
         (mAllRitems u)"
    by (simp_all add: scene_ok_def)
  moreover have sel: "mFrameResources ?s = ?frs"
    "mAllRitems ?s = mAllRitems u" "mMaterials ?s = mMaterials u"
    by simp_all
  ultimately have "scene_ok ?s"
    using b unfolding scene_ok_def sel list_all_iff by simp
  with d show ?thesis by blast
qed

lemma run_frames_ok:
  "scene_ok s \<Longrightarrow> \<exists>s'. run_frames inps s = Inr s' \<and> scene_ok s'"
proof (induction inps arbitrary: s)
  case Nil
  then show ?case by simp
next
  case (Cons inp inps)
  from update_cycle_ok[OF Cons.prems] obtain u where u: "update_cycle inp s = Inr u" "scene_ok u"
    by blast
  from u(1) have cur: "mCurrFrameResource u
      = Some (advance_ring gNumFrameResources (mCurrFrameResourceIndex s))"
    by (elim update_cycle_Inr) simp
  have "advance_ring gNumFrameResources (mCurrFrameResourceIndex s) < gNumFrameResources"
    by (simp add: advance_ring_def gNumFrameResources_def)
  from Draw_ok[OF u(2) cur this first_failure_all_S_OK] obtain s1 where
    s1: "Draw all_S_OK u = Inr s1" "scene_ok s1"
    by auto
  from Cons.IH[OF s1(2)] u(1) s1(1) show ?case by simp
qed

lemma Update_returns:
  assumes "\<exists>n. Fence (mFrameResources s ! advance_ring gNumFrameResources (mCurrFrameResourceIndex s))
            \<le> gpu (t + n)"
    and "\<not> FAILED hr"
  shows "\<exists>t'. Update gpu hr inp t s = Some (t', update_cycle inp s)"
proof -
  let ?f = "Fence (mFrameResources s ! advance_ring gNumFrameResources (mCurrFrameResourceIndex s))"
  from assms(1) obtain n where "?f \<le> gpu (t + n)" ..
  from WaitForFence_terminates[of ?f gpu t n, OF this] obtain w where
    "WaitForFence gpu ?f t = Some w" ..
  with assms(2) show ?thesis
    by (auto simp: Update_def update_cycle_def select_slot_def Let_def ThrowIfFailed_def
          split: sum.splits)
qed

text \<open>
  C2. A render item whose dirty count is \<open>gNumFrameResources = 3\<close> is copied by each of
  the next three updates: every one of them computes the payload (the transposed world and
  texture transforms and the index of the material), stores it at the slot of the item in
  the object buffer of the frame resource it has selected, and lowers the dirty count by
  one. The count is 2, 1 and 0 after the first, second and third update; a frame resource
  keeps its old contents at the slot until its own turn, and after the third update all
  three hold the payload.
\<close>

theorem dirty_item_reaches_every_frame_resource:
  assumes d: "distinct (map ObjCBIndex (mAllRitems s0))"
    and k: "k < length (mAllRitems s0)"
    and e: "e = mAllRitems s0 ! k"
    and n: "NumFramesDirty e = int gNumFrameResources"
    and i1: "i1 = advance_ring gNumFrameResources (mCurrFrameResourceIndex s0)"
    and i2: "i2 = advance_ring gNumFrameResources i1"
    and i3: "i3 = advance_ring gNumFrameResources i2"
    and U1: "Update gpu hr1 inp1 t0 s0 = Some (t1, Inr u1)" and D1: "Draw dc1 u1 = Inr s1"
    and U2: "Update gpu hr2 inp2 t1 s1 = Some (t2, Inr u2)" and D2: "Draw dc2 u2 = Inr s2"
    and U3: "Update gpu hr3 inp3 t2 s2 = Some (t3, Inr u3)"
  shows "\<exists>name m. Mat e = Some name \<and> map_of (mMaterials s0) name = Some m \<and>
     (let oc = \<lparr>oc_World = XMMatrixTranspose (World e),
                oc_TexTransform = XMMatrixTranspose (TexTransform e),
                MaterialIndex = MatCBIndex m\<rparr>;
          slot = ObjCBIndex e
      in ObjectCB (mFrameResources u1 ! i1) ! slot = Some oc
       \<and> NumFramesDirty (mAllRitems u1 ! k) = 2
       \<and> ObjectCB (mFrameResources u1 ! i2) ! slot = ObjectCB (mFrameResources s0 ! i2) ! slot
       \<and> ObjectCB (mFrameResources u1 ! i3) ! slot = ObjectCB (mFrameResources s0 ! i3) ! slot
       \<and> ObjectCB (mFrameResources u2 ! i2) ! slot = Some oc
       \<and> NumFramesDirty (mAllRitems u2 ! k) = 1
       \<and> ObjectCB (mFrameResources u2 ! i3) ! slot = ObjectCB (mFrameResources s0 ! i3) ! slot
       \<and> ObjectCB (mFrameResources u3 ! i3) ! slot = Some oc
       \<and> NumFramesDirty (mAllRitems u3 ! k) = 0
       \<and> (\<forall>j<gNumFrameResources. ObjectCB (mFrameResources u3 ! j) ! slot = Some oc))"
proof -
  note ring = ring_three_distinct[OF i1 i2 i3]
  let ?slot = "ObjCBIndex e"
  \<comment> \<open>first update\<close>
  from U1 have c1: "update_cycle inp1 s0 = Inr u1" by (rule Update_update_cycle)
  from n e have dirty0: "0 < NumFramesDirty (mAllRitems s0 ! k)"
    by (simp add: gNumFrameResources_def)
  note st1 = item_step[OF c1 d k dirty0 i1]
  from st1(1) e obtain oc where oc: "objConstants (mMaterials s0) e = Inr oc"
    and w1: "ObjectCB (mFrameResources u1 ! i1) ! ?slot = Some oc" by auto
  from oc obtain name m where nm: "Mat e = Some name" "map_of (mMaterials s0) name = Some m"
    and oc_eq: "oc = \<lparr>oc_World = XMMatrixTranspose (World e),
                oc_TexTransform = XMMatrixTranspose (TexTransform e),
                MaterialIndex = MatCBIndex m\<rparr>"
    by (auto simp: objConstants_def split: option.splits)
  from st1(2) e n have n1: "NumFramesDirty (mAllRitems u1 ! k) = 2"
    and slot1: "ObjCBIndex (mAllRitems u1 ! k) = ?slot"
    by (simp_all add: gNumFrameResources_def)
  from st1(3) ring have keep1: "mFrameResources u1 ! i2 = mFrameResources s0 ! i2"
    "mFrameResources u1 ! i3 = mFrameResources s0 ! i3" by simp_all
  \<comment> \<open>first draw\<close>
  note dr1 = Draw_step[OF D1]
  from dr1(1) st1(7) d have d1: "distinct (map ObjCBIndex (mAllRitems s1))" by simp
  from dr1(1) st1(8) k have k1: "k < length (mAllRitems s1)" by simp
  from dr1(1) n1 have dirty1: "0 < NumFramesDirty (mAllRitems s1 ! k)" by simp
  from dr1(3) st1(4) i2
  have i2': "i2 = advance_ring gNumFrameResources (mCurrFrameResourceIndex s1)" by simp
  \<comment> \<open>second update\<close>
  from U2 have c2: "update_cycle inp2 s1 = Inr u2" by (rule Update_update_cycle)
  note st2 = item_step[OF c2 d1 k1 dirty1 i2']
  from st2(1) dr1(1,2) st1(9) oc e slot1
  have w2: "ObjectCB (mFrameResources u2 ! i2) ! ?slot = Some oc" by simp
  from st2(2) dr1(1) n1 slot1 have n2: "NumFramesDirty (mAllRitems u2 ! k) = 1"
    and slot2: "ObjCBIndex (mAllRitems u2 ! k) = ?slot" by simp_all
  from st2(3) ring have keep2: "mFrameResources u2 ! i1 = mFrameResources s1 ! i1"
    "mFrameResources u2 ! i3 = mFrameResources s1 ! i3" by simp_all
  from st2(9) dr1(1,2) st1(9) oc e
  have oc2: "objConstants (mMaterials u2) (mAllRitems u2 ! k) = Inr oc" by simp
  \<comment> \<open>second draw\<close>
  note dr2 = Draw_step[OF D2]
  from dr2(1) st2(7) d1 have d2: "distinct (map ObjCBIndex (mAllRitems s2))" by simp
  from dr2(1) st2(8) k1 have k2: "k < length (mAllRitems s2)" by simp
  from dr2(1) n2 have dirty2: "0 < NumFramesDirty (mAllRitems s2 ! k)" by simp
  from dr2(3) st2(4) i3
  have i3': "i3 = advance_ring gNumFrameResources (mCurrFrameResourceIndex s2)" by simp
  \<comment> \<open>third update\<close>
  from U3 have c3: "update_cycle inp3 s2 = Inr u3" by (rule Update_update_cycle)
  note st3 = item_step[OF c3 d2 k2 dirty2 i3']
  from st3(1) dr2(1,2) oc2 slot2
  have w3: "ObjectCB (mFrameResources u3 ! i3) ! ?slot = Some oc" by simp
  from st3(2) dr2(1) n2 have n3: "NumFramesDirty (mAllRitems u3 ! k) = 0" by simp
  from st3(3) ring have keep3: "mFrameResources u3 ! i1 = mFrameResources s2 ! i1"
    "mFrameResources u3 ! i2 = mFrameResources s2 ! i2" by simp_all
  \<comment> \<open>what each frame resource holds\<close>
  have b12: "ObjectCB (mFrameResources u1 ! i2) ! ?slot = ObjectCB (mFrameResources s0 ! i2) ! ?slot"
    and b13: "ObjectCB (mFrameResources u1 ! i3) ! ?slot = ObjectCB (mFrameResources s0 ! i3) ! ?slot"
    using keep1 by simp_all
  have b23: "ObjectCB (mFrameResources u2 ! i3) ! ?slot = ObjectCB (mFrameResources s0 ! i3) ! ?slot"
    using keep2(2) dr1(6)[of i3] keep1(2) by simp
  have f1: "ObjectCB (mFrameResources u3 ! i1) ! ?slot = Some oc"
    using keep3(1) dr2(6)[of i1] keep2(1) dr1(6)[of i1] w1 by simp
  have f2: "ObjectCB (mFrameResources u3 ! i2) ! ?slot = Some oc"
    using keep3(2) dr2(6)[of i2] w2 by simp
  have all: "ObjectCB (mFrameResources u3 ! j) ! ?slot = Some oc" if "j < gNumFrameResources" for j
  proof -
    from that ring have "j = i1 \<or> j = i2 \<or> j = i3"
      by (simp add: gNumFrameResources_def) linarith
    with f1 f2 w3 show ?thesis by blast
  qed
  from nm w1 n1 b12 b13 w2 n2 b23 w3 n3 all show ?thesis
    unfolding oc_eq Let_def by blast
qed

lemma demo_app_ok: "scene_ok demo_app"
  by (simp add: scene_ok_def demo_app_eq demo_ritems_def demo_materials_def ritem_def
        fill_ritem_def new_RenderItem_def gNumFrameResources_def bricks0_def stone0_def
        new_Material_def)

lemma demo_three_frames:
  "\<exists>t1 u1 s1 t2 u2 s2 t3 u3.
     Update (\<lambda>t. t) 0 demo_input 0 demo_app = Some (t1, Inr u1) \<and> Draw all_S_OK u1 = Inr s1
     \<and> Update (\<lambda>t. t) 0 demo_input t1 s1 = Some (t2, Inr u2) \<and> Draw all_S_OK u2 = Inr s2
     \<and> Update (\<lambda>t. t) 0 demo_input t2 s2 = Some (t3, Inr u3)"
proof -
  have ret: "\<exists>t' u. Update (\<lambda>t. t) 0 demo_input t s = Some (t', Inr u) \<and> scene_ok u
       \<and> mCurrFrameResource u = Some (advance_ring gNumFrameResources (mCurrFrameResourceIndex s))"
    if "scene_ok s" for s t
  proof -
    from update_cycle_ok[OF that, of demo_input] obtain u where u: "update_cycle demo_input s = Inr u" "scene_ok u" by blast
    have "\<exists>n. Fence (mFrameResources s ! advance_ring gNumFrameResources (mCurrFrameResourceIndex s))
            \<le> (\<lambda>t. t) (t + n)"
      by (rule exI[of _ "Fence (mFrameResources s
             ! advance_ring gNumFrameResources (mCurrFrameResourceIndex s))"]) simp
    from Update_returns[OF this, of 0 demo_input] u(1) obtain t' where
      "Update (\<lambda>t. t) 0 demo_input t s = Some (t', Inr u)" by (auto simp: FAILED_def)
    moreover from u(1) have "mCurrFrameResource u
        = Some (advance_ring gNumFrameResources (mCurrFrameResourceIndex s))"
      by (elim update_cycle_Inr) simp
    ultimately show ?thesis using u(2) by blast
  qed
  have drw: "\<exists>s. Draw all_S_OK u = Inr s \<and> scene_ok s"
    if "scene_ok u" "mCurrFrameResource u = Some (advance_ring gNumFrameResources i)" for u i
    using Draw_ok[OF that(1) that(2) _ first_failure_all_S_OK] by (simp add: advance_ring_def gNumFrameResources_def)
  from ret[OF demo_app_ok, of 0] obtain t1 u1 where
    1: "Update (\<lambda>t. t) 0 demo_input 0 demo_app = Some (t1, Inr u1)" "scene_ok u1"
    "mCurrFrameResource u1
       = Some (advance_ring gNumFrameResources (mCurrFrameResourceIndex demo_app))" by blast
  from drw[OF 1(2,3)] obtain s1 where 2: "Draw all_S_OK u1 = Inr s1" "scene_ok s1" by blast
  from ret[OF 2(2), of t1] obtain t2 u2 where
    3: "Update (\<lambda>t. t) 0 demo_input t1 s1 = Some (t2, Inr u2)" "scene_ok u2"
    "mCurrFrameResource u2
       = Some (advance_ring gNumFrameResources (mCurrFrameResourceIndex s1))" by blast
  from drw[OF 3(2,3)] obtain s2 where 4: "Draw all_S_OK u2 = Inr s2" "scene_ok s2" by blast
  from ret[OF 4(2), of t2] obtain t3 u3 where
    5: "Update (\<lambda>t. t) 0 demo_input t2 s2 = Some (t3, Inr u3)" by blast
  from 1(1) 2(1) 3(1) 4(1) 5 show ?thesis by blast
qed

theorem dirty_item_reaches_every_frame_resource_witness:
  "\<exists>t1 u1 s1 t2 u2 s2 t3 u3.
     Update (\<lambda>t. t) 0 demo_input 0 demo_app = Some (t1, Inr u1) \<and> Draw all_S_OK u1 = Inr s1
     \<and> Update (\<lambda>t. t) 0 demo_input t1 s1 = Some (t2, Inr u2) \<and> Draw all_S_OK u2 = Inr s2
     \<and> Update (\<lambda>t. t) 0 demo_input t2 s2 = Some (t3, Inr u3)
     \<and> NumFramesDirty (mAllRitems u1 ! 0) = 2
     \<and> NumFramesDirty (mAllRitems u2 ! 0) = 1
     \<and> NumFramesDirty (mAllRitems u3 ! 0) = 0
     \<and> ObjectCB (mFrameResources u1 ! 2) ! 0 = None
     \<and> ObjectCB (mFrameResources u3 ! 0) ! 0
         = Some \<lparr>oc_World = XMMatrixTranspose Identity4x4,
                 oc_TexTransform = XMMatrixTranspose unitScaling, MaterialIndex = 0\<rparr>
     \<and> ObjectCB (mFrameResources u3 ! 1) ! 0
         = Some \<lparr>oc_World = XMMatrixTranspose Identity4x4,
                 oc_TexTransform = XMMatrixTranspose unitScaling, MaterialIndex = 0\<rparr>
     \<and> ObjectCB (mFrameResources u3 ! 2) ! 0
         = Some \<lparr>oc_World = XMMatrixTranspose Identity4x4,
                 oc_TexTransform = XMMatrixTranspose unitScaling, MaterialIndex = 0\<rparr>"
proof -
  from demo_three_frames obtain t1 u1 s1 t2 u2 s2 t3 u3 where
    U1: "Update (\<lambda>t. t) 0 demo_input 0 demo_app = Some (t1, Inr u1)" and D1: "Draw all_S_OK u1 = Inr s1"
    and U2: "Update (\<lambda>t. t) 0 demo_input t1 s1 = Some (t2, Inr u2)" and D2: "Draw all_S_OK u2 = Inr s2"
    and U3: "Update (\<lambda>t. t) 0 demo_input t2 s2 = Some (t3, Inr u3)" by blast
  let ?e = "ritem [] Identity4x4 unitScaling 0 ''bricks0'' ''box''"
  have d: "distinct (map ObjCBIndex (mAllRitems demo_app))"
    by (simp add: demo_app_eq demo_ritems_def ritem_def fill_ritem_def)
  have k: "0 < length (mAllRitems demo_app)" by (simp add: demo_app_eq demo_ritems_def)
  have e: "?e = mAllRitems demo_app ! 0" by (simp add: demo_app_eq demo_ritems_def)
  have n: "NumFramesDirty ?e = int gNumFrameResources"
    by (simp add: ritem_def fill_ritem_def new_RenderItem_def)
  have i1: "(1::nat) = advance_ring gNumFrameResources (mCurrFrameResourceIndex demo_app)"
    and i2: "(2::nat) = advance_ring gNumFrameResources 1"
    and i3: "(0::nat) = advance_ring gNumFrameResources 2"
    by (simp_all add: demo_app_eq advance_ring_def gNumFrameResources_def)
  have e_fields: "Mat ?e = Some ''bricks0''" "World ?e = Identity4x4"
    "TexTransform ?e = unitScaling" "ObjCBIndex ?e = 0"
    by (simp_all add: ritem_def fill_ritem_def new_RenderItem_def)
  have m: "map_of (mMaterials demo_app) ''bricks0'' = Some bricks0" "MatCBIndex bricks0 = 0"
    by (simp_all add: demo_app_eq demo_materials_def bricks0_def new_Material_def)
  have s0: "ObjectCB (mFrameResources demo_app ! 2) ! 0 = None" by (simp add: demo_app_eq)
  from dirty_item_reaches_every_frame_resource[OF d k e n i1 i2 i3 U1 D1 U2 D2 U3]
  have "NumFramesDirty (mAllRitems u1 ! 0) = 2
     \<and> NumFramesDirty (mAllRitems u2 ! 0) = 1
     \<and> NumFramesDirty (mAllRitems u3 ! 0) = 0
     \<and> ObjectCB (mFrameResources u1 ! 2) ! 0 = None
     \<and> (\<forall>j<gNumFrameResources. ObjectCB (mFrameResources u3 ! j) ! 0
         = Some \<lparr>oc_World = XMMatrixTranspose Identity4x4,
                 oc_TexTransform = XMMatrixTranspose unitScaling, MaterialIndex = 0\<rparr>)"
    unfolding e_fields Let_def using m s0 by auto
  then have "NumFramesDirty (mAllRitems u1 ! 0) = 2
     \<and> NumFramesDirty (mAllRitems u2 ! 0) = 1
     \<and> NumFramesDirty (mAllRitems u3 ! 0) = 0
     \<and> ObjectCB (mFrameResources u1 ! 2) ! 0 = None
     \<and> ObjectCB (mFrameResources u3 ! 0) ! 0
         = Some \<lparr>oc_World = XMMatrixTranspose Identity4x4,
                 oc_TexTransform = XMMatrixTranspose unitScaling, MaterialIndex = 0\<rparr>
     \<and> ObjectCB (mFrameResources u3 ! 1) ! 0
         = Some \<lparr>oc_World = XMMatrixTranspose Identity4x4,
                 oc_TexTransform = XMMatrixTranspose unitScaling, MaterialIndex = 0\<rparr>
     \<and> ObjectCB (mFrameResources u3 ! 2) ! 0
         = Some \<lparr>oc_World = XMMatrixTranspose Identity4x4,
                 oc_TexTransform = XMMatrixTranspose unitScaling, MaterialIndex = 0\<rparr>"
    by (simp add: gNumFrameResources_def)
  with U1 D1 U2 D2 U3 show ?thesis by blast
qed

theorem Update_writes_only_current_dirty_slots_witness:
  "\<exists>t1 u1. Update (\<lambda>t. t) 0 demo_input 0 demo_app = Some (t1, Inr u1)
     \<and> mCurrFrameResource u1 = Some 1
     \<and> mFrameResources u1 ! 0 = mFrameResources demo_app ! 0
     \<and> mFrameResources u1 ! 2 = mFrameResources demo_app ! 2
     \<and> ObjectCB (mFrameResources u1 ! 1) ! 1 = None
     \<and> MaterialBuffer (mFrameResources u1 ! 1) ! 1 = None
     \<and> PassCB (mFrameResources u1 ! 1) = [Some (MainPassCB demo_input demo_PassConstants)]"
proof -
  from demo_three_frames obtain t1 u1 where
    U1: "Update (\<lambda>t. t) 0 demo_input 0 demo_app = Some (t1, Inr u1)" by blast
  have i: "(1::nat) = advance_ring gNumFrameResources (mCurrFrameResourceIndex demo_app)"
    by (simp add: demo_app_eq advance_ring_def gNumFrameResources_def)
  note r = Update_writes_only_current_dirty_slots[OF U1 i]
  have o: "\<forall>e \<in> set (mAllRitems demo_app). 0 < NumFramesDirty e \<longrightarrow> ObjCBIndex e \<noteq> 1"
    by (simp add: demo_app_eq demo_ritems_def ritem_def fill_ritem_def new_RenderItem_def)
  have m: "\<forall>(n, m) \<in> set (mMaterials demo_app). 0 < mat_NumFramesDirty m \<longrightarrow> MatCBIndex m \<noteq> 1"
    by (simp add: demo_app_eq demo_materials_def bricks0_def stone0_def new_Material_def)
  from r have "mCurrFrameResource u1 = Some 1" by blast
  moreover from r have "\<forall>j. j \<noteq> 1 \<longrightarrow> mFrameResources u1 ! j = mFrameResources demo_app ! j"
    by blast
  then have "mFrameResources u1 ! 0 = mFrameResources demo_app ! 0"
    "mFrameResources u1 ! 2 = mFrameResources demo_app ! 2" by simp_all
  moreover from r o have "ObjectCB (mFrameResources u1 ! 1) ! 1
      = ObjectCB (mFrameResources demo_app ! 1) ! 1" by blast
  then have "ObjectCB (mFrameResources u1 ! 1) ! 1 = None" by (simp add: demo_app_eq)
  moreover from r m have "MaterialBuffer (mFrameResources u1 ! 1) ! 1
      = MaterialBuffer (mFrameResources demo_app ! 1) ! 1" by blast
  then have "MaterialBuffer (mFrameResources u1 ! 1) ! 1 = None" by (simp add: demo_app_eq)
  moreover from r have "PassCB (mFrameResources u1 ! 1)
      = (PassCB (mFrameResources demo_app ! 1))
          [0 := Some (MainPassCB demo_input (mMainPassCB demo_app))]"
    by - ((elim conjE)?, assumption)
  then have "PassCB (mFrameResources u1 ! 1) = [Some (MainPassCB demo_input demo_PassConstants)]"
    by (simp add: demo_app_eq)
  ultimately show ?thesis using U1 by blast
qed

text \<open>
  An update writes outside the object and the material buffers: in a scene in which no
  render item and no material is dirty, it still replaces slot 0 of the pass buffer of the
  frame resource it selects.
\<close>

theorem Update_writes_pass_buffer:
  "list_all (\<lambda>e. NumFramesDirty e = 0) (mAllRitems demo_idle)
   \<and> list_all (\<lambda>(n, m). mat_NumFramesDirty m = 0) (mMaterials demo_idle)
   \<and> map PassCB (mFrameResources demo_idle) = [[None], [None], [None]]
   \<and> map_option
         (\<lambda>(t', r). case r of Inl f \<Rightarrow> [] | Inr s' \<Rightarrow> map PassCB (mFrameResources s'))
         (Update (\<lambda>t. 0) 0 demo_input 0 demo_idle)
       = Some [[None], [Some (MainPassCB demo_input demo_PassConstants)], [None]]"
  by (simp add: demo_idle_def demo_app_eq Update_def select_slot_def advance_ring_def
        gNumFrameResources_def UpdateCBs_def AnimateMaterials_def UpdateObjectCBs_def
        UpdateMaterialBuffer_def UpdateMainPassCB_def CopyData_def Let_def
        demo_ritems_def demo_materials_def ritem_def fill_ritem_def new_RenderItem_def
        bricks0_def stone0_def new_Material_def)

subsection \<open>Fences\<close>

lemma frame_fences:
  assumes U: "Update gpu hr inp t s = Some (t', Inr u)" and D: "Draw dc u = Inr s'"
    and i: "i = advance_ring gNumFrameResources (mCurrFrameResourceIndex s)"
  shows "mCurrentFence u = mCurrentFence s"
    and "map Fence (mFrameResources u) = map Fence (mFrameResources s)"
    and "mCurrentFence s' = mCurrentFence s + 1"
    and "map Fence (mFrameResources s') = (map Fence (mFrameResources s))[i := mCurrentFence s + 1]"
    and "mCurrFrameResourceIndex s' = i"
    and "i < length (mFrameResources s)"
    and "Fence (mFrameResources s' ! i) = mCurrentFence s'"
proof -
  from U have "update_cycle inp s = Inr u" by (rule Update_update_cycle)
  then obtain es' cb' ms' mb' where
    lt: "i < length (mFrameResources s)"
    and u: "u = s\<lparr>mCurrFrameResourceIndex := i, mCurrFrameResource := Some i,
             mAllRitems := es', mMaterials := ms',
             mMainPassCB := MainPassCB inp (mMainPassCB s),
             mFrameResources :=
               (mFrameResources s)
                 [i := (mFrameResources s ! i)
                    \<lparr>ObjectCB := cb', MaterialBuffer := mb',
                     PassCB := (PassCB (mFrameResources s ! i))
                                 [0 := Some (MainPassCB inp (mMainPassCB s))]\<rparr>]\<rparr>"
    unfolding i by (rule update_cycle_Inr)
  from u show cu: "mCurrentFence u = mCurrentFence s" by simp
  from u lt show fu: "map Fence (mFrameResources u) = map Fence (mFrameResources s)"
    by (simp add: map_update list_update_same_conv)
  from D obtain j where
    j: "mCurrFrameResource u = Some j" "j < length (mFrameResources u)"
    and s': "s' = u\<lparr>mCurrentFence := mCurrentFence u + 1,
             mFrameResources :=
               (mFrameResources u)[j := (mFrameResources u ! j)\<lparr>Fence := mCurrentFence u + 1\<rparr>]\<rparr>"
    by (rule Draw_Inr)
  from j u have ji: "j = i" by simp
  from s' cu show "mCurrentFence s' = mCurrentFence s + 1" by simp
  from s' ji cu fu
  show "map Fence (mFrameResources s') = (map Fence (mFrameResources s))[i := mCurrentFence s + 1]"
    by (simp add: map_update)
  from s' u show "mCurrFrameResourceIndex s' = i" by simp
  from lt show "i < length (mFrameResources s)" .
  from s' ji j cu show "Fence (mFrameResources s' ! i) = mCurrentFence s'" by simp
qed

lemma frame_exists:
  assumes ok: "scene_ok s"
    and reach: "\<exists>n. Fence (mFrameResources s
                  ! advance_ring gNumFrameResources (mCurrFrameResourceIndex s)) \<le> gpu (t + n)"
  shows "\<exists>t' u s'. Update gpu 0 inp t s = Some (t', Inr u) \<and> Draw all_S_OK u = Inr s' \<and> scene_ok s'"
proof -
  from update_cycle_ok[OF ok, of inp] obtain u where u: "update_cycle inp s = Inr u" "scene_ok u"
    by blast
  from Update_returns[OF reach, of 0 inp] u(1) obtain t' where
    U: "Update gpu 0 inp t s = Some (t', Inr u)" by (auto simp: FAILED_def)
  from u(1) have cur: "mCurrFrameResource u
        = Some (advance_ring gNumFrameResources (mCurrFrameResourceIndex s))"
    by (elim update_cycle_Inr) simp
  have "advance_ring gNumFrameResources (mCurrFrameResourceIndex s) < gNumFrameResources"
    by (simp add: advance_ring_def gNumFrameResources_def)
  from Draw_ok[OF u(2) cur this first_failure_all_S_OK] obtain s' where
    "Draw all_S_OK u = Inr s'" "scene_ok s'"
    by auto
  with U show ?thesis by blast
qed

lemma nth_map_Fence:
  assumes "map Fence frs = fs" "i < length fs"
  shows "Fence (frs ! i) = fs ! i"
  using assms by (metis length_map nth_map)

text \<open>
  C3. The fence counter starts at 0. Every draw adds exactly one to it and stores the new
  value in the fence field of the current frame resource, and an update leaves both alone,
  so the counter only grows. Starting from three unused slots and counter 0, frames 1, 2
  and 3 record the values 1, 2 and 3 in slots 1, 2 and 0; the update of frame 4 selects
  slot 1 again and returns only once the GPU has completed fence value 1 (and never if it
  does not); frames 4 and 5 then record 4 and 5.
\<close>

theorem fence_counter_and_frame4_wait:
  assumes f0: "map Fence (mFrameResources s0) = [0, 0, 0]"
    and idx0: "mCurrFrameResourceIndex s0 = 0" and c0: "mCurrentFence s0 = 0"
    and U1: "Update gpu hr1 inp1 t0 s0 = Some (t1, Inr u1)" and D1: "Draw dc1 u1 = Inr s1"
    and U2: "Update gpu hr2 inp2 t1 s1 = Some (t2, Inr u2)" and D2: "Draw dc2 u2 = Inr s2"
    and U3: "Update gpu hr3 inp3 t2 s2 = Some (t3, Inr u3)" and D3: "Draw dc3 u3 = Inr s3"
  shows "mCurrentFence (new_App pc0) = 0
       \<and> (\<forall>dc u s. Draw dc u = Inr s \<longrightarrow>
            mCurrentFence s = mCurrentFence u + 1
            \<and> (\<exists>i. mCurrFrameResource u = Some i
                   \<and> Fence (mFrameResources s ! i) = mCurrentFence s))
       \<and> mCurrentFence u1 = 0 \<and> mCurrentFence s1 = 1
       \<and> mCurrentFence u2 = 1 \<and> mCurrentFence s2 = 2
       \<and> mCurrentFence u3 = 2 \<and> mCurrentFence s3 = 3
       \<and> map Fence (mFrameResources s1) = [0, 1, 0]
       \<and> map Fence (mFrameResources s2) = [0, 1, 2]
       \<and> map Fence (mFrameResources s3) = [3, 1, 2]
       \<and> (\<forall>t4 u4. Update gpu hr4 inp4 t3 s3 = Some (t4, Inr u4) \<longrightarrow>
            mCurrFrameResource u4 = Some 1
            \<and> 1 \<le> gpu t4 \<and> t3 \<le> t4 \<and> (\<forall>u. t3 \<le> u \<and> u < t4 \<longrightarrow> gpu u < 1)
            \<and> (\<forall>dc4 s4 hr5 inp5 t5 u5 dc5 s5.
                  Draw dc4 u4 = Inr s4 \<and> Update gpu hr5 inp5 t4 s4 = Some (t5, Inr u5)
                  \<and> Draw dc5 u5 = Inr s5 \<longrightarrow>
                  mCurrentFence s4 = 4 \<and> mCurrentFence s5 = 5
                  \<and> map Fence (mFrameResources s5) = [3, 4, 5] \<and> 2 \<le> gpu t5))
       \<and> (Update gpu hr4 inp4 t3 s3 = None \<longleftrightarrow> \<not> FAILED hr4 \<and> (\<forall>u\<ge>t3. gpu u < 1))"
proof -
  have adv: "advance_ring gNumFrameResources 0 = 1" "advance_ring gNumFrameResources 1 = 2"
    "advance_ring gNumFrameResources 2 = 0"
    by (simp_all add: advance_ring_def gNumFrameResources_def)
  have start: "mCurrentFence (new_App pc0) = 0"
    by (simp add: new_App_def initial_mCurrentFence_def)
  have draw: "mCurrentFence s = mCurrentFence u + 1
            \<and> (\<exists>i. mCurrFrameResource u = Some i
                   \<and> Fence (mFrameResources s ! i) = mCurrentFence s)"
    if "Draw dc u = Inr s" for dc u s
    using that by (elim Draw_Inr) simp
  note fr1 = frame_fences[OF U1 D1 refl]
  from fr1 f0 idx0 c0 adv
  have 1: "mCurrentFence u1 = 0" "mCurrentFence s1 = 1"
    "map Fence (mFrameResources s1) = [0, 1, 0]" "mCurrFrameResourceIndex s1 = 1"
    by simp_all
  note fr2 = frame_fences[OF U2 D2 refl]
  from fr2 1 adv
  have 2: "mCurrentFence u2 = 1" "mCurrentFence s2 = 2"
    "map Fence (mFrameResources s2) = [0, 1, 2]" "mCurrFrameResourceIndex s2 = 2"
    by simp_all
  note fr3 = frame_fences[OF U3 D3 refl]
  from fr3 2 adv
  have 3: "mCurrentFence u3 = 2" "mCurrentFence s3 = 3"
    "map Fence (mFrameResources s3) = [3, 1, 2]" "mCurrFrameResourceIndex s3 = 0"
    by simp_all
  from 3(3) have len3: "length (mFrameResources s3) = 3"
    by (metis length_map length_Cons list.size(3) numeral_3_eq_3)
  from nth_map_Fence[OF 3(3), of 1] have f31: "Fence (mFrameResources s3 ! 1) = 1" by simp
  have frame4: "mCurrFrameResource u4 = Some 1
            \<and> 1 \<le> gpu t4 \<and> t3 \<le> t4 \<and> (\<forall>u. t3 \<le> u \<and> u < t4 \<longrightarrow> gpu u < 1)
            \<and> (\<forall>dc4 s4 hr5 inp5 t5 u5 dc5 s5.
                  Draw dc4 u4 = Inr s4 \<and> Update gpu hr5 inp5 t4 s4 = Some (t5, Inr u5)
                  \<and> Draw dc5 u5 = Inr s5 \<longrightarrow>
                  mCurrentFence s4 = 4 \<and> mCurrentFence s5 = 5
                  \<and> map Fence (mFrameResources s5) = [3, 4, 5] \<and> 2 \<le> gpu t5)"
    if U4: "Update gpu hr4 inp4 t3 s3 = Some (t4, Inr u4)" for t4 u4
  proof -
    from U4 obtain x where sel: "select_slot s3 = Inr x" and cbs: "UpdateCBs inp4 x = Inr u4"
      and f: "Fence (mFrameResources x ! mCurrFrameResourceIndex x) = 0
       \<or> Fence (mFrameResources x ! mCurrFrameResourceIndex x) \<le> gpu t4"
      and le: "t3 \<le> t4"
      and below: "\<forall>u. t3 \<le> u \<and> u < t4
                   \<longrightarrow> gpu u < Fence (mFrameResources x ! mCurrFrameResourceIndex x)"
      by (rule Update_Inr)
    from select_slot_index[OF sel] 3(4) adv f31
    have x: "mCurrFrameResource x = Some 1"
      "Fence (mFrameResources x ! mCurrFrameResourceIndex x) = 1" by simp_all
    from cbs x(1) have cur: "mCurrFrameResource u4 = Some 1" by (elim UpdateCBs_Inr) simp
    have later: "mCurrentFence s4 = 4 \<and> mCurrentFence s5 = 5
                  \<and> map Fence (mFrameResources s5) = [3, 4, 5] \<and> 2 \<le> gpu t5"
      if D4: "Draw dc4 u4 = Inr s4" and U5: "Update gpu hr5 inp5 t4 s4 = Some (t5, Inr u5)"
        and D5: "Draw dc5 u5 = Inr s5" for dc4 s4 hr5 inp5 t5 u5 dc5 s5
    proof -
      note fr4 = frame_fences[OF U4 D4 refl]
      from fr4 3 adv
      have 4: "mCurrentFence s4 = 4" "map Fence (mFrameResources s4) = [3, 4, 2]"
        "mCurrFrameResourceIndex s4 = 1" by simp_all
      note fr5 = frame_fences[OF U5 D5 refl]
      from fr5 4 adv
      have 5: "mCurrentFence s5 = 5" "map Fence (mFrameResources s5) = [3, 4, 5]" by simp_all
      from nth_map_Fence[OF 4(2), of 2] have f42: "Fence (mFrameResources s4 ! 2) = 2" by simp
      from U5 obtain y where sel5: "select_slot s4 = Inr y"
        and f5: "Fence (mFrameResources y ! mCurrFrameResourceIndex y) = 0
            \<or> Fence (mFrameResources y ! mCurrFrameResourceIndex y) \<le> gpu t5"
        by (rule Update_Inr)
      from select_slot_index[OF sel5] 4(3) adv f42 f5 have "2 \<le> gpu t5" by simp
      with 4 5 show ?thesis by simp
    qed
    from cur f le below x(2) later show ?thesis by simp blast
  qed
  have none4: "Update gpu hr4 inp4 t3 s3 = None \<longleftrightarrow> \<not> FAILED hr4 \<and> (\<forall>u\<ge>t3. gpu u < 1)"
    unfolding Update_None_iff using 3(4) adv f31 len3 by simp
  from start draw 1(1,2,3) 2(1,2,3) 3(1,2,3) frame4 none4 show ?thesis
    by (intro conjI allI impI) blast+
qed

lemma demo_app_fences:
  "map Fence (mFrameResources demo_app) = [0, 0, 0]"
  "mCurrFrameResourceIndex demo_app = 0" "mCurrentFence demo_app = 0"
  by (simp_all add: demo_app_eq)

theorem fence_counter_and_frame4_wait_witness:
  "(\<exists>t1 u1 s1 t2 u2 s2 t3 u3 s3 t4 u4 s4 t5 u5 s5.
      Update (\<lambda>t. t) 0 demo_input 0 demo_app = Some (t1, Inr u1) \<and> Draw all_S_OK u1 = Inr s1
      \<and> Update (\<lambda>t. t) 0 demo_input t1 s1 = Some (t2, Inr u2) \<and> Draw all_S_OK u2 = Inr s2
      \<and> Update (\<lambda>t. t) 0 demo_input t2 s2 = Some (t3, Inr u3) \<and> Draw all_S_OK u3 = Inr s3
      \<and> Update (\<lambda>t. t) 0 demo_input t3 s3 = Some (t4, Inr u4) \<and> Draw all_S_OK u4 = Inr s4
      \<and> Update (\<lambda>t. t) 0 demo_input t4 s4 = Some (t5, Inr u5) \<and> Draw all_S_OK u5 = Inr s5
      \<and> mCurrentFence s3 = 3 \<and> map Fence (mFrameResources s3) = [3, 1, 2]
      \<and> mCurrFrameResource u4 = Some 1 \<and> 1 \<le> t4
      \<and> mCurrentFence s5 = 5 \<and> map Fence (mFrameResources s5) = [3, 4, 5])
   \<and> (\<exists>t1 u1 s1 t2 u2 s2 t3 u3 s3.
      Update (\<lambda>t. 0) 0 demo_input 0 demo_app = Some (t1, Inr u1) \<and> Draw all_S_OK u1 = Inr s1
      \<and> Update (\<lambda>t. 0) 0 demo_input t1 s1 = Some (t2, Inr u2) \<and> Draw all_S_OK u2 = Inr s2
      \<and> Update (\<lambda>t. 0) 0 demo_input t2 s2 = Some (t3, Inr u3) \<and> Draw all_S_OK u3 = Inr s3
      \<and> map Fence (mFrameResources s3) = [3, 1, 2]
      \<and> Update (\<lambda>t. 0) 0 demo_input t3 s3 = None)"
proof -
  have reach: "\<exists>n. f \<le> (\<lambda>t. t) (t + n)" for f t :: nat
    by (rule exI[of _ f]) simp
  have adv: "advance_ring gNumFrameResources 0 = 1" "advance_ring gNumFrameResources 1 = 2"
    "advance_ring gNumFrameResources 2 = 0"
    by (simp_all add: advance_ring_def gNumFrameResources_def)
  \<comment> \<open>a GPU that keeps up\<close>
  from frame_exists[where inp = demo_input, OF demo_app_ok reach] obtain t1 u1 s1 where
    a1: "Update (\<lambda>t. t) 0 demo_input 0 demo_app = Some (t1, Inr u1)" "Draw all_S_OK u1 = Inr s1" "scene_ok s1"
    by blast
  from frame_exists[where inp = demo_input, OF a1(3) reach] obtain t2 u2 s2 where
    a2: "Update (\<lambda>t. t) 0 demo_input t1 s1 = Some (t2, Inr u2)" "Draw all_S_OK u2 = Inr s2" "scene_ok s2"
    by blast
  from frame_exists[where inp = demo_input, OF a2(3) reach] obtain t3 u3 s3 where
    a3: "Update (\<lambda>t. t) 0 demo_input t2 s2 = Some (t3, Inr u3)" "Draw all_S_OK u3 = Inr s3" "scene_ok s3"
    by blast
  from frame_exists[where inp = demo_input, OF a3(3) reach] obtain t4 u4 s4 where
    a4: "Update (\<lambda>t. t) 0 demo_input t3 s3 = Some (t4, Inr u4)" "Draw all_S_OK u4 = Inr s4" "scene_ok s4"
    by blast
  from frame_exists[where inp = demo_input, OF a4(3) reach] obtain t5 u5 s5 where
    a5: "Update (\<lambda>t. t) 0 demo_input t4 s4 = Some (t5, Inr u5)" "Draw all_S_OK u5 = Inr s5"
    by blast
  note A = fence_counter_and_frame4_wait[OF demo_app_fences a1(1,2) a2(1,2) a3(1,2),
      where ?hr4.0 = 0 and ?inp4.0 = demo_input and ?pc0.0 = demo_PassConstants]
  from A have A3: "mCurrentFence s3 = 3" by - (elim conjE, assumption)
  from A have A3': "map Fence (mFrameResources s3) = [3, 1, 2]" by - (elim conjE, assumption)
  from A have "\<forall>t4 u4. Update (\<lambda>t. t) 0 demo_input t3 s3 = Some (t4, Inr u4) \<longrightarrow>
            mCurrFrameResource u4 = Some 1
            \<and> 1 \<le> t4 \<and> t3 \<le> t4 \<and> (\<forall>u. t3 \<le> u \<and> u < t4 \<longrightarrow> u < 1)
            \<and> (\<forall>dc4 s4 hr5 inp5 t5 u5 dc5 s5.
                  Draw dc4 u4 = Inr s4 \<and> Update (\<lambda>t. t) hr5 inp5 t4 s4 = Some (t5, Inr u5)
                  \<and> Draw dc5 u5 = Inr s5 \<longrightarrow>
                  mCurrentFence s4 = 4 \<and> mCurrentFence s5 = 5
                  \<and> map Fence (mFrameResources s5) = [3, 4, 5] \<and> 2 \<le> t5)"
    by - (elim conjE, assumption)
  from this[rule_format, OF a4(1)]
  have A4: "mCurrFrameResource u4 = Some 1" "1 \<le> t4"
    and A4': "\<forall>dc4 s4 hr5 inp5 t5 u5 dc5 s5.
                  Draw dc4 u4 = Inr s4 \<and> Update (\<lambda>t. t) hr5 inp5 t4 s4 = Some (t5, Inr u5)
                  \<and> Draw dc5 u5 = Inr s5 \<longrightarrow>
                  mCurrentFence s4 = 4 \<and> mCurrentFence s5 = 5
                  \<and> map Fence (mFrameResources s5) = [3, 4, 5] \<and> 2 \<le> t5"
    by - ((elim conjE)?, assumption)+
  from a4(2) a5 have "Draw all_S_OK u4 = Inr s4 \<and> Update (\<lambda>t. t) 0 demo_input t4 s4 = Some (t5, Inr u5)
                  \<and> Draw all_S_OK u5 = Inr s5" by simp
  from A4'[rule_format, OF this]
  have A5: "mCurrentFence s5 = 5" "map Fence (mFrameResources s5) = [3, 4, 5]" by simp_all
  have first: "\<exists>t1 u1 s1 t2 u2 s2 t3 u3 s3 t4 u4 s4 t5 u5 s5.
      Update (\<lambda>t. t) 0 demo_input 0 demo_app = Some (t1, Inr u1) \<and> Draw all_S_OK u1 = Inr s1
      \<and> Update (\<lambda>t. t) 0 demo_input t1 s1 = Some (t2, Inr u2) \<and> Draw all_S_OK u2 = Inr s2
      \<and> Update (\<lambda>t. t) 0 demo_input t2 s2 = Some (t3, Inr u3) \<and> Draw all_S_OK u3 = Inr s3
      \<and> Update (\<lambda>t. t) 0 demo_input t3 s3 = Some (t4, Inr u4) \<and> Draw all_S_OK u4 = Inr s4
      \<and> Update (\<lambda>t. t) 0 demo_input t4 s4 = Some (t5, Inr u5) \<and> Draw all_S_OK u5 = Inr s5
      \<and> mCurrentFence s3 = 3 \<and> map Fence (mFrameResources s3) = [3, 1, 2]
      \<and> mCurrFrameResource u4 = Some 1 \<and> 1 \<le> t4
      \<and> mCurrentFence s5 = 5 \<and> map Fence (mFrameResources s5) = [3, 4, 5]"
    using a1(1,2) a2(1,2) a3(1,2) a4(1,2) a5 A3 A3' A4 A5
    by (intro exI conjI)
  \<comment> \<open>a GPU that never completes anything\<close>
  have r1: "\<exists>n. Fence (mFrameResources demo_app
                  ! advance_ring gNumFrameResources (mCurrFrameResourceIndex demo_app))
              \<le> (\<lambda>t. 0) (0 + n)"
    by (simp add: demo_app_eq adv)
  from frame_exists[where inp = demo_input, OF demo_app_ok r1] obtain v1 w1 x1 where
    b1: "Update (\<lambda>t. 0) 0 demo_input 0 demo_app = Some (v1, Inr w1)" "Draw all_S_OK w1 = Inr x1" "scene_ok x1"
    by blast
  note f1 = frame_fences[OF b1(1,2) refl]
  from f1(4,5) demo_app_fences adv
  have g1: "map Fence (mFrameResources x1) = [0, 1, 0]" "mCurrFrameResourceIndex x1 = 1"
    by simp_all
  from nth_map_Fence[OF g1(1), of 2] g1(2) adv
  have r2: "\<exists>n. Fence (mFrameResources x1
                  ! advance_ring gNumFrameResources (mCurrFrameResourceIndex x1))
              \<le> (\<lambda>t. 0) (v1 + n)"
    by simp
  from frame_exists[where inp = demo_input, OF b1(3) r2] obtain v2 w2 x2 where
    b2: "Update (\<lambda>t. 0) 0 demo_input v1 x1 = Some (v2, Inr w2)" "Draw all_S_OK w2 = Inr x2" "scene_ok x2"
    by blast
  note f2 = frame_fences[OF b2(1,2) refl]
  from f2(4,5) g1 f1(3) demo_app_fences adv
  have g2: "map Fence (mFrameResources x2) = [0, 1, 2]" "mCurrFrameResourceIndex x2 = 2"
    by simp_all
  from nth_map_Fence[OF g2(1), of 0] g2(2) adv
  have r3: "\<exists>n. Fence (mFrameResources x2
                  ! advance_ring gNumFrameResources (mCurrFrameResourceIndex x2))
              \<le> (\<lambda>t. 0) (v2 + n)"
    by simp
  from frame_exists[where inp = demo_input, OF b2(3) r3] obtain v3 w3 x3 where
    b3: "Update (\<lambda>t. 0) 0 demo_input v2 x2 = Some (v3, Inr w3)" "Draw all_S_OK w3 = Inr x3"
    by blast
  note B = fence_counter_and_frame4_wait[OF demo_app_fences b1(1,2) b2(1,2) b3(1,2),
      where ?hr4.0 = 0 and ?inp4.0 = demo_input and ?pc0.0 = demo_PassConstants]
  from B have B3: "map Fence (mFrameResources x3) = [3, 1, 2]" by - (elim conjE, assumption)
  from B have "Update (\<lambda>t. 0) 0 demo_input v3 x3 = None \<longleftrightarrow> \<not> FAILED 0 \<and> (\<forall>u\<ge>v3. (0::nat) < 1)"
    by - (elim conjE, assumption)
  then have B4: "Update (\<lambda>t. 0) 0 demo_input v3 x3 = None" by (simp add: FAILED_def)
  have second: "\<exists>t1 u1 s1 t2 u2 s2 t3 u3 s3.
      Update (\<lambda>t. 0) 0 demo_input 0 demo_app = Some (t1, Inr u1) \<and> Draw all_S_OK u1 = Inr s1
      \<and> Update (\<lambda>t. 0) 0 demo_input t1 s1 = Some (t2, Inr u2) \<and> Draw all_S_OK u2 = Inr s2
      \<and> Update (\<lambda>t. 0) 0 demo_input t2 s2 = Some (t3, Inr u3) \<and> Draw all_S_OK u3 = Inr s3
      \<and> map Fence (mFrameResources s3) = [3, 1, 2]
      \<and> Update (\<lambda>t. 0) 0 demo_input t3 s3 = None"
    using b1(1,2) b2(1,2) b3 B3 B4 by (intro exI conjI)
  from first second show ?thesis ..
qed

lemmas build_defs =
  build_ritems_def ritems_0_15_def ritems_32_39_def cyl_sphere_body_def hex_cone_body_def
  wall_body_def ritem_def fill_ritem_def upt_rec Let_def

lemma build_ritems_append: "build_ritems da rs = rs @ build_ritems da []"
  by (simp add: build_ritems_def cyl_sphere_body_def hex_cone_body_def wall_body_def
        upt_rec Let_def)

lemma build_ritems_ObjCBIndex:
  "map ObjCBIndex (build_ritems da []) = [0..<50]"
  by (simp add: build_defs)

lemma build_ritems_Mat:
  "map Mat (build_ritems da []) =
     map Some
      ([''bricks0'', ''bricks0'', ''stone0'', ''stone0'', ''stone0'', ''stone0'', ''stone0'',
        ''tile0'', ''tile0'', ''tile0'', ''stone0'', ''crate0'', ''stone0'', ''stone0'',
        ''tile0'', ''tile0'']
       @ replicate 8 ''stone0'' @ replicate 26 ''crate0'')"
  by (simp add: build_defs numeral_eq_Suc)

subsection \<open>What the frame loop never changes\<close>

lemma update_cycle_static:
  assumes "update_cycle inp s = Inr u"
  shows "map ObjCBIndex (mAllRitems u) = map ObjCBIndex (mAllRitems s)"
    and "map Mat (mAllRitems u) = map Mat (mAllRitems s)"
    and "map fst (mMaterials u) = map fst (mMaterials s)"
    and "map (MatCBIndex \<circ> snd) (mMaterials u) = map (MatCBIndex \<circ> snd) (mMaterials s)"
    and "map (length \<circ> ObjectCB) (mFrameResources u) = map (length \<circ> ObjectCB) (mFrameResources s)"
    and "map (length \<circ> MaterialBuffer) (mFrameResources u)
           = map (length \<circ> MaterialBuffer) (mFrameResources s)"
proof -
  let ?i = "advance_ring gNumFrameResources (mCurrFrameResourceIndex s)"
  from assms obtain es' cb' ms' mb' where
    lt: "?i < length (mFrameResources s)"
    and ol: "UpdateObjectCBs_loop (mMaterials s) (mAllRitems s) (ObjectCB (mFrameResources s ! ?i))
       = Inr (es', cb')"
    and ml: "UpdateMaterialBuffer_loop (mMaterials s) (MaterialBuffer (mFrameResources s ! ?i))
       = Inr (ms', mb')"
    and u: "u = s\<lparr>mCurrFrameResourceIndex := ?i, mCurrFrameResource := Some ?i,
             mAllRitems := es', mMaterials := ms',
             mMainPassCB := MainPassCB inp (mMainPassCB s),
             mFrameResources :=
               (mFrameResources s)
                 [?i := (mFrameResources s ! ?i)
                    \<lparr>ObjectCB := cb', MaterialBuffer := mb',
                     PassCB := (PassCB (mFrameResources s ! ?i))
                                 [0 := Some (MainPassCB inp (mMainPassCB s))]\<rparr>]\<rparr>"
    by (rule update_cycle_Inr)
  note es = obj_loop_items[OF ol]
  note ms = mat_loop_materials[OF ml]
  from u es show "map ObjCBIndex (mAllRitems u) = map ObjCBIndex (mAllRitems s)"
    "map Mat (mAllRitems u) = map Mat (mAllRitems s)"
    by (simp_all add: comp_def)
  from u ms show "map fst (mMaterials u) = map fst (mMaterials s)"
    "map (MatCBIndex \<circ> snd) (mMaterials u) = map (MatCBIndex \<circ> snd) (mMaterials s)"
    by (simp_all add: comp_def case_prod_beta)
  from u lt obj_loop_length[OF ol]
  show "map (length \<circ> ObjectCB) (mFrameResources u) = map (length \<circ> ObjectCB) (mFrameResources s)"
    by (simp add: map_update list_update_same_conv)
  from u lt mat_loop_length[OF ml]
  show "map (length \<circ> MaterialBuffer) (mFrameResources u)
           = map (length \<circ> MaterialBuffer) (mFrameResources s)"
    by (simp add: map_update list_update_same_conv)
qed

lemma Draw_static:
  assumes "Draw dc u = Inr s"
  shows "map (length \<circ> ObjectCB) (mFrameResources s) = map (length \<circ> ObjectCB) (mFrameResources u)"
    and "map (length \<circ> MaterialBuffer) (mFrameResources s)
           = map (length \<circ> MaterialBuffer) (mFrameResources u)"
    and "map ObjectCB (mFrameResources s) = map ObjectCB (mFrameResources u)"
proof -
  from assms obtain i where
    i: "mCurrFrameResource u = Some i" "i < length (mFrameResources u)"
    and s: "s = u\<lparr>mCurrentFence := mCurrentFence u + 1,
             mFrameResources :=
               (mFrameResources u)[i := (mFrameResources u ! i)\<lparr>Fence := mCurrentFence u + 1\<rparr>]\<rparr>"
    by (rule Draw_Inr)
  from s i show "map (length \<circ> ObjectCB) (mFrameResources s) = map (length \<circ> ObjectCB) (mFrameResources u)"
    "map (length \<circ> MaterialBuffer) (mFrameResources s)
           = map (length \<circ> MaterialBuffer) (mFrameResources u)"
    "map ObjectCB (mFrameResources s) = map ObjectCB (mFrameResources u)"
    by (simp_all add: map_update list_update_same_conv)
qed

lemma run_frames_static:
  "run_frames inps s = Inr s' \<Longrightarrow>
     map ObjCBIndex (mAllRitems s') = map ObjCBIndex (mAllRitems s)
     \<and> map Mat (mAllRitems s') = map Mat (mAllRitems s)
     \<and> map fst (mMaterials s') = map fst (mMaterials s)
     \<and> map (MatCBIndex \<circ> snd) (mMaterials s') = map (MatCBIndex \<circ> snd) (mMaterials s)
     \<and> map (length \<circ> ObjectCB) (mFrameResources s') = map (length \<circ> ObjectCB) (mFrameResources s)
     \<and> map (length \<circ> MaterialBuffer) (mFrameResources s')
           = map (length \<circ> MaterialBuffer) (mFrameResources s)"
proof (induction inps arbitrary: s)
  case Nil
  then show ?case by simp
next
  case (Cons inp inps)
  from Cons.prems obtain u x where u: "update_cycle inp s = Inr u" and x: "Draw all_S_OK u = Inr x"
    and r: "run_frames inps x = Inr s'"
    by (auto split: sum.splits)
  from Cons.IH[OF r] update_cycle_static[OF u] Draw_static(1,2)[OF x] Draw_step(1,2)[OF x]
  show ?case by (simp add: comp_def)
qed

subsection \<open>The scene that Initialize builds\<close>

lemma BuildMaterials_new:
  "mMaterials (BuildMaterials (new_App pc0)) =
     [(''bricks0'', bricks0), (''stone0'', stone0), (''tile0'', tile0), (''crate0'', crate0)]"
  by (simp add: BuildMaterials_def new_App_def)

lemma length_build_ritems: "length (build_ritems da []) = 50"
proof -
  have "length (map ObjCBIndex (build_ritems da [])) = 50"
    unfolding build_ritems_ObjCBIndex by simp
  then show ?thesis by simp
qed

lemma build_scene_Inr:
  "build_scene g pc0 =
     Inr \<lparr>mFrameResources = replicate 3 (new_FrameResource 1 50 4),
          mCurrFrameResource = None, mCurrFrameResourceIndex = 0, mCurrentFence = 0,
          mAllRitems = build_ritems (DrawArgs (BuildShapeGeometry g)) [],
          mMaterials =
            [(''bricks0'', bricks0), (''stone0'', stone0), (''tile0'', tile0),
             (''crate0'', crate0)],
          mMainPassCB = pc0\<rparr>"
  by (simp add: build_scene_def BuildRenderItems_def BuildFrameResources_def BuildMaterials_def
        new_App_def initial_mCurrentFence_def gNumFrameResources_def upt_rec
        length_build_ritems numeral_eq_Suc)

lemma build_scene_ok:
  assumes "build_scene g pc0 = Inr s"
  shows "scene_ok s"
proof -
  let ?da = "DrawArgs (BuildShapeGeometry g)"
  have a: "list_all (\<lambda>e. ObjCBIndex e < 50) (build_ritems ?da [])"
  proof -
    have "list_all (\<lambda>i. i < 50) (map ObjCBIndex (build_ritems ?da []))"
      unfolding build_ritems_ObjCBIndex by (simp add: list_all_iff)
    then show ?thesis by (simp add: list.pred_map comp_def)
  qed
  have b: "list_all (\<lambda>e. case Mat e of None \<Rightarrow> False
                | Some n \<Rightarrow> map_of [(''bricks0'', bricks0), (''stone0'', stone0),
                                     (''tile0'', tile0), (''crate0'', crate0)] n \<noteq> None)
             (build_ritems ?da [])"
  proof -
    have "list_all (\<lambda>x. case x of None \<Rightarrow> False
                | Some n \<Rightarrow> map_of [(''bricks0'', bricks0), (''stone0'', stone0),
                                     (''tile0'', tile0), (''crate0'', crate0)] n \<noteq> None)
             (map Mat (build_ritems ?da []))"
      unfolding build_ritems_Mat by (simp add: list_all_iff)
    then show ?thesis by (simp add: list.pred_map comp_def)
  qed
  have mc: "MatCBIndex bricks0 < 4" "MatCBIndex stone0 < 4" "MatCBIndex tile0 < 4"
    "MatCBIndex crate0 < 4"
    by (simp_all add: bricks0_def stone0_def tile0_def crate0_def new_Material_def)
  from assms have sel: "mFrameResources s = replicate 3 (new_FrameResource 1 50 4)"
    "mAllRitems s = build_ritems ?da []"
    "mMaterials s = [(''bricks0'', bricks0), (''stone0'', stone0), (''tile0'', tile0),
             (''crate0'', crate0)]"
    unfolding build_scene_Inr by auto
  have fr: "list_all (\<lambda>fr.
           0 < length (PassCB fr)
           \<and> list_all (\<lambda>e. ObjCBIndex e < length (ObjectCB fr)) (build_ritems ?da [])
           \<and> list_all (\<lambda>(n, m). MatCBIndex m < length (MaterialBuffer fr))
                 [(''bricks0'', bricks0), (''stone0'', stone0), (''tile0'', tile0),
                  (''crate0'', crate0)])
         (replicate 3 (new_FrameResource 1 50 4))"
    using a mc by (simp add: list_all_iff new_FrameResource_def)
  from fr b show ?thesis
    unfolding scene_ok_def sel by (simp add: gNumFrameResources_def)
qed

subsection \<open>Material indices that reach the object buffers\<close>

lemma objConstants_bound:
  assumes "list_all (\<lambda>(k, m). MatCBIndex m < c) mats" "objConstants mats e = Inr oc"
  shows "MaterialIndex oc < c"
proof -
  from assms(2) obtain n m where "map_of mats n = Some m" "MaterialIndex oc = MatCBIndex m"
    by (auto simp: objConstants_def split: option.splits)
  with assms(1) map_of_SomeD[of mats n m] show ?thesis
    by (auto simp: list_all_iff)
qed

lemma obj_loop_stored:
  assumes "UpdateObjectCBs_loop mats es cb = Inr (es', cb')"
    and "list_all (\<lambda>(k, m). MatCBIndex m < c) mats"
    and "list_all (\<lambda>slot. case slot of None \<Rightarrow> True | Some oc \<Rightarrow> MaterialIndex oc < c) cb"
  shows "list_all (\<lambda>slot. case slot of None \<Rightarrow> True | Some oc \<Rightarrow> MaterialIndex oc < c) cb'"
  using assms(1,3)
proof (induction es arbitrary: cb es' cb')
  case Nil
  then show ?case by simp
next
  case (Cons e es)
  show ?case
  proof (cases "0 < NumFramesDirty e")
    case True
    with Cons.prems(1) obtain oc cb1 es1 where
      o: "objConstants mats e = Inr oc"
      and c: "CopyData (ObjCBIndex e) oc cb = Inr cb1"
      and l: "UpdateObjectCBs_loop mats es cb1 = Inr (es1, cb')"
      by (auto split: sum.splits prod.splits)
    from c have cb1: "cb1 = cb[ObjCBIndex e := Some oc]"
      by (auto simp: CopyData_def split: if_splits)
    have "set cb1 \<subseteq> insert (Some oc) (set cb)"
      unfolding cb1 by (rule set_update_subset_insert)
    with Cons.prems(2) objConstants_bound[OF assms(2) o]
    have "list_all (\<lambda>slot. case slot of None \<Rightarrow> True | Some oc \<Rightarrow> MaterialIndex oc < c) cb1"
      by (auto simp: list_all_iff)
    from Cons.IH[OF l this] show ?thesis .
  next
    case False
    with Cons.prems(1) obtain es1 where
      l: "UpdateObjectCBs_loop mats es cb = Inr (es1, cb')"
      by (auto split: sum.splits prod.splits)
    from Cons.IH[OF l Cons.prems(2)] show ?thesis .
  qed
qed

lemma update_cycle_stored:
  assumes uc: "update_cycle inp s = Inr u"
    and m: "list_all (\<lambda>(k, m). MatCBIndex m < c) (mMaterials s)"
    and st: "list_all (list_all (\<lambda>slot. case slot of None \<Rightarrow> True
                                      | Some oc \<Rightarrow> MaterialIndex oc < c))
               (map ObjectCB (mFrameResources s))"
  shows "list_all (list_all (\<lambda>slot. case slot of None \<Rightarrow> True
                                      | Some oc \<Rightarrow> MaterialIndex oc < c))
               (map ObjectCB (mFrameResources u))"
proof -
  let ?i = "advance_ring gNumFrameResources (mCurrFrameResourceIndex s)"
  let ?ok = "list_all (\<lambda>slot. case slot of None \<Rightarrow> True | Some oc \<Rightarrow> MaterialIndex oc < c)"
  from uc obtain es' cb' ms' mb' where
    lt: "?i < length (mFrameResources s)"
    and ol: "UpdateObjectCBs_loop (mMaterials s) (mAllRitems s) (ObjectCB (mFrameResources s ! ?i))
       = Inr (es', cb')"
    and u: "u = s\<lparr>mCurrFrameResourceIndex := ?i, mCurrFrameResource := Some ?i,
             mAllRitems := es', mMaterials := ms',
             mMainPassCB := MainPassCB inp (mMainPassCB s),
             mFrameResources :=
               (mFrameResources s)
                 [?i := (mFrameResources s ! ?i)
                    \<lparr>ObjectCB := cb', MaterialBuffer := mb',
                     PassCB := (PassCB (mFrameResources s ! ?i))
                                 [0 := Some (MainPassCB inp (mMainPassCB s))]\<rparr>]\<rparr>"
    by (rule update_cycle_Inr)
  from st lt have "?ok (ObjectCB (mFrameResources s ! ?i))"
    by (simp add: list_all_length)
  from obj_loop_stored[OF ol m this] have new: "?ok cb'" .
  from u lt have "map ObjectCB (mFrameResources u) = (map ObjectCB (mFrameResources s))[?i := cb']"
    by (simp add: map_update)
  moreover have "set ((map ObjectCB (mFrameResources s))[?i := cb'])
      \<subseteq> insert cb' (set (map ObjectCB (mFrameResources s)))"
    by (rule set_update_subset_insert)
  ultimately show ?thesis using st new by (auto simp: list_all_iff)
qed

lemma run_frames_stored:
  assumes "run_frames inps s = Inr s'"
    and "list_all (\<lambda>(k, m). MatCBIndex m < c) (mMaterials s)"
    and "list_all (list_all (\<lambda>slot. case slot of None \<Rightarrow> True
                                      | Some oc \<Rightarrow> MaterialIndex oc < c))
               (map ObjectCB (mFrameResources s))"
  shows "list_all (list_all (\<lambda>slot. case slot of None \<Rightarrow> True
                                      | Some oc \<Rightarrow> MaterialIndex oc < c))
               (map ObjectCB (mFrameResources s'))"
  using assms
proof (induction inps arbitrary: s)
  case Nil
  then show ?case by simp
next
  case (Cons inp inps)
  from Cons.prems(1) obtain u x where u: "update_cycle inp s = Inr u" and x: "Draw all_S_OK u = Inr x"
    and r: "run_frames inps x = Inr s'"
    by (auto split: sum.splits)
  have "list_all (\<lambda>i. i < c) (map (MatCBIndex \<circ> snd) (mMaterials s))"
    using Cons.prems(2) by (simp add: list.pred_map comp_def case_prod_beta)
  then have "list_all (\<lambda>i. i < c) (map (MatCBIndex \<circ> snd) (mMaterials x))"
    using update_cycle_static(4)[OF u] Draw_step(2)[OF x] by simp
  then have m: "list_all (\<lambda>(k, m). MatCBIndex m < c) (mMaterials x)"
    by (simp add: list_all_iff case_prod_beta)
  from update_cycle_stored[OF u Cons.prems(2,3)] Draw_static(3)[OF x]
  have "list_all (list_all (\<lambda>slot. case slot of None \<Rightarrow> True
                                      | Some oc \<Rightarrow> MaterialIndex oc < c))
               (map ObjectCB (mFrameResources x))" by simp
  from Cons.IH[OF r m this] show ?case .
qed

lemma list_all_ObjCBIndex:
  assumes "map ObjCBIndex es = [0..<n]"
  shows "list_all (\<lambda>e. ObjCBIndex e < n) es"
proof -
  have "list_all (\<lambda>i. i < n) (map ObjCBIndex es)" unfolding assms by (simp add: list_all_iff)
  then show ?thesis by (simp add: list.pred_map comp_def)
qed

text \<open>
  C9. The fifty render items that \<open>BuildRenderItems\<close> makes carry the object-buffer
  indices 0 to 49, each once and in this order, so every index is below the number of render
  items. \<open>BuildFrameResources\<close> gives each frame resource an object buffer of that many
  slots. Hence the frame loop, run for any number of frames on the scene built at start-up,
  never leaves a buffer (it ends without a fault), the indices and capacities stay as built,
  and every offset that \<open>DrawRenderItems\<close> computes lies inside the object buffer.
\<close>

theorem object_indices_within_capacity:
  "\<exists>s. build_scene g pc0 = Inr s
     \<and> length (mAllRitems s) = 50
     \<and> map ObjCBIndex (mAllRitems s) = [0..<50]
     \<and> distinct (map ObjCBIndex (mAllRitems s))
     \<and> list_all (\<lambda>e. ObjCBIndex e < length (mAllRitems s)) (mAllRitems s)
     \<and> map (length \<circ> ObjectCB) (mFrameResources s) = [50, 50, 50]
     \<and> (\<forall>inps. \<exists>s'. run_frames inps s = Inr s'
            \<and> map ObjCBIndex (mAllRitems s') = [0..<50]
            \<and> map (length \<circ> ObjectCB) (mFrameResources s') = [50, 50, 50]
            \<and> (\<forall>objCBByteSize.
                  list_all (\<lambda>(offset, args). offset + objCBByteSize \<le> 50 * objCBByteSize)
                    (DrawRenderItems objCBByteSize (mAllRitems s'))))"
proof -
  let ?da = "DrawArgs (BuildShapeGeometry g)"
  obtain s where s: "build_scene g pc0 = Inr s" by (simp add: build_scene_Inr)
  then have items: "mAllRitems s = build_ritems ?da []"
    and frs: "mFrameResources s = replicate 3 (new_FrameResource 1 50 4)"
    unfolding build_scene_Inr by auto
  from items have len: "length (mAllRitems s) = 50" by (simp add: length_build_ritems)
  from items have idx: "map ObjCBIndex (mAllRitems s) = [0..<50]"
    by (simp only: build_ritems_ObjCBIndex)
  then have dist: "distinct (map ObjCBIndex (mAllRitems s))" by simp
  from list_all_ObjCBIndex[OF idx] len
  have below: "list_all (\<lambda>e. ObjCBIndex e < length (mAllRitems s)) (mAllRitems s)" by simp
  from frs have cap: "map (length \<circ> ObjectCB) (mFrameResources s) = [50, 50, 50]"
    by (simp add: new_FrameResource_def numeral_3_eq_3)
  have run: "\<exists>s'. run_frames inps s = Inr s'
            \<and> map ObjCBIndex (mAllRitems s') = [0..<50]
            \<and> map (length \<circ> ObjectCB) (mFrameResources s') = [50, 50, 50]
            \<and> (\<forall>objCBByteSize.
                  list_all (\<lambda>(offset, args). offset + objCBByteSize \<le> 50 * objCBByteSize)
                    (DrawRenderItems objCBByteSize (mAllRitems s')))" for inps
  proof -
    from run_frames_ok[OF build_scene_ok[OF s], of inps] obtain s' where
      s': "run_frames inps s = Inr s'" by blast
    from run_frames_static[OF s'] idx cap
    have idx': "map ObjCBIndex (mAllRitems s') = [0..<50]"
      and cap': "map (length \<circ> ObjectCB) (mFrameResources s') = [50, 50, 50]" by simp_all
    have "list_all (\<lambda>(offset, args). offset + sz \<le> 50 * sz)
            (DrawRenderItems sz (mAllRitems s'))" for sz
    proof -
      have "ObjCBIndex e * sz + sz \<le> 50 * sz" if "ObjCBIndex e < 50" for e :: RenderItem
      proof -
        from that have "Suc (ObjCBIndex e) * sz \<le> 50 * sz" by (intro mult_le_mono1) simp
        then show ?thesis by simp
      qed
      with list_all_ObjCBIndex[OF idx'] show ?thesis
        unfolding DrawRenderItems_def list_all_iff by auto
    qed
    then have "\<forall>objCBByteSize.
                  list_all (\<lambda>(offset, args). offset + objCBByteSize \<le> 50 * objCBByteSize)
                    (DrawRenderItems objCBByteSize (mAllRitems s'))" ..
    with s' idx' cap' show ?thesis by (intro exI[of _ s'] conjI)
  qed
  then have "\<forall>inps. \<exists>s'. run_frames inps s = Inr s'
            \<and> map ObjCBIndex (mAllRitems s') = [0..<50]
            \<and> map (length \<circ> ObjectCB) (mFrameResources s') = [50, 50, 50]
            \<and> (\<forall>objCBByteSize.
                  list_all (\<lambda>(offset, args). offset + objCBByteSize \<le> 50 * objCBByteSize)
                    (DrawRenderItems objCBByteSize (mAllRitems s')))" ..
  with s len idx dist below cap show ?thesis by (intro exI[of _ s] conjI)
qed

text \<open>
  C10. \<open>BuildMaterials\<close> makes the material \<open>diaMat\<close> with material and texture index 4
  but does not store it: the map holds exactly the four materials \<open>bricks0\<close>, \<open>stone0\<close>,
  \<open>tile0\<close> and \<open>crate0\<close> with the indices 0 to 3, and every render item points to one of
  them. Each frame resource has a material buffer of four slots, so for any number of frames
  the loop ends without a fault, the material indices stay 0 to 3, and every material index
  computed for, or stored in, an object constant is below 4.
\<close>

theorem material_indices_within_capacity:
  "Name diamondMat = ''diaMat'' \<and> MatCBIndex diamondMat = 4 \<and> DiffuseSrvHeapIndex diamondMat = 4
   \<and> (\<exists>s. build_scene g pc0 = Inr s
      \<and> map fst (mMaterials s) = [''bricks0'', ''stone0'', ''tile0'', ''crate0'']
      \<and> map_of (mMaterials s) ''diaMat'' = None
      \<and> diamondMat \<notin> snd ` set (mMaterials s)
      \<and> length (mMaterials s) = 4
      \<and> map (MatCBIndex \<circ> snd) (mMaterials s) = [0, 1, 2, 3]
      \<and> list_all (\<lambda>e. Mat e \<in> {Some ''bricks0'', Some ''stone0'', Some ''tile0'', Some ''crate0''})
           (mAllRitems s)
      \<and> map (length \<circ> MaterialBuffer) (mFrameResources s) = [4, 4, 4]
      \<and> (\<forall>inps. \<exists>s'. run_frames inps s = Inr s'
             \<and> map (MatCBIndex \<circ> snd) (mMaterials s') = [0, 1, 2, 3]
             \<and> map (length \<circ> MaterialBuffer) (mFrameResources s') = [4, 4, 4]
             \<and> list_all (\<lambda>e. case objConstants (mMaterials s') e of
                                 Inl f \<Rightarrow> False | Inr oc \<Rightarrow> MaterialIndex oc < 4)
                  (mAllRitems s')
             \<and> list_all (list_all (\<lambda>slot. case slot of None \<Rightarrow> True
                                             | Some oc \<Rightarrow> MaterialIndex oc < 4))
                  (map ObjectCB (mFrameResources s'))))"
proof -
  let ?da = "DrawArgs (BuildShapeGeometry g)"
  have dia: "Name diamondMat = ''diaMat''" "MatCBIndex diamondMat = 4"
    "DiffuseSrvHeapIndex diamondMat = 4"
    by (simp_all add: diamondMat_def new_Material_def)
  have mc: "MatCBIndex bricks0 = 0" "MatCBIndex stone0 = 1" "MatCBIndex tile0 = 2"
    "MatCBIndex crate0 = 3"
    by (simp_all add: bricks0_def stone0_def tile0_def crate0_def new_Material_def)
  obtain s where s: "build_scene g pc0 = Inr s" by (simp add: build_scene_Inr)
  then have items: "mAllRitems s = build_ritems ?da []"
    and frs: "mFrameResources s = replicate 3 (new_FrameResource 1 50 4)"
    and mats: "mMaterials s = [(''bricks0'', bricks0), (''stone0'', stone0), (''tile0'', tile0),
             (''crate0'', crate0)]"
    unfolding build_scene_Inr by auto
  from mats have keys: "map fst (mMaterials s) = [''bricks0'', ''stone0'', ''tile0'', ''crate0'']"
    and nodia: "map_of (mMaterials s) ''diaMat'' = None"
    and len: "length (mMaterials s) = 4"
    by simp_all
  from mats mc dia(2) have notin: "diamondMat \<notin> snd ` set (mMaterials s)" by auto
  from mats mc have idx: "map (MatCBIndex \<circ> snd) (mMaterials s) = [0, 1, 2, 3]" by simp
  have used: "list_all (\<lambda>e. Mat e \<in> {Some ''bricks0'', Some ''stone0'', Some ''tile0'',
                                   Some ''crate0''}) (mAllRitems s)"
  proof -
    have "list_all (\<lambda>x. x \<in> {Some ''bricks0'', Some ''stone0'', Some ''tile0'', Some ''crate0''})
            (map Mat (build_ritems ?da []))"
      unfolding build_ritems_Mat by (simp add: list_all_iff)
    with items show ?thesis by (simp add: list.pred_map comp_def)
  qed
  from frs have cap: "map (length \<circ> MaterialBuffer) (mFrameResources s) = [4, 4, 4]"
    by (simp add: new_FrameResource_def numeral_3_eq_3)
  from mats mc have m0: "list_all (\<lambda>(k, m). MatCBIndex m < 4) (mMaterials s)" by simp
  from frs have st0: "list_all (list_all (\<lambda>slot. case slot of None \<Rightarrow> True
                                             | Some oc \<Rightarrow> MaterialIndex oc < 4))
                  (map ObjectCB (mFrameResources s))"
    by (simp add: new_FrameResource_def list_all_iff)
  have run: "\<exists>s'. run_frames inps s = Inr s'
             \<and> map (MatCBIndex \<circ> snd) (mMaterials s') = [0, 1, 2, 3]
             \<and> map (length \<circ> MaterialBuffer) (mFrameResources s') = [4, 4, 4]
             \<and> list_all (\<lambda>e. case objConstants (mMaterials s') e of
                                 Inl f \<Rightarrow> False | Inr oc \<Rightarrow> MaterialIndex oc < 4)
                  (mAllRitems s')
             \<and> list_all (list_all (\<lambda>slot. case slot of None \<Rightarrow> True
                                             | Some oc \<Rightarrow> MaterialIndex oc < 4))
                  (map ObjectCB (mFrameResources s'))" for inps
  proof -
    from run_frames_ok[OF build_scene_ok[OF s], of inps] obtain s' where
      s': "run_frames inps s = Inr s'" and ok': "scene_ok s'" by blast
    from run_frames_static[OF s'] idx cap
    have idx': "map (MatCBIndex \<circ> snd) (mMaterials s') = [0, 1, 2, 3]"
      and cap': "map (length \<circ> MaterialBuffer) (mFrameResources s') = [4, 4, 4]"
      by simp_all
    have "list_all (\<lambda>i. i < 4) (map (MatCBIndex \<circ> snd) (mMaterials s'))"
      unfolding idx' by simp
    then have m': "list_all (\<lambda>(k, m). MatCBIndex m < 4) (mMaterials s')"
      by (simp add: list_all_iff case_prod_beta)
    have oc: "case objConstants (mMaterials s') e of
                Inl f \<Rightarrow> False | Inr oc \<Rightarrow> MaterialIndex oc < 4"
      if "e \<in> set (mAllRitems s')" for e
    proof -
      from ok' that have "case Mat e of None \<Rightarrow> False
          | Some n \<Rightarrow> map_of (mMaterials s') n \<noteq> None"
        by (simp add: scene_ok_def list_all_iff)
      then obtain c where c: "objConstants (mMaterials s') e = Inr c"
        by (auto simp: objConstants_def split: option.splits)
      from objConstants_bound[OF m' c] c show ?thesis by simp
    qed
    from oc have "list_all (\<lambda>e. case objConstants (mMaterials s') e of
                                 Inl f \<Rightarrow> False | Inr oc \<Rightarrow> MaterialIndex oc < 4)
                  (mAllRitems s')"
      unfolding list_all_iff by blast
    with run_frames_stored[OF s' m0 st0] s' idx' cap' show ?thesis
      by (intro exI[of _ s'] conjI)
  qed
  then have run': "\<forall>inps. \<exists>s'. run_frames inps s = Inr s'
             \<and> map (MatCBIndex \<circ> snd) (mMaterials s') = [0, 1, 2, 3]
             \<and> map (length \<circ> MaterialBuffer) (mFrameResources s') = [4, 4, 4]
             \<and> list_all (\<lambda>e. case objConstants (mMaterials s') e of
                                 Inl f \<Rightarrow> False | Inr oc \<Rightarrow> MaterialIndex oc < 4)
                  (mAllRitems s')
             \<and> list_all (list_all (\<lambda>slot. case slot of None \<Rightarrow> True
                                             | Some oc \<Rightarrow> MaterialIndex oc < 4))
                  (map ObjectCB (mFrameResources s'))" ..
  from s keys nodia notin len idx used cap run'
  have "\<exists>s. build_scene g pc0 = Inr s
      \<and> map fst (mMaterials s) = [''bricks0'', ''stone0'', ''tile0'', ''crate0'']
      \<and> map_of (mMaterials s) ''diaMat'' = None
      \<and> diamondMat \<notin> snd ` set (mMaterials s)
      \<and> length (mMaterials s) = 4
      \<and> map (MatCBIndex \<circ> snd) (mMaterials s) = [0, 1, 2, 3]
      \<and> list_all (\<lambda>e. Mat e \<in> {Some ''bricks0'', Some ''stone0'', Some ''tile0'', Some ''crate0''})
           (mAllRitems s)
      \<and> map (length \<circ> MaterialBuffer) (mFrameResources s) = [4, 4, 4]
      \<and> (\<forall>inps. \<exists>s'. run_frames inps s = Inr s'
             \<and> map (MatCBIndex \<circ> snd) (mMaterials s') = [0, 1, 2, 3]
             \<and> map (length \<circ> MaterialBuffer) (mFrameResources s') = [4, 4, 4]
             \<and> list_all (\<lambda>e. case objConstants (mMaterials s') e of
                                 Inl f \<Rightarrow> False | Inr oc \<Rightarrow> MaterialIndex oc < 4)
                  (mAllRitems s')
             \<and> list_all (list_all (\<lambda>slot. case slot of None \<Rightarrow> True
                                             | Some oc \<Rightarrow> MaterialIndex oc < 4))
                  (map ObjectCB (mFrameResources s')))"
    by (intro exI[of _ s] conjI)
  with dia show ?thesis by (intro conjI)
qed

text \<open>
  C7. In the loop that places the paired cylinders and spheres, the item named
  \<open>leftCylRitem\<close> gets the world matrix built from \<open>rightCylWorld\<close>, the translation to
  \<open>x = +3.0\<close>, and \<open>rightCylRitem\<close> the one built from \<open>leftCylWorld\<close>, the translation
  to \<open>x = -3.0\<close>; the spheres are not swapped. In the finished list these are the items
  at positions 16, 17 and 20, 21.
\<close>

theorem paired_cylinders_swapped:
  "\<exists>leftCylRitem rightCylRitem leftSphereRitem rightSphereRitem.
     cyl_sphere_body da i (ritems, objCBIndex)
       = (ritems @ [leftCylRitem, rightCylRitem, leftSphereRitem, rightSphereRitem],
          objCBIndex + 4)
     \<and> World leftCylRitem
         = XMMatrixMultiply brickTexTransform
             (XMMatrixTranslation 3.0 2 (1.5 + of_nat i * 8.9))
     \<and> World rightCylRitem
         = XMMatrixMultiply brickTexTransform
             (XMMatrixTranslation (- 3.0) 2 (1.5 + of_nat i * 8.9))
     \<and> ObjCBIndex leftCylRitem = objCBIndex \<and> ObjCBIndex rightCylRitem = objCBIndex + 1
     \<and> World leftSphereRitem
         = XMMatrixMultiply sphereTransform
             (XMMatrixTranslation (- 3.0) 5 (1.5 + of_nat i * 8.9))
     \<and> World rightSphereRitem
         = XMMatrixMultiply sphereTransform
             (XMMatrixTranslation 3.0 5 (1.5 + of_nat i * 8.9))
     \<and> World (build_ritems da [] ! 16)
         = XMMatrixMultiply brickTexTransform (XMMatrixTranslation 3.0 2 1.5)
     \<and> World (build_ritems da [] ! 17)
         = XMMatrixMultiply brickTexTransform (XMMatrixTranslation (- 3.0) 2 1.5)
     \<and> World (build_ritems da [] ! 20)
         = XMMatrixMultiply brickTexTransform (XMMatrixTranslation 3.0 2 10.4)
     \<and> World (build_ritems da [] ! 21)
         = XMMatrixMultiply brickTexTransform (XMMatrixTranslation (- 3.0) 2 10.4)"
proof -
  have "World (build_ritems da [] ! 16)
         = XMMatrixMultiply brickTexTransform (XMMatrixTranslation 3.0 2 1.5)"
    "World (build_ritems da [] ! 17)
         = XMMatrixMultiply brickTexTransform (XMMatrixTranslation (- 3.0) 2 1.5)"
    "World (build_ritems da [] ! 20)
         = XMMatrixMultiply brickTexTransform (XMMatrixTranslation 3.0 2 10.4)"
    "World (build_ritems da [] ! 21)
         = XMMatrixMultiply brickTexTransform (XMMatrixTranslation (- 3.0) 2 10.4)"
    by (simp_all add: build_defs nth_append)
  then show ?thesis
    by (simp add: cyl_sphere_body_def fill_ritem_def Let_def)
qed

subsection \<open>Geometry packing\<close>

lemma vertex_assign_all: "v\<lparr>Pos := p, Normal := n, TexC := t\<rparr> = \<lparr>Pos = p, Normal = n, TexC = t\<rparr>"
  by (cases v) simp

lemma copy_vertices_eq:
  "k + length gs \<le> length vs \<Longrightarrow>
     copy_vertices gs (vs, k)
       = (take k vs @ map convert_vertex gs @ drop (k + length gs) vs, k + length gs)"
proof (induction gs arbitrary: vs k)
  case Nil
  then show ?case by simp
next
  case (Cons g gs)
  let ?vs = "vs[k := convert_vertex g]"
  from Cons.prems have k: "k < length vs" and le: "Suc k + length gs \<le> length ?vs" by simp_all
  have "copy_vertices (g # gs) (vs, k) = copy_vertices gs (?vs, Suc k)"
    by (simp add: vertex_assign_all convert_vertex_def)
  also from Cons.IH[OF le]
  have "\<dots> = (take (Suc k) ?vs @ map convert_vertex gs @ drop (Suc k + length gs) ?vs,
               Suc k + length gs)" .
  also from k have "take (Suc k) ?vs = take k vs @ [convert_vertex g]"
    by (simp add: take_Suc_conv_app_nth)
  also have "drop (Suc k + length gs) ?vs = drop (Suc k + length gs) vs"
    by simp
  finally show ?case by simp
qed

lemma copy_all_vertices:
  "k + sum_list (map (length \<circ> Vertices) ms) \<le> length vs \<Longrightarrow>
     fold (\<lambda>m. copy_vertices (Vertices m)) ms (vs, k)
       = (take k vs @ concat (map (map convert_vertex \<circ> Vertices) ms)
            @ drop (k + sum_list (map (length \<circ> Vertices) ms)) vs,
          k + sum_list (map (length \<circ> Vertices) ms))"
proof (induction ms arbitrary: vs k)
  case Nil
  then show ?case by simp
next
  case (Cons m ms)
  let ?n = "length (Vertices m)"
  let ?S = "sum_list (map (length \<circ> Vertices) ms)"
  define ws where "ws = take k vs @ map convert_vertex (Vertices m) @ drop (k + ?n) vs"
  from Cons.prems have le: "k + ?n \<le> length vs" by simp
  from le have len: "length ws = length vs"
    and t: "take (k + ?n) ws = take k vs @ map convert_vertex (Vertices m)"
    and d0: "drop (k + ?n) ws = drop (k + ?n) vs"
    unfolding ws_def by simp_all
  from Cons.prems len have le': "(k + ?n) + ?S \<le> length ws"
    by (simp add: comp_def)
  have "drop (k + ?n + ?S) ws = drop ?S (drop (k + ?n) ws)"
    by (simp add: ac_simps)
  also have "\<dots> = drop (k + ?n + ?S) vs"
    unfolding d0 by (simp add: ac_simps)
  finally have d: "drop (k + ?n + ?S) ws = drop (k + ?n + ?S) vs" .
  have "fold (\<lambda>m. copy_vertices (Vertices m)) (m # ms) (vs, k)
      = fold (\<lambda>m. copy_vertices (Vertices m)) ms (ws, k + ?n)"
    by (simp add: copy_vertices_eq[OF le] ws_def)
  also have "\<dots> = (take (k + ?n) ws @ concat (map (map convert_vertex \<circ> Vertices) ms)
            @ drop (k + ?n + ?S) ws, k + ?n + ?S)"
    by (rule Cons.IH[OF le'])
  also have "\<dots> = (take k vs @ concat (map (map convert_vertex \<circ> Vertices) (m # ms))
            @ drop (k + sum_list (map (length \<circ> Vertices) (m # ms))) vs,
          k + sum_list (map (length \<circ> Vertices) (m # ms)))"
    unfolding t d by (simp add: add.assoc)
  finally show ?case .
qed

lemma nested_copy:
  assumes "T = sum_list (map (length \<circ> Vertices) [b1, b2, b3, b4, b5, b6, b7, b8, b9, b10, b11, b12, b13, b14])"
  shows "copy_vertices (Vertices b14)
          (copy_vertices (Vertices b13)
          (copy_vertices (Vertices b12)
          (copy_vertices (Vertices b11)
          (copy_vertices (Vertices b10)
          (copy_vertices (Vertices b9)
          (copy_vertices (Vertices b8)
          (copy_vertices (Vertices b7)
          (copy_vertices (Vertices b6)
          (copy_vertices (Vertices b5)
          (copy_vertices (Vertices b4)
          (copy_vertices (Vertices b3)
          (copy_vertices (Vertices b2)
          (copy_vertices (Vertices b1) (replicate T zero_Vertex, 0))))))))))))))
       = (concat (map (map convert_vertex \<circ> Vertices)
            [b1, b2, b3, b4, b5, b6, b7, b8, b9, b10, b11, b12, b13, b14]), T)"
proof -
  let ?ms = "[b1, b2, b3, b4, b5, b6, b7, b8, b9, b10, b11, b12, b13, b14]"
  have le: "0 + sum_list (map (length \<circ> Vertices) ?ms) \<le> length (replicate T zero_Vertex)"
    unfolding assms by simp
  have "fold (\<lambda>m. copy_vertices (Vertices m)) ?ms (replicate T zero_Vertex, 0)
      = (concat (map (map convert_vertex \<circ> Vertices) ?ms), T)"
    unfolding copy_all_vertices[OF le] unfolding assms by simp
  then show ?thesis by simp
qed

lemma BuildShapeGeometry_vertices:
  "VertexBufferCPU (BuildShapeGeometry g)
     = concat (map (map convert_vertex \<circ> Vertices \<circ> snd) (packing_order g))"
proof -
  have "VertexBufferCPU (BuildShapeGeometry g)
     = concat (map (map convert_vertex \<circ> Vertices)
        [box g, grid g, sphere g, cylinder g, diamond g, wedge g, octahedron g,
         triangularPrism g, hexagon g, octagon g, cone g, pyramid g, container g, star g])"
    unfolding BuildShapeGeometry_def Let_def
    by (subst nested_copy) simp_all
  then show ?thesis by (simp add: packing_order_def)
qed

lemma BuildShapeGeometry_indices:
  "IndexBufferCPU (BuildShapeGeometry g) = concat (map (GetIndices16 \<circ> snd) (packing_order g))"
  unfolding BuildShapeGeometry_def Let_def packing_order_def
  by (simp add: case_prod_beta)

lemma BuildShapeGeometry_DrawArgs:
  "DrawArgs (BuildShapeGeometry g) = spec_draw_args 0 0 (packing_order g)"
  unfolding BuildShapeGeometry_def Let_def packing_order_def
  by (simp add: case_prod_beta add.assoc)

lemma spec_draw_args_keys: "map fst (spec_draw_args s b ms) = map fst ms"
  by (induction s b ms rule: spec_draw_args.induct) simp_all

lemma spec_draw_args_nth:
  "k < length ms \<Longrightarrow>
     spec_draw_args s b ms ! k
       = (fst (ms ! k),
          submesh (length (Indices32 (snd (ms ! k))))
            (s + sum_list (map (length \<circ> Indices32 \<circ> snd) (take k ms)))
            (b + sum_list (map (length \<circ> Vertices \<circ> snd) (take k ms))))"
proof (induction s b ms arbitrary: k rule: spec_draw_args.induct)
  case (1 s b)
  then show ?case by simp
next
  case (2 s b name m ms)
  show ?case
  proof (cases k)
    case 0
    then show ?thesis by simp
  next
    case (Suc k')
    with "2.prems" have "k' < length ms" by simp
    from "2.IH"[OF this] Suc show ?thesis by (simp add: add.assoc)
  qed
qed

lemma nth_concat_offset:
  "k < length xss \<Longrightarrow> j < length (xss ! k) \<Longrightarrow>
     concat xss ! (sum_list (map length (take k xss)) + j) = xss ! k ! j"
proof (induction xss arbitrary: k)
  case Nil
  then show ?case by simp
next
  case (Cons xs xss)
  show ?case
  proof (cases k)
    case 0
    with Cons.prems show ?thesis by (simp add: nth_append)
  next
    case (Suc k')
    with Cons.prems have "k' < length xss" "j < length (xss ! k')" by simp_all
    from Cons.IH[OF this] Suc show ?thesis
      by (simp add: nth_append add.assoc)
  qed
qed

lemma sum_take_Suc:
  fixes f :: "'a \<Rightarrow> nat"
  shows "k < length xs \<Longrightarrow>
    sum_list (map f (take (Suc k) xs)) = sum_list (map f (take k xs)) + f (xs ! k)"
  by (simp add: take_Suc_conv_app_nth)

lemma sum_take_mono:
  fixes f :: "'a \<Rightarrow> nat"
  assumes "k \<le> k'"
  shows "sum_list (map f (take k xs)) \<le> sum_list (map f (take k' xs))"
proof -
  from assms have "take k' xs = take k xs @ take (k' - k) (drop k xs)"
    by (metis le_add_diff_inverse take_add)
  then show ?thesis by simp
qed

lemma sum_take_le_total:
  fixes f :: "'a \<Rightarrow> nat"
  shows "sum_list (map f (take k xs)) \<le> sum_list (map f xs)"
  using sum_take_mono[of k "max k (length xs)" f xs] by simp

lemma packing_order_names:
  "map fst (packing_order g) =
     [''box'', ''grid'', ''sphere'', ''cylinder'', ''diamond'', ''wedge'', ''octahedron'',
      ''triangularPrism'', ''hexagon'', ''octagon'', ''cone'', ''pyramid'', ''container'',
      ''star'']"
  "distinct (map fst (packing_order g))" "length (packing_order g) = 14"
  by (simp_all add: packing_order_def)

lemma DrawArgs_at_packed:
  assumes k: "k < length (packing_order g)" and nm: "(name, m) = packing_order g ! k"
  shows "DrawArgs_at (DrawArgs (BuildShapeGeometry g)) name
     = submesh (length (Indices32 m))
         (sum_list (map (length \<circ> Indices32 \<circ> snd) (take k (packing_order g))))
         (sum_list (map (length \<circ> Vertices \<circ> snd) (take k (packing_order g))))"
proof -
  let ?ms = "packing_order g"
  let ?da = "spec_draw_args 0 0 ?ms"
  let ?sm = "submesh (length (Indices32 m))
         (sum_list (map (length \<circ> Indices32 \<circ> snd) (take k ?ms)))
         (sum_list (map (length \<circ> Vertices \<circ> snd) (take k ?ms)))"
  from nm have fs: "fst (?ms ! k) = name" "snd (?ms ! k) = m"
    by (metis fst_conv, metis snd_conv)
  from spec_draw_args_nth[OF k, of 0 0] fs have "?da ! k = (name, ?sm)" by simp
  moreover from k have "k < length ?da"
    by (metis length_map spec_draw_args_keys)
  ultimately have "(name, ?sm) \<in> set ?da" by (metis nth_mem)
  moreover have "distinct (map fst ?da)"
    unfolding spec_draw_args_keys by (rule packing_order_names(2))
  ultimately have "map_of ?da name = Some ?sm" by simp
  then show ?thesis by (simp add: DrawArgs_at_def BuildShapeGeometry_DrawArgs)
qed

text \<open>
  C5. The meshes are packed in the order box, grid, sphere, \<dots>, star: the vertex buffer is
  the concatenation of their vertices and the index buffer the concatenation of their
  indices. The draw arguments recorded under the name of the \<open>k\<close>-th mesh are its index
  count, the number of indices of the meshes before it and the number of vertices of the
  meshes before it. When every mesh is well formed, each index of mesh \<open>k\<close>, read from the
  index buffer at its start offset and added to its base-vertex offset, addresses the
  vertex of mesh \<open>k\<close> that the index names; the address lies in the range of mesh \<open>k\<close>
  and in the range of no other mesh.
\<close>

theorem packed_indices_address_own_mesh:
  assumes ms: "ms = packing_order g"
    and k: "k < length ms" and nm: "(name, m) = ms ! k"
    and geo: "geo = BuildShapeGeometry g"
    and sm: "sm = DrawArgs_at (DrawArgs geo) name"
    and base: "base = (\<lambda>i. sum_list (map (length \<circ> Vertices \<circ> snd) (take i ms)))"
    and start: "start = (\<lambda>i. sum_list (map (length \<circ> Indices32 \<circ> snd) (take i ms)))"
  shows "map fst (DrawArgs geo) = map fst ms
       \<and> VertexBufferCPU geo = concat (map (map convert_vertex \<circ> Vertices \<circ> snd) ms)
       \<and> IndexBufferCPU geo = concat (map (GetIndices16 \<circ> snd) ms)
       \<and> sm_IndexCount sm = length (Indices32 m)
       \<and> sm_StartIndexLocation sm = start k
       \<and> sm_BaseVertexLocation sm = int (base k)
       \<and> (list_all (mesh_ok \<circ> snd) ms \<longrightarrow>
           (\<forall>j < sm_IndexCount sm.
              IndexBufferCPU geo ! (sm_StartIndexLocation sm + j) = GetIndices16 m ! j
              \<and> GetIndices16 m ! j < length (Vertices m)
              \<and> base k + GetIndices16 m ! j < length (VertexBufferCPU geo)
              \<and> VertexBufferCPU geo ! (base k + GetIndices16 m ! j)
                  = convert_vertex (Vertices m ! (GetIndices16 m ! j))
              \<and> base k + GetIndices16 m ! j < base (Suc k)
              \<and> (\<forall>k' < length ms. k' \<noteq> k \<longrightarrow>
                    \<not> (base k' \<le> base k + GetIndices16 m ! j
                       \<and> base k + GetIndices16 m ! j < base (Suc k')))))"
proof -
  let ?vss = "map (map convert_vertex \<circ> Vertices \<circ> snd) ms"
  let ?iss = "map (GetIndices16 \<circ> snd) ms"
  from nm have fs: "fst (ms ! k) = name" "snd (ms ! k) = m"
    by (metis fst_conv, metis snd_conv)
  have keys: "map fst (DrawArgs geo) = map fst ms"
    unfolding geo ms BuildShapeGeometry_DrawArgs by (rule spec_draw_args_keys)
  have vb: "VertexBufferCPU geo = concat ?vss"
    unfolding geo ms by (rule BuildShapeGeometry_vertices)
  have ib: "IndexBufferCPU geo = concat ?iss"
    unfolding geo ms by (rule BuildShapeGeometry_indices)
  from DrawArgs_at_packed[of k g name m] k nm
  have sm_eq: "sm = submesh (length (Indices32 m)) (start k) (base k)"
    unfolding sm geo start base ms by simp
  then have args: "sm_IndexCount sm = length (Indices32 m)" "sm_StartIndexLocation sm = start k"
    "sm_BaseVertexLocation sm = int (base k)"
    by (simp_all add: submesh_def)
  have base_vss: "base i = sum_list (map length (take i ?vss))" for i
    unfolding base by (simp add: take_map comp_def)
  have base_Suc: "base (Suc i) = base i + length (Vertices (snd (ms ! i)))" if "i < length ms" for i
    unfolding base using sum_take_Suc[OF that, of "length \<circ> Vertices \<circ> snd"] by simp
  have base_mono: "base i \<le> base i'" if "i \<le> i'" for i i'
    unfolding base by (rule sum_take_mono[OF that])
  have total: "base i \<le> length (concat ?vss)" for i
    unfolding base length_concat using sum_take_le_total[of "length \<circ> Vertices \<circ> snd" i ms]
    by (simp add: comp_def)
  have rest: "IndexBufferCPU geo ! (sm_StartIndexLocation sm + j) = GetIndices16 m ! j
              \<and> GetIndices16 m ! j < length (Vertices m)
              \<and> base k + GetIndices16 m ! j < length (VertexBufferCPU geo)
              \<and> VertexBufferCPU geo ! (base k + GetIndices16 m ! j)
                  = convert_vertex (Vertices m ! (GetIndices16 m ! j))
              \<and> base k + GetIndices16 m ! j < base (Suc k)
              \<and> (\<forall>k' < length ms. k' \<noteq> k \<longrightarrow>
                    \<not> (base k' \<le> base k + GetIndices16 m ! j
                       \<and> base k + GetIndices16 m ! j < base (Suc k')))"
    if ok: "list_all (mesh_ok \<circ> snd) ms" and j: "j < sm_IndexCount sm" for j
  proof -
    let ?ix = "GetIndices16 m ! j"
    from ok have all_ok: "\<And>p. p \<in> set ms \<Longrightarrow> mesh_ok (snd p)" by (simp add: list_all_iff)
    from k fs all_ok[of "ms ! k"] have mok: "mesh_ok m" by simp
    from mok j args(1) have j16: "j < length (GetIndices16 m)" by (simp add: mesh_ok_def)
    with mok have ix: "?ix < length (Vertices m)" by (simp add: mesh_ok_def list_all_length)
    have "map (length \<circ> Indices32 \<circ> snd) (take k ms)
        = map (length \<circ> GetIndices16 \<circ> snd) (take k ms)"
    proof (rule map_cong[OF refl])
      fix p assume "p \<in> set (take k ms)"
      then have "p \<in> set ms" by (rule in_set_takeD)
      from all_ok[OF this] show "(length \<circ> Indices32 \<circ> snd) p = (length \<circ> GetIndices16 \<circ> snd) p"
        by (simp add: mesh_ok_def)
    qed
    then have "sum_list (map (length \<circ> Indices32 \<circ> snd) (take k ms))
        = sum_list (map (length \<circ> GetIndices16 \<circ> snd) (take k ms))"
      by (rule arg_cong)
    also have "\<dots> = sum_list (map length (take k ?iss))"
      by (simp add: take_map comp_def)
    finally have start_iss: "start k = sum_list (map length (take k ?iss))"
      unfolding start .
    from k fs j16 have "k < length ?iss" "j < length (?iss ! k)" by simp_all
    from nth_concat_offset[OF this] k fs
    have a: "IndexBufferCPU geo ! (sm_StartIndexLocation sm + j) = ?ix"
      unfolding ib args(2) start_iss by simp
    from k fs ix have "k < length ?vss" "?ix < length (?vss ! k)" by simp_all
    from nth_concat_offset[OF this] k fs ix
    have b: "VertexBufferCPU geo ! (base k + ?ix) = convert_vertex (Vertices m ! ?ix)"
      unfolding vb base_vss by simp
    from base_Suc[OF k] fs ix have c: "base k + ?ix < base (Suc k)" by simp
    with total[of "Suc k"] have d: "base k + ?ix < length (VertexBufferCPU geo)"
      unfolding vb by simp
    have e: "\<not> (base k' \<le> base k + ?ix \<and> base k + ?ix < base (Suc k'))"
      if "k' < length ms" "k' \<noteq> k" for k'
    proof (cases "k' < k")
      case True
      then have "base (Suc k') \<le> base k" by (intro base_mono) simp
      then show ?thesis by simp
    next
      case False
      with that have "Suc k \<le> k'" by simp
      then have "base (Suc k) \<le> base k'" by (rule base_mono)
      with c show ?thesis by simp
    qed
    from a ix d b c e show ?thesis by blast
  qed
  from keys vb ib args rest show ?thesis by blast
qed

theorem packed_indices_address_own_mesh_witness:
  "list_all (mesh_ok \<circ> snd) (packing_order demo_meshes)
   \<and> sm_IndexCount (DrawArgs_at (DrawArgs (BuildShapeGeometry demo_meshes)) ''grid'') = 6
   \<and> sm_StartIndexLocation (DrawArgs_at (DrawArgs (BuildShapeGeometry demo_meshes)) ''grid'') = 3
   \<and> sm_BaseVertexLocation (DrawArgs_at (DrawArgs (BuildShapeGeometry demo_meshes)) ''grid'') = 3
   \<and> IndexBufferCPU (BuildShapeGeometry demo_meshes) ! (3 + 5) = 3
   \<and> VertexBufferCPU (BuildShapeGeometry demo_meshes) ! (3 + 3) = convert_vertex (demo_vertex 13)"
proof -
  let ?ms = "packing_order demo_meshes"
  let ?geo = "BuildShapeGeometry demo_meshes"
  let ?sm = "DrawArgs_at (DrawArgs ?geo) ''grid''"
  have k: "1 < length ?ms" by (simp add: packing_order_def)
  have nm: "(''grid'', demo_quad) = ?ms ! 1" by (simp add: packing_order_def demo_meshes_def)
  have ok: "list_all (mesh_ok \<circ> snd) ?ms"
    by (simp add: packing_order_def demo_meshes_def mesh_ok_def demo_triangle_def demo_quad_def)
  have b1: "sum_list (map (length \<circ> Vertices \<circ> snd) (take 1 ?ms)) = 3"
    and s1: "sum_list (map (length \<circ> Indices32 \<circ> snd) (take 1 ?ms)) = 3"
    by (simp_all add: packing_order_def demo_meshes_def demo_triangle_def)
  have q: "length (Indices32 demo_quad) = 6" "GetIndices16 demo_quad ! 5 = 3"
    "Vertices demo_quad ! 3 = demo_vertex 13"
    by (simp_all add: demo_quad_def)
  note T = packed_indices_address_own_mesh[OF refl k nm refl refl refl refl]
  from T have cnt: "sm_IndexCount ?sm = length (Indices32 demo_quad)"
    by - ((elim conjE)?, assumption)
  from T have st: "sm_StartIndexLocation ?sm
      = sum_list (map (length \<circ> Indices32 \<circ> snd) (take 1 ?ms))"
    by - ((elim conjE)?, assumption)
  from T have bs: "sm_BaseVertexLocation ?sm
      = int (sum_list (map (length \<circ> Vertices \<circ> snd) (take 1 ?ms)))"
    by - ((elim conjE)?, assumption)
  from T have "list_all (mesh_ok \<circ> snd) ?ms \<longrightarrow>
           (\<forall>j < sm_IndexCount ?sm.
              IndexBufferCPU ?geo ! (sm_StartIndexLocation ?sm + j) = GetIndices16 demo_quad ! j
              \<and> GetIndices16 demo_quad ! j < length (Vertices demo_quad)
              \<and> sum_list (map (length \<circ> Vertices \<circ> snd) (take 1 ?ms)) + GetIndices16 demo_quad ! j
                  < length (VertexBufferCPU ?geo)
              \<and> VertexBufferCPU ?geo
                    ! (sum_list (map (length \<circ> Vertices \<circ> snd) (take 1 ?ms))
                        + GetIndices16 demo_quad ! j)
                  = convert_vertex (Vertices demo_quad ! (GetIndices16 demo_quad ! j))
              \<and> sum_list (map (length \<circ> Vertices \<circ> snd) (take 1 ?ms)) + GetIndices16 demo_quad ! j
                  < sum_list (map (length \<circ> Vertices \<circ> snd) (take (Suc 1) ?ms))
              \<and> (\<forall>k' < length ?ms. k' \<noteq> 1 \<longrightarrow>
                    \<not> (sum_list (map (length \<circ> Vertices \<circ> snd) (take k' ?ms))
                         \<le> sum_list (map (length \<circ> Vertices \<circ> snd) (take 1 ?ms))
                             + GetIndices16 demo_quad ! j
                       \<and> sum_list (map (length \<circ> Vertices \<circ> snd) (take 1 ?ms))
                             + GetIndices16 demo_quad ! j
                          < sum_list (map (length \<circ> Vertices \<circ> snd) (take (Suc k') ?ms)))))"
    by - ((elim conjE)?, assumption)
  from this[rule_format, OF ok, of 5] cnt q(1)
  have "IndexBufferCPU ?geo ! (sm_StartIndexLocation ?sm + 5) = GetIndices16 demo_quad ! 5"
    and "VertexBufferCPU ?geo
           ! (sum_list (map (length \<circ> Vertices \<circ> snd) (take 1 ?ms)) + GetIndices16 demo_quad ! 5)
         = convert_vertex (Vertices demo_quad ! (GetIndices16 demo_quad ! 5))"
    by simp_all
  with st cnt bs show ?thesis unfolding b1 s1 q using ok by simp
qed


section \<open>Failures of device calls\<close>






end
